theory Spec2Isabelle
  imports Complex_Main "HOL-Library.Monad_Syntax" "HOL-Library.Multiset"
begin

section \<open>Tensors\<close>

text \<open>
  The network of \<^verbatim>\<open>net_models.py\<close> computes on dense arrays. A tensor is modelled by
  its shape and its indexing function: \<open>at4 t b c i j\<close> is the element \<open>t[b, c, i, j]\<close>.
  The shape is kept beside the elements because the code reads it (\<open>g.shape[-2]\<close>,
  \<open>x2.size()[2]\<close>) also when an axis is empty. Only the elements inside the shape
  belong to the tensor; every operation below defines the elements of its result from
  elements of its arguments, so equal arguments give equal results everywhere.

  Every failure of the code is a \<open>RuntimeError\<close> (or \<open>IndexError\<close>) raised by a
  tensor operation on a shape it refuses. A computation that raises returns \<open>None\<close>.

  The element type is a parameter. The operations only need \<open>0\<close>, \<open>+\<close>, \<open>*\<close> and
  \<open>\<le>\<close> on it; theorems that need the laws of exact arithmetic ask for them in the sort
  of the element type. The type \<open>f32\<close> further down has rounded operations, and the
  type \<open>xf32\<close> has the infinities and the NaN of floating-point arithmetic as well.
\<close>

record 'a tensor4 =
  dim0 :: nat
  dim1 :: nat
  dim2 :: nat
  dim3 :: nat
  at4 :: "nat \<Rightarrow> nat \<Rightarrow> nat \<Rightarrow> nat \<Rightarrow> 'a"

text \<open>The glass tensor \<open>g\<close> has five axes \<open>(B, G, Cg, H, W)\<close>.\<close>

record 'a tensor5 =
  gdim0 :: nat
  gdim1 :: nat
  gdim2 :: nat
  gdim3 :: nat
  gdim4 :: nat
  at5 :: "nat \<Rightarrow> nat \<Rightarrow> nat \<Rightarrow> nat \<Rightarrow> nat \<Rightarrow> 'a"

definition shape4 :: "'a tensor4 \<Rightarrow> nat \<times> nat \<times> nat \<times> nat" where
  "shape4 t = (dim0 t, dim1 t, dim2 t, dim3 t)"

text \<open>\<^verbatim>\<open>torch.zeros((d0, d1, d2, d3))\<close>\<close>

definition zeros4 :: "nat \<Rightarrow> nat \<Rightarrow> nat \<Rightarrow> nat \<Rightarrow> 'a::zero tensor4" where
  "zeros4 d0 d1 d2 d3 =
     \<lparr>dim0 = d0, dim1 = d1, dim2 = d2, dim3 = d3, at4 = (\<lambda>b c i j. 0)\<rparr>"

text \<open>An elementwise function (an activation) keeps the shape.\<close>

definition map4 :: "('a \<Rightarrow> 'b) \<Rightarrow> 'a tensor4 \<Rightarrow> 'b tensor4" where
  "map4 f t =
     \<lparr>dim0 = dim0 t, dim1 = dim1 t, dim2 = dim2 t, dim3 = dim3 t,
      at4 = (\<lambda>b c i j. f (at4 t b c i j))\<rparr>"

text \<open>
  The reductions inside a convolution or a linear layer add their terms from index \<open>0\<close>
  upwards, starting from \<open>0\<close>.
\<close>

primrec sum_upto :: "nat \<Rightarrow> (nat \<Rightarrow> 'a::{zero,plus}) \<Rightarrow> 'a" where
  "sum_upto 0 f = 0"
| "sum_upto (Suc n) f = sum_upto n f + f n"

text \<open>
  \<^verbatim>\<open>torch.cat([a, b], 1)\<close> of two four-axis tensors: the other three axes must agree,
  the channels of \<open>a\<close> come first.
\<close>

definition cat1 :: "'a tensor4 \<Rightarrow> 'a tensor4 \<Rightarrow> 'a tensor4 option" where
  "cat1 a b =
     (if dim0 a = dim0 b \<and> dim2 a = dim2 b \<and> dim3 a = dim3 b
      then Some \<lparr>dim0 = dim0 a, dim1 = dim1 a + dim1 b, dim2 = dim2 a, dim3 = dim3 a,
                 at4 = (\<lambda>n c i j. if c < dim1 a then at4 a n c i j
                                    else at4 b n (c - dim1 a) i j)\<rparr>
      else None)"

text \<open>
  \<^verbatim>\<open>a + b\<close> on tensors broadcasts: two sizes of an axis are compatible when they are
  equal or one of them is \<open>1\<close>, and the axis of size \<open>1\<close> is read at index \<open>0\<close>.
\<close>

definition broadcastable :: "nat \<Rightarrow> nat \<Rightarrow> bool" where
  "broadcastable m n \<longleftrightarrow> m = n \<or> m = 1 \<or> n = 1"

definition broadcast_dim :: "nat \<Rightarrow> nat \<Rightarrow> nat" where
  "broadcast_dim m n = (if m = 1 then n else m)"

definition bidx :: "nat \<Rightarrow> nat \<Rightarrow> nat" where
  "bidx d i = (if d = 1 then 0 else i)"

definition add4 :: "'a::plus tensor4 \<Rightarrow> 'a tensor4 \<Rightarrow> 'a tensor4 option" where
  "add4 x y =
     (if broadcastable (dim0 x) (dim0 y) \<and> broadcastable (dim1 x) (dim1 y)
         \<and> broadcastable (dim2 x) (dim2 y) \<and> broadcastable (dim3 x) (dim3 y)
      then Some \<lparr>dim0 = broadcast_dim (dim0 x) (dim0 y),
                 dim1 = broadcast_dim (dim1 x) (dim1 y),
                 dim2 = broadcast_dim (dim2 x) (dim2 y),
                 dim3 = broadcast_dim (dim3 x) (dim3 y),
                 at4 = (\<lambda>b c i j.
                   at4 x (bidx (dim0 x) b) (bidx (dim1 x) c) (bidx (dim2 x) i) (bidx (dim3 x) j)
                 + at4 y (bidx (dim0 y) b) (bidx (dim1 y) c) (bidx (dim2 y) i) (bidx (dim3 y) j))\<rparr>
      else None)"

text \<open>\<^verbatim>\<open>a * t\<close> for a scalar \<open>a\<close>.\<close>

definition smul4 :: "'a::times \<Rightarrow> 'a tensor4 \<Rightarrow> 'a tensor4" where
  "smul4 a t = map4 (\<lambda>v. a * v) t"

text \<open>\<^verbatim>\<open>g[:, i, ...]\<close>: the \<open>i\<close>-th glass slice; an index outside the axis raises.\<close>

definition select1 :: "'a tensor5 \<Rightarrow> nat \<Rightarrow> 'a tensor4 option" where
  "select1 g i =
     (if i < gdim1 g
      then Some \<lparr>dim0 = gdim0 g, dim1 = gdim2 g, dim2 = gdim3 g, dim3 = gdim4 g,
                 at4 = (\<lambda>b c h w. at5 g b i c h w)\<rparr>
      else None)"


text \<open>\<^verbatim>\<open>x[:, lo:hi, :, :]\<close>: a Python slice is clipped to the axis and never raises.\<close>

definition slice1 :: "'a tensor4 \<Rightarrow> nat \<Rightarrow> nat \<Rightarrow> 'a tensor4" where
  "slice1 x lo hi =
     \<lparr>dim0 = dim0 x, dim1 = min hi (dim1 x) - min lo (dim1 x), dim2 = dim2 x, dim3 = dim3 x,
      at4 = (\<lambda>b c i j. at4 x b (c + lo) i j)\<rparr>"

text \<open>
  \<^verbatim>\<open>torch.moveaxis(t, 1, 3)\<close> turns \<open>(B, C, H, W)\<close> into \<open>(B, H, W, C)\<close>, and
  \<^verbatim>\<open>torch.moveaxis(t, 3, 1)\<close> turns it back.
\<close>

definition moveaxis_1_3 :: "'a tensor4 \<Rightarrow> 'a tensor4" where
  "moveaxis_1_3 t =
     \<lparr>dim0 = dim0 t, dim1 = dim2 t, dim2 = dim3 t, dim3 = dim1 t,
      at4 = (\<lambda>b i j c. at4 t b c i j)\<rparr>"

definition moveaxis_3_1 :: "'a tensor4 \<Rightarrow> 'a tensor4" where
  "moveaxis_3_1 t =
     \<lparr>dim0 = dim0 t, dim1 = dim3 t, dim2 = dim1 t, dim3 = dim2 t,
      at4 = (\<lambda>b c i j. at4 t b i j c)\<rparr>"

text \<open>
  \<^verbatim>\<open>F.pad(x, [pl, pr, pt, pb])\<close> (left, right, top, bottom) with the default constant mode: zeros are
  added around the last two axes. A negative amount crops. A negative resulting size
  raises.
\<close>

definition pad4 :: "'a::zero tensor4 \<Rightarrow> int \<Rightarrow> int \<Rightarrow> int \<Rightarrow> int \<Rightarrow> 'a tensor4 option" where
  "pad4 x pl pr pt pb =
     (let new_h = int (dim2 x) + pt + pb;
          new_w = int (dim3 x) + pl + pr
      in if new_h < 0 \<or> new_w < 0 then None
         else Some \<lparr>dim0 = dim0 x, dim1 = dim1 x, dim2 = nat new_h, dim3 = nat new_w,
                    at4 = (\<lambda>b c i j.
                      let si = int i - pt; sj = int j - pl
                      in if 0 \<le> si \<and> si < int (dim2 x) \<and> 0 \<le> sj \<and> sj < int (dim3 x)
                         then at4 x b c (nat si) (nat sj) else 0)\<rparr>)"

section \<open>Parameters\<close>

text \<open>
  The constructors of the modules allocate the parameter tensors; their values are drawn
  at random and then trained. The model reads the current values from a state dict: a
  parameter is found under the name torch gives it
  (\<^verbatim>\<open>cnet.tnet.tnet_f.layer1.0.weight\<close>) and read at a list of indices.
\<close>

type_synonym 'a state_dict = "string \<Rightarrow> nat list \<Rightarrow> 'a"

definition sub :: "string \<Rightarrow> string \<Rightarrow> string" where
  "sub name child = (if name = [] then child else name @ ''.'' @ child)"

section \<open>Layers of the library\<close>

subsection \<open>nn.Conv2d\<close>

text \<open>
  \<^verbatim>\<open>nn.Conv2d(in_channels, out_channels, kernel_size, padding, bias)\<close> with stride 1
  and a square kernel. The weight has shape
  \<open>(out_channels, in_channels, kernel_size, kernel_size)\<close>.
\<close>

record 'a Conv2d =
  in_channels :: nat
  out_channels :: nat
  kernel_size :: nat
  padding :: nat
  weight :: "nat \<Rightarrow> nat \<Rightarrow> nat \<Rightarrow> nat \<Rightarrow> 'a"
  bias :: "(nat \<Rightarrow> 'a) option"

definition Conv2d_init ::
  "'a state_dict \<Rightarrow> string \<Rightarrow> nat \<Rightarrow> nat \<Rightarrow> nat \<Rightarrow> nat \<Rightarrow> bool \<Rightarrow> 'a Conv2d" where
  "Conv2d_init sd name cin cout k p has_bias =
     \<lparr>in_channels = cin, out_channels = cout, kernel_size = k, padding = p,
      weight = (\<lambda>oc c di dj. sd (sub name ''weight'') [oc, c, di, dj]),
      bias = (if has_bias then Some (\<lambda>oc. sd (sub name ''bias'') [oc]) else None)\<rparr>"

text \<open>The input read through the zero padding of width \<open>p\<close>.\<close>

definition pad_read :: "'a::zero tensor4 \<Rightarrow> nat \<Rightarrow> nat \<Rightarrow> nat \<Rightarrow> nat \<Rightarrow> nat \<Rightarrow> 'a" where
  "pad_read x p b c i j =
     (if p \<le> i \<and> i < p + dim2 x \<and> p \<le> j \<and> j < p + dim3 x
      then at4 x b c (i - p) (j - p) else 0)"

definition Conv2d_at ::
  "'a::{zero,plus,times} Conv2d \<Rightarrow> 'a tensor4 \<Rightarrow> nat \<Rightarrow> nat \<Rightarrow> nat \<Rightarrow> nat \<Rightarrow> 'a" where
  "Conv2d_at m x b oc i j =
     (let s = sum_upto (in_channels m) (\<lambda>c.
                sum_upto (kernel_size m) (\<lambda>di.
                  sum_upto (kernel_size m) (\<lambda>dj.
                    weight m oc c di dj * pad_read x (padding m) b c (i + di) (j + dj))))
      in case bias m of None \<Rightarrow> s | Some bv \<Rightarrow> s + bv oc)"

text \<open>
  The forward pass raises when the weight has no output channel, when the input does not
  have \<open>in_channels\<close> channels, and when the padded input is smaller than the kernel.
  An input without channels (for a layer built with \<open>in_channels = 0\<close>) is not sent
  through the convolution: the library returns a tensor that has no channel either, so
  the layer after it, which expects \<open>out_channels\<close> channels, raises.
\<close>

definition Conv2d_forward ::
  "'a::{zero,plus,times} Conv2d \<Rightarrow> 'a tensor4 \<Rightarrow> 'a tensor4 option" where
  "Conv2d_forward m x =
     (if out_channels m < 1 then None
      else if dim1 x \<noteq> in_channels m then None
      else if dim2 x + 2 * padding m < kernel_size m
              \<or> dim3 x + 2 * padding m < kernel_size m then None
      else Some \<lparr>dim0 = dim0 x, dim1 = (if dim1 x = 0 then 0 else out_channels m),
                 dim2 = dim2 x + 2 * padding m + 1 - kernel_size m,
                 dim3 = dim3 x + 2 * padding m + 1 - kernel_size m,
                 at4 = Conv2d_at m x\<rparr>)"

subsection \<open>Activations\<close>

text \<open>
  \<^verbatim>\<open>nn.ReLU(inplace=True)\<close> and \<^verbatim>\<open>nn.LeakyReLU(inplace=True)\<close> (negative slope
  \<open>0.01\<close>, the library's default). Each stands right after a layer that has just
  allocated its output, so writing in place changes no tensor the caller holds.

  ReLU replaces an element \<open>v \<le> 0\<close> by \<open>0\<close> and keeps every other element. On numbers
  this is \<open>max 0 v\<close>. An element that does not compare with \<open>0\<close> at all, as the NaN of
  floating-point arithmetic, is kept: the ReLU of NaN is NaN.
\<close>

definition relu :: "'a::{zero,ord} \<Rightarrow> 'a" where
  "relu v = (if v \<le> 0 then 0 else v)"

definition ReLU :: "'a::{zero,ord} tensor4 \<Rightarrow> 'a tensor4" where
  "ReLU x = map4 relu x"

definition leaky_relu :: "'a::linordered_field \<Rightarrow> 'a" where
  "leaky_relu v = (if 0 < v then v else v * (1 / 100))"

definition LeakyReLU :: "'a::linordered_field tensor4 \<Rightarrow> 'a tensor4" where
  "LeakyReLU x = map4 leaky_relu x"

subsection \<open>nn.MaxPool2d(2)\<close>

text \<open>
  Windows of \<open>2 \<times> 2\<close> with stride \<open>2\<close>; an odd last row or column is dropped. It raises
  on an input without channels and when the output would be empty. The maximum of a
  window is taken in a linear order, where it is \<open>max\<close>; the library's pooling
  propagates a NaN, which \<open>max\<close> would not, so element types with a NaN are kept out
  of this layer by its sort.
\<close>

definition MaxPool2d :: "'a::linorder tensor4 \<Rightarrow> 'a tensor4 option" where
  "MaxPool2d x =
     (if dim1 x = 0 \<or> dim2 x div 2 < 1 \<or> dim3 x div 2 < 1 then None
      else Some \<lparr>dim0 = dim0 x, dim1 = dim1 x, dim2 = dim2 x div 2, dim3 = dim3 x div 2,
                 at4 = (\<lambda>b c i j.
                   max (max (at4 x b c (2 * i) (2 * j)) (at4 x b c (2 * i) (2 * j + 1)))
                       (max (at4 x b c (2 * i + 1) (2 * j))
                            (at4 x b c (2 * i + 1) (2 * j + 1))))\<rparr>)"

subsection \<open>nn.Upsample(scale_factor=2, mode='bilinear', align_corners=True)\<close>

text \<open>
  The output has twice the height and width. With aligned corners, output row \<open>i\<close>
  lies at source coordinate \<open>i * (H - 1) / (2 * H - 1)\<close>; the value is interpolated between
  the two neighbouring rows (and likewise between columns). The coordinate is split into
  its integer part and its fraction.
\<close>

definition src_index :: "nat \<Rightarrow> nat \<Rightarrow> nat" where
  "src_index n i = (i * (n - 1)) div (2 * n - 1)"

definition src_frac :: "nat \<Rightarrow> nat \<Rightarrow> 'a::linordered_field" where
  "src_frac n i = of_nat ((i * (n - 1)) mod (2 * n - 1)) / of_nat (2 * n - 1)"

definition src_next :: "nat \<Rightarrow> nat \<Rightarrow> nat" where
  "src_next n i = (if src_index n i < n - 1 then src_index n i + 1 else src_index n i)"

definition Upsample :: "'a::linordered_field tensor4 \<Rightarrow> 'a tensor4 option" where
  "Upsample x =
     (if dim1 x = 0 \<or> dim2 x = 0 \<or> dim3 x = 0 then None
      else Some \<lparr>dim0 = dim0 x, dim1 = dim1 x, dim2 = 2 * dim2 x, dim3 = 2 * dim3 x,
                 at4 = (\<lambda>b c i j.
                   let i0 = src_index (dim2 x) i; i1 = src_next (dim2 x) i;
                       j0 = src_index (dim3 x) j; j1 = src_next (dim3 x) j;
                       li = src_frac (dim2 x) i; lj = src_frac (dim3 x) j
                   in (1 - li) * ((1 - lj) * at4 x b c i0 j0 + lj * at4 x b c i0 j1)
                      + li * ((1 - lj) * at4 x b c i1 j0 + lj * at4 x b c i1 j1))\<rparr>)"

subsection \<open>nn.ConvTranspose2d(in_channels, out_channels, kernel_size=2, stride=2)\<close>

text \<open>
  The weight has shape \<open>(in_channels, out_channels, 2, 2)\<close>; every input pixel is spread
  over its own \<open>2 \<times> 2\<close> block of the output. The forward pass raises on a weight without
  elements (\<open>in_channels = 0\<close> or \<open>out_channels = 0\<close>), on an input that does not have
  \<open>in_channels\<close> channels, and on an empty image.
\<close>

record 'a ConvTranspose2d =
  ct_in_channels :: nat
  ct_out_channels :: nat
  ct_weight :: "nat \<Rightarrow> nat \<Rightarrow> nat \<Rightarrow> nat \<Rightarrow> 'a"
  ct_bias :: "nat \<Rightarrow> 'a"

definition ConvTranspose2d_init ::
  "'a state_dict \<Rightarrow> string \<Rightarrow> nat \<Rightarrow> nat \<Rightarrow> 'a ConvTranspose2d" where
  "ConvTranspose2d_init sd name cin cout =
     \<lparr>ct_in_channels = cin, ct_out_channels = cout,
      ct_weight = (\<lambda>c oc di dj. sd (sub name ''weight'') [c, oc, di, dj]),
      ct_bias = (\<lambda>oc. sd (sub name ''bias'') [oc])\<rparr>"

definition ConvTranspose2d_forward ::
  "'a::{zero,plus,times} ConvTranspose2d \<Rightarrow> 'a tensor4 \<Rightarrow> 'a tensor4 option" where
  "ConvTranspose2d_forward m x =
     (if ct_in_channels m < 1 \<or> ct_out_channels m < 1 then None
      else if dim1 x \<noteq> ct_in_channels m then None
      else if dim2 x = 0 \<or> dim3 x = 0 then None
      else Some \<lparr>dim0 = dim0 x, dim1 = ct_out_channels m, dim2 = 2 * dim2 x, dim3 = 2 * dim3 x,
                 at4 = (\<lambda>b oc i j.
                   sum_upto (ct_in_channels m) (\<lambda>c.
                     at4 x b c (i div 2) (j div 2) * ct_weight m c oc (i mod 2) (j mod 2))
                   + ct_bias m oc)\<rparr>)"

subsection \<open>nn.Linear\<close>

text \<open>
  The weight has shape \<open>(out_features, in_features)\<close>. The layer acts on the last axis,
  which must have \<open>in_features\<close> entries.
\<close>

record 'a Linear =
  in_features :: nat
  out_features :: nat
  lin_weight :: "nat \<Rightarrow> nat \<Rightarrow> 'a"
  lin_bias :: "nat \<Rightarrow> 'a"

definition Linear_init :: "'a state_dict \<Rightarrow> string \<Rightarrow> nat \<Rightarrow> nat \<Rightarrow> 'a Linear" where
  "Linear_init sd name fin fout =
     \<lparr>in_features = fin, out_features = fout,
      lin_weight = (\<lambda>k c. sd (sub name ''weight'') [k, c]),
      lin_bias = (\<lambda>k. sd (sub name ''bias'') [k])\<rparr>"

definition Linear_forward ::
  "'a::{zero,plus,times} Linear \<Rightarrow> 'a tensor4 \<Rightarrow> 'a tensor4 option" where
  "Linear_forward m x =
     (if dim3 x \<noteq> in_features m then None
      else Some \<lparr>dim0 = dim0 x, dim1 = dim1 x, dim2 = dim2 x, dim3 = out_features m,
                 at4 = (\<lambda>b i j k.
                   sum_upto (in_features m) (\<lambda>c. at4 x b i j c * lin_weight m k c)
                   + lin_bias m k)\<rparr>)"

section \<open>The modules of net_models.py\<close>

subsection \<open>DoubleConv\<close>

text \<open>
  \<^verbatim>\<open>(convolution => ReLU) * 2\<close>: two \<open>3 \<times> 3\<close> convolutions with padding \<open>1\<close> and no
  bias. \<^verbatim>\<open>if not mid_channels\<close> also replaces a \<open>mid_channels\<close> of \<open>0\<close>.
\<close>

record 'a DoubleConv =
  double_conv_0 :: "'a Conv2d"
  double_conv_2 :: "'a Conv2d"

definition DoubleConv_init ::
  "'a state_dict \<Rightarrow> string \<Rightarrow> nat \<Rightarrow> nat \<Rightarrow> nat option \<Rightarrow> 'a DoubleConv" where
  "DoubleConv_init sd name cin cout mid_channels =
     (let mid = (case mid_channels of None \<Rightarrow> cout
                 | Some mc \<Rightarrow> if mc = 0 then cout else mc)
      in \<lparr>double_conv_0 = Conv2d_init sd (sub name ''double_conv.0'') cin mid 3 1 False,
          double_conv_2 = Conv2d_init sd (sub name ''double_conv.2'') mid cout 3 1 False\<rparr>)"

definition DoubleConv_forward ::
  "'a::{zero,plus,times,ord} DoubleConv \<Rightarrow> 'a tensor4 \<Rightarrow> 'a tensor4 option" where
  "DoubleConv_forward m x = do {
     x \<leftarrow> Conv2d_forward (double_conv_0 m) x;
     x \<leftarrow> Conv2d_forward (double_conv_2 m) (ReLU x);
     Some (ReLU x) }"

subsection \<open>Down\<close>

record 'a Down =
  maxpool_conv_1 :: "'a DoubleConv"

definition Down_init :: "'a state_dict \<Rightarrow> string \<Rightarrow> nat \<Rightarrow> nat \<Rightarrow> 'a Down" where
  "Down_init sd name cin cout =
     \<lparr>maxpool_conv_1 = DoubleConv_init sd (sub name ''maxpool_conv.1'') cin cout None\<rparr>"

definition Down_forward ::
  "'a::{zero,plus,times,linorder} Down \<Rightarrow> 'a tensor4 \<Rightarrow> 'a tensor4 option" where
  "Down_forward m x = do {
     x \<leftarrow> MaxPool2d x;
     DoubleConv_forward (maxpool_conv_1 m) x }"

subsection \<open>Up\<close>

text \<open>
  \<^verbatim>\<open>self.up\<close> is the bilinear upsampling, which has no parameters, or a transposed
  convolution that halves the channels.
\<close>

datatype 'a up_layer = Bilinear | Transposed "'a ConvTranspose2d"

record 'a Up =
  up :: "'a up_layer"
  conv :: "'a DoubleConv"

definition Up_init :: "'a state_dict \<Rightarrow> string \<Rightarrow> nat \<Rightarrow> nat \<Rightarrow> bool \<Rightarrow> 'a Up" where
  "Up_init sd name cin cout bilinear =
     (if bilinear
      then \<lparr>up = Bilinear,
            conv = DoubleConv_init sd (sub name ''conv'') cin cout (Some (cin div 2))\<rparr>
      else \<lparr>up = Transposed (ConvTranspose2d_init sd (sub name ''up'') cin (cin div 2)),
            conv = DoubleConv_init sd (sub name ''conv'') cin cout None\<rparr>)"

definition up_forward :: "'a::linordered_field up_layer \<Rightarrow> 'a tensor4 \<Rightarrow> 'a tensor4 option" where
  "up_forward u x = (case u of Bilinear \<Rightarrow> Upsample x
                     | Transposed ct \<Rightarrow> ConvTranspose2d_forward ct x)"

text \<open>
  Lines 60 to 64 of the source: the upsampled \<open>x1\<close> is padded to the size of the skip
  \<open>x2\<close>. \<open>Up_pad_list\<close> is the list given to \<^verbatim>\<open>F.pad\<close>: left, right, top, bottom.
  \<open>div\<close> on \<open>int\<close> rounds down, as \<^verbatim>\<open>//\<close> does.
\<close>

definition Up_pad_list :: "'a tensor4 \<Rightarrow> 'a tensor4 \<Rightarrow> int \<times> int \<times> int \<times> int" where
  "Up_pad_list x1 x2 =
     (let diffY = int (dim2 x2) - int (dim2 x1);
          diffX = int (dim3 x2) - int (dim3 x1)
      in (diffX div 2, diffX - diffX div 2, diffY div 2, diffY - diffY div 2))"

definition Up_pad :: "'a::zero tensor4 \<Rightarrow> 'a tensor4 \<Rightarrow> 'a tensor4 option" where
  "Up_pad x1 x2 = (case Up_pad_list x1 x2 of (pl, pr, pt, pb) \<Rightarrow> pad4 x1 pl pr pt pb)"

definition Up_forward ::
  "'a::linordered_field Up \<Rightarrow> 'a tensor4 \<Rightarrow> 'a tensor4 \<Rightarrow> 'a tensor4 option" where
  "Up_forward m x1 x2 = do {
     x1 \<leftarrow> up_forward (up m) x1;
     x1 \<leftarrow> Up_pad x1 x2;
     x \<leftarrow> cat1 x2 x1;
     DoubleConv_forward (conv m) x }"

subsection \<open>OutConv\<close>

record 'a OutConv =
  outconv_conv :: "'a Conv2d"

definition OutConv_init :: "'a state_dict \<Rightarrow> string \<Rightarrow> nat \<Rightarrow> nat \<Rightarrow> 'a OutConv" where
  "OutConv_init sd name cin cout =
     \<lparr>outconv_conv = Conv2d_init sd (sub name ''conv'') cin cout 1 0 True\<rparr>"

definition OutConv_forward ::
  "'a::{zero,plus,times} OutConv \<Rightarrow> 'a tensor4 \<Rightarrow> 'a tensor4 option" where
  "OutConv_forward m x = Conv2d_forward (outconv_conv m) x"

subsection \<open>UNet\<close>

record 'a UNet =
  inc :: "'a DoubleConv"
  down1 :: "'a Down"
  down2 :: "'a Down"
  down3 :: "'a Down"
  down4 :: "'a Down"
  up1 :: "'a Up"
  up2 :: "'a Up"
  up3 :: "'a Up"
  up4 :: "'a Up"
  outc :: "'a OutConv"

definition UNet_init :: "'a state_dict \<Rightarrow> string \<Rightarrow> nat \<Rightarrow> nat \<Rightarrow> bool \<Rightarrow> 'a UNet" where
  "UNet_init sd name n_channels n_classes bilinear =
     (let factor = (if bilinear then 2 else 1)
      in \<lparr>inc = DoubleConv_init sd (sub name ''inc'') n_channels 32 None,
          down1 = Down_init sd (sub name ''down1'') 32 64,
          down2 = Down_init sd (sub name ''down2'') 64 128,
          down3 = Down_init sd (sub name ''down3'') 128 256,
          down4 = Down_init sd (sub name ''down4'') 256 (512 div factor),
          up1 = Up_init sd (sub name ''up1'') 512 (256 div factor) bilinear,
          up2 = Up_init sd (sub name ''up2'') 256 (128 div factor) bilinear,
          up3 = Up_init sd (sub name ''up3'') 128 (64 div factor) bilinear,
          up4 = Up_init sd (sub name ''up4'') 64 32 bilinear,
          outc = OutConv_init sd (sub name ''outc'') 32 n_classes\<rparr>)"

definition UNet_forward ::
  "'a::linordered_field UNet \<Rightarrow> 'a tensor4 \<Rightarrow> 'a tensor4 option" where
  "UNet_forward m x = do {
     x1 \<leftarrow> DoubleConv_forward (inc m) x;
     x2 \<leftarrow> Down_forward (down1 m) x1;
     x3 \<leftarrow> Down_forward (down2 m) x2;
     x4 \<leftarrow> Down_forward (down3 m) x3;
     x5 \<leftarrow> Down_forward (down4 m) x4;
     x \<leftarrow> Up_forward (up1 m) x5 x4;
     x \<leftarrow> Up_forward (up2 m) x x3;
     x \<leftarrow> Up_forward (up3 m) x x2;
     x \<leftarrow> Up_forward (up4 m) x x1;
     OutConv_forward (outc m) x }"

subsection \<open>ThreeWayUNet\<close>

text \<open>
  One encoder and three decoder groups. The encoder fields carry the prefix \<open>tw_\<close>
  only to keep them apart from the fields of \<open>UNet\<close>.
\<close>

record 'a ThreeWayUNet =
  tw_inc :: "'a DoubleConv"
  tw_down1 :: "'a Down"
  tw_down2 :: "'a Down"
  tw_down3 :: "'a Down"
  tw_down4 :: "'a Down"
  up_group_1_0 :: "'a Up"
  up_group_1_1 :: "'a Up"
  up_group_1_2 :: "'a Up"
  up_group_1_3 :: "'a Up"
  up_group_1_4 :: "'a OutConv"
  up_group_2_0 :: "'a Up"
  up_group_2_1 :: "'a Up"
  up_group_2_2 :: "'a Up"
  up_group_2_3 :: "'a Up"
  up_group_2_4 :: "'a OutConv"
  up_group_3_0 :: "'a Up"
  up_group_3_1 :: "'a Up"
  up_group_3_2 :: "'a Up"
  up_group_3_3 :: "'a Up"
  up_group_3_4 :: "'a OutConv"

definition ThreeWayUNet_init ::
  "'a state_dict \<Rightarrow> string \<Rightarrow> nat \<Rightarrow> nat \<Rightarrow> bool \<Rightarrow> 'a ThreeWayUNet" where
  "ThreeWayUNet_init sd name n_channels n_classes bilinear =
     (let factor = (if bilinear then 2 else 1)
      in \<lparr>tw_inc = DoubleConv_init sd (sub name ''inc'') n_channels 32 None,
          tw_down1 = Down_init sd (sub name ''down1'') 32 64,
          tw_down2 = Down_init sd (sub name ''down2'') 64 128,
          tw_down3 = Down_init sd (sub name ''down3'') 128 256,
          tw_down4 = Down_init sd (sub name ''down4'') 256 (512 div factor),
          up_group_1_0 = Up_init sd (sub name ''up_group_1_0'') 512 (256 div factor) bilinear,
          up_group_1_1 = Up_init sd (sub name ''up_group_1_1'') 256 (128 div factor) bilinear,
          up_group_1_2 = Up_init sd (sub name ''up_group_1_2'') 128 (64 div factor) bilinear,
          up_group_1_3 = Up_init sd (sub name ''up_group_1_3'') 64 32 bilinear,
          up_group_1_4 = OutConv_init sd (sub name ''up_group_1_4'') 32 3,
          up_group_2_0 = Up_init sd (sub name ''up_group_2_0'') 512 (256 div factor) bilinear,
          up_group_2_1 = Up_init sd (sub name ''up_group_2_1'') 256 (128 div factor) bilinear,
          up_group_2_2 = Up_init sd (sub name ''up_group_2_2'') 128 (64 div factor) bilinear,
          up_group_2_3 = Up_init sd (sub name ''up_group_2_3'') 64 32 bilinear,
          up_group_2_4 = OutConv_init sd (sub name ''up_group_2_4'') 32 n_classes,
          up_group_3_0 = Up_init sd (sub name ''up_group_3_0'') 512 (256 div factor) bilinear,
          up_group_3_1 = Up_init sd (sub name ''up_group_3_1'') 256 (128 div factor) bilinear,
          up_group_3_2 = Up_init sd (sub name ''up_group_3_2'') 128 (64 div factor) bilinear,
          up_group_3_3 = Up_init sd (sub name ''up_group_3_3'') 64 32 bilinear,
          up_group_3_4 = OutConv_init sd (sub name ''up_group_3_4'') 32 2\<rparr>)"

text \<open>The result is the triple \<open>(out1, out2, out3)\<close>: normal, oi, uv.\<close>

definition ThreeWayUNet_forward ::
  "'a::linordered_field ThreeWayUNet \<Rightarrow> 'a tensor4
     \<Rightarrow> ('a tensor4 \<times> 'a tensor4 \<times> 'a tensor4) option" where
  "ThreeWayUNet_forward m x = do {
     x1 \<leftarrow> DoubleConv_forward (tw_inc m) x;
     x2 \<leftarrow> Down_forward (tw_down1 m) x1;
     x3 \<leftarrow> Down_forward (tw_down2 m) x2;
     x4 \<leftarrow> Down_forward (tw_down3 m) x3;
     x5 \<leftarrow> Down_forward (tw_down4 m) x4;
     out1 \<leftarrow> Up_forward (up_group_1_0 m) x5 x4;
     out1 \<leftarrow> Up_forward (up_group_1_1 m) out1 x3;
     out1 \<leftarrow> Up_forward (up_group_1_2 m) out1 x2;
     out1 \<leftarrow> Up_forward (up_group_1_3 m) out1 x1;
     out1 \<leftarrow> OutConv_forward (up_group_1_4 m) out1;
     out2 \<leftarrow> Up_forward (up_group_2_0 m) x5 x4;
     out2 \<leftarrow> Up_forward (up_group_2_1 m) out2 x3;
     out2 \<leftarrow> Up_forward (up_group_2_2 m) out2 x2;
     out2 \<leftarrow> Up_forward (up_group_2_3 m) out2 x1;
     out2 \<leftarrow> OutConv_forward (up_group_2_4 m) out2;
     out3 \<leftarrow> Up_forward (up_group_3_0 m) x5 x4;
     out3 \<leftarrow> Up_forward (up_group_3_1 m) out3 x3;
     out3 \<leftarrow> Up_forward (up_group_3_2 m) out3 x2;
     out3 \<leftarrow> Up_forward (up_group_3_3 m) out3 x1;
     out3 \<leftarrow> OutConv_forward (up_group_3_4 m) out3;
     Some (out1, out2, out3) }"

subsection \<open>RNet\<close>

record 'a RNet =
  layer0 :: "'a Conv2d"
  layer1 :: "'a Conv2d"
  layer2 :: "'a Conv2d"
  layer3 :: "'a Conv2d"

definition RNet_init :: "'a state_dict \<Rightarrow> string \<Rightarrow> nat \<Rightarrow> nat \<Rightarrow> 'a RNet" where
  "RNet_init sd name in_channel out_channel =
     \<lparr>layer0 = Conv2d_init sd (sub name ''layer0.0'') in_channel 32 5 2 True,
      layer1 = Conv2d_init sd (sub name ''layer1.0'') 32 64 3 1 True,
      layer2 = Conv2d_init sd (sub name ''layer2.0'') 64 32 3 1 True,
      layer3 = Conv2d_init sd (sub name ''layer3.0'') 32 out_channel 1 0 True\<rparr>"

definition RNet_forward ::
  "'a::linordered_field RNet \<Rightarrow> 'a tensor4 \<Rightarrow> 'a tensor4 option" where
  "RNet_forward m x = do {
     x \<leftarrow> Conv2d_forward (layer0 m) x;
     x \<leftarrow> Conv2d_forward (layer1 m) (LeakyReLU x);
     x \<leftarrow> Conv2d_forward (layer2 m) (LeakyReLU x);
     Conv2d_forward (layer3 m) (LeakyReLU x) }"

subsection \<open>TNetBackBone\<close>

record 'a TNetBackBone =
  bb_layer1 :: "'a Conv2d"
  bb_layer2 :: "'a Conv2d"
  bb_layer3 :: "'a Conv2d"
  bb_layer4 :: "'a Conv2d"

definition TNetBackBone_init ::
  "'a state_dict \<Rightarrow> string \<Rightarrow> nat \<Rightarrow> nat \<Rightarrow> 'a TNetBackBone" where
  "TNetBackBone_init sd name in_channel out_channel =
     \<lparr>bb_layer1 = Conv2d_init sd (sub name ''layer1.0'') in_channel 64 3 1 True,
      bb_layer2 = Conv2d_init sd (sub name ''layer2.0'') 64 128 3 1 True,
      bb_layer3 = Conv2d_init sd (sub name ''layer3.0'') 128 64 3 1 True,
      bb_layer4 = Conv2d_init sd (sub name ''layer4.0'') 64 out_channel 1 0 True\<rparr>"

definition TNetBackBone_forward ::
  "'a::{zero,plus,times,ord} TNetBackBone \<Rightarrow> 'a tensor4 \<Rightarrow> 'a tensor4 option" where
  "TNetBackBone_forward m x = do {
     x \<leftarrow> Conv2d_forward (bb_layer1 m) x;
     x \<leftarrow> Conv2d_forward (bb_layer2 m) (ReLU x);
     x \<leftarrow> Conv2d_forward (bb_layer3 m) (ReLU x);
     x \<leftarrow> Conv2d_forward (bb_layer4 m) (ReLU x);
     Some (ReLU x) }"

subsection \<open>TNet\<close>

record 'a TNet =
  tnet_f :: "'a TNetBackBone"
  tnet_b :: "'a TNetBackBone"
  hidden :: nat

definition TNet_init :: "'a state_dict \<Rightarrow> string \<Rightarrow> nat \<Rightarrow> nat \<Rightarrow> 'a TNet" where
  "TNet_init sd name in_channel hid =
     \<lparr>tnet_f = TNetBackBone_init sd (sub name ''tnet_f'') in_channel hid,
      tnet_b = TNetBackBone_init sd (sub name ''tnet_b'') hid 16,
      hidden = hid\<rparr>"

text \<open>
  The body of the loop for one glass index: the term that \<open>tnet_f\<close> computes from
  \<open>rx\<close> and the \<open>i\<close>-th glass slice, added to the accumulator. Then the loop over the
  indices that \<^verbatim>\<open>range(num_of_glass)\<close> yields. The source creates the accumulator with
  \<^verbatim>\<open>device="cuda"\<close>; tensors here carry no device, so a run on a machine without that
  device, or with inputs on another one, is not represented.
\<close>

definition TNet_contrib ::
  "'a::{zero,plus,times,ord} TNet \<Rightarrow> 'a tensor5 \<Rightarrow> 'a tensor4 \<Rightarrow> nat \<Rightarrow> 'a tensor4 option" where
  "TNet_contrib m g rx i = do {
     gi \<leftarrow> select1 g i;
     c \<leftarrow> cat1 rx gi;
     TNetBackBone_forward (tnet_f m) c }"

definition TNet_step ::
  "'a::{zero,plus,times,ord} TNet \<Rightarrow> 'a tensor5 \<Rightarrow> 'a tensor4 \<Rightarrow> nat \<Rightarrow> 'a tensor4
     \<Rightarrow> 'a tensor4 option" where
  "TNet_step m g rx i result = do {
     y \<leftarrow> TNet_contrib m g rx i;
     add4 result y }"

fun TNet_loop ::
  "'a::{zero,plus,times,ord} TNet \<Rightarrow> 'a tensor5 \<Rightarrow> 'a tensor4 \<Rightarrow> nat list \<Rightarrow> 'a tensor4
     \<Rightarrow> 'a tensor4 option" where
  "TNet_loop m g rx [] result = Some result"
| "TNet_loop m g rx (i # idxs) result = do {
     result \<leftarrow> TNet_step m g rx i result;
     TNet_loop m g rx idxs result }"

definition TNet_forward ::
  "'a::{zero,plus,times,ord} TNet \<Rightarrow> 'a tensor5 \<Rightarrow> 'a tensor4 \<Rightarrow> 'a tensor4 option" where
  "TNet_forward m g rx =
     (let num_of_glass = gdim1 g;
          result = zeros4 (gdim0 g) (hidden m) (gdim3 g) (gdim4 g)
      in do {
        result \<leftarrow> TNet_loop m g rx [0..<num_of_glass] result;
        TNetBackBone_forward (tnet_b m) result })"

subsection \<open>fc_layer\<close>

text \<open>\<^verbatim>\<open>nn.Sequential(nn.Linear(in_features, out_features), nn.LeakyReLU(inplace=True))\<close>\<close>

record 'a fc_layer =
  fc_0 :: "'a Linear"

definition fc_layer_init :: "'a state_dict \<Rightarrow> string \<Rightarrow> nat \<Rightarrow> nat \<Rightarrow> 'a fc_layer" where
  "fc_layer_init sd name fin fout = \<lparr>fc_0 = Linear_init sd (sub name ''0'') fin fout\<rparr>"

definition fc_layer_forward ::
  "'a::linordered_field fc_layer \<Rightarrow> 'a tensor4 \<Rightarrow> 'a tensor4 option" where
  "fc_layer_forward m x = do {
     x \<leftarrow> Linear_forward (fc_0 m) x;
     Some (LeakyReLU x) }"

subsection \<open>CNet\<close>

record 'a CNet =
  inner_pos :: "'a fc_layer"
  unet :: "'a UNet"
  tnet :: "'a TNet"
  r_unet :: "'a ThreeWayUNet"
  rnet_uv :: "'a RNet"
  rnet_normal :: "'a RNet"

definition CNet_init :: "'a state_dict \<Rightarrow> string \<Rightarrow> nat \<Rightarrow> 'a CNet" where
  "CNet_init sd name n_oi =
     \<lparr>inner_pos = fc_layer_init sd (sub name ''inner_pos'') 3 16,
      unet = UNet_init sd (sub name ''unet'') 37 8 True,
      tnet = TNet_init sd (sub name ''tnet'') (8 + 17) 32,
      r_unet = ThreeWayUNet_init sd (sub name ''r_unet'') 24 n_oi True,
      rnet_uv = RNet_init sd (sub name ''rnet_uv'') 2 2,
      rnet_normal = RNet_init sd (sub name ''rnet_normal'') 3 3\<rparr>"

text \<open>
  Lines 250 to 258: the input of the three-way decoder, from the positional encoding,
  the UNet and the TNet.
\<close>

definition CNet_rtx ::
  "'a::linordered_field CNet \<Rightarrow> 'a tensor4 \<Rightarrow> 'a tensor5 \<Rightarrow> 'a tensor4 option" where
  "CNet_rtx m x g =
     (let position = slice1 x 4 7;
          position = moveaxis_1_3 position
      in do {
        pe \<leftarrow> fc_layer_forward (inner_pos m) position;
        x \<leftarrow> cat1 x (moveaxis_3_1 pe);
        rx \<leftarrow> UNet_forward (unet m) x;
        tx \<leftarrow> TNet_forward (tnet m) g rx;
        cat1 rx tx })"

definition CNet_forward ::
  "'a::linordered_field CNet \<Rightarrow> 'a tensor4 \<Rightarrow> 'a tensor5
     \<Rightarrow> ('a tensor4 \<times> 'a tensor4 \<times> 'a tensor4) option" where
  "CNet_forward m x g = do {
     rtx \<leftarrow> CNet_rtx m x g;
     (normal, oi, uv) \<leftarrow> ThreeWayUNet_forward (r_unet m) rtx;
     uv \<leftarrow> RNet_forward (rnet_uv m) uv;
     normal \<leftarrow> RNet_forward (rnet_normal m) normal;
     Some (normal, oi, uv) }"

subsection \<open>CrystalNet\<close>

record 'a CrystalNet =
  cnet :: "'a CNet"

definition CrystalNet_init :: "'a state_dict \<Rightarrow> nat \<Rightarrow> 'a CrystalNet" where
  "CrystalNet_init sd n_oi = \<lparr>cnet = CNet_init sd ''cnet'' n_oi\<rparr>"

definition CrystalNet_forward ::
  "'a::linordered_field CrystalNet \<Rightarrow> 'a tensor4 \<Rightarrow> 'a tensor5
     \<Rightarrow> ('a tensor4 \<times> 'a tensor4 \<times> 'a tensor4) option" where
  "CrystalNet_forward m x g = do {
     (n, o', d) \<leftarrow> CNet_forward (cnet m) x g;
     Some (n, o', d) }"

section \<open>Auxiliary notions\<close>



section \<open>Rounded arithmetic\<close>

text \<open>
  \<^verbatim>\<open>torch.zeros\<close> and the parameters of the modules have the default element type
  \<open>float32\<close>, so the additions and multiplications of the network round: the result of
  an operation is the binary32 number nearest to the exact result, a tie going to the
  neighbour with an even significand. A binary32 number has \<open>24\<close> significant bits.

  The type \<open>f32\<close> holds the integer-valued binary32 numbers: \<open>F32 n\<close> stands for the
  number \<open>n\<close>, and it is a binary32 number when \<open>round24 n = n\<close>. Sums and products of
  integers are integers, so the rounded operations stay inside the type. An integer
  below \<open>2 ^ 24\<close> in magnitude is exact; from there on the spacing of the binary32 numbers
  doubles with every bit. Overflow, infinities, NaN and the sign of zero are left out of this type:
  the numbers used below stay under \<open>2 ^ 25\<close>.
\<close>

datatype f32 = F32 int

text \<open>The exponent of the spacing of the binary32 numbers around magnitude \<open>n\<close>.\<close>

fun ulp_exp :: "nat \<Rightarrow> nat" where
  "ulp_exp n = (if n < 2 ^ 24 then 0 else Suc (ulp_exp (n div 2)))"

declare ulp_exp.simps [simp del]

text \<open>Rounding to the nearest multiple of the spacing, ties to even.\<close>

definition round24 :: "int \<Rightarrow> int" where
  "round24 n =
     (let u = 2 ^ ulp_exp (nat \<bar>n\<bar>); q = n div u; r = n mod u
      in if 2 * r < u then q * u
         else if u < 2 * r then (q + 1) * u
         else if even q then q * u else (q + 1) * u)"

instantiation f32 :: "{zero,plus,times,ord}"
begin

definition zero_f32 :: f32 where
  "zero_f32 = F32 0"

definition plus_f32 :: "f32 \<Rightarrow> f32 \<Rightarrow> f32" where
  "plus_f32 x y = (case (x, y) of (F32 a, F32 b) \<Rightarrow> F32 (round24 (a + b)))"

definition times_f32 :: "f32 \<Rightarrow> f32 \<Rightarrow> f32" where
  "times_f32 x y = (case (x, y) of (F32 a, F32 b) \<Rightarrow> F32 (round24 (a * b)))"

definition less_eq_f32 :: "f32 \<Rightarrow> f32 \<Rightarrow> bool" where
  "less_eq_f32 x y = (case (x, y) of (F32 a, F32 b) \<Rightarrow> a \<le> b)"

definition less_f32 :: "f32 \<Rightarrow> f32 \<Rightarrow> bool" where
  "less_f32 x y = (case (x, y) of (F32 a, F32 b) \<Rightarrow> a < b)"

instance ..

end

text \<open>\<open>F32 n\<close> is a binary32 number.\<close>

definition representable :: "f32 \<Rightarrow> bool" where
  "representable x = (case x of F32 n \<Rightarrow> round24 n = n)"






section \<open>Rounded arithmetic with infinities and NaN\<close>

text \<open>
  The type \<open>xf32\<close> adds what \<open>f32\<close> leaves out at the ends of the range. \<open>Val n\<close> is
  the integer-valued binary32 number \<open>n\<close>. A result whose rounded magnitude reaches
  \<open>2 ^ 128\<close> overflows to an infinity; an operation without a value (\<open>\<infinity> - \<infinity>\<close>,
  \<open>0 * \<infinity>\<close>) gives NaN, and so does every operation on NaN. Every comparison with NaN
  is false, also \<open>NaN \<le> NaN\<close>. The sign of zero is left out.
\<close>

datatype xf32 = Val int | PosInf | NegInf | NaN

definition xround :: "int \<Rightarrow> xf32" where
  "xround n = (let r = round24 n
            in if 2 ^ 128 \<le> r then PosInf else if r \<le> - (2 ^ 128) then NegInf else Val r)"

fun xadd :: "xf32 \<Rightarrow> xf32 \<Rightarrow> xf32" where
  "xadd (Val a) (Val b) = xround (a + b)"
| "xadd NaN y = NaN"
| "xadd x NaN = NaN"
| "xadd PosInf NegInf = NaN"
| "xadd NegInf PosInf = NaN"
| "xadd PosInf y = PosInf"
| "xadd x PosInf = PosInf"
| "xadd NegInf y = NegInf"
| "xadd x NegInf = NegInf"

fun xmul :: "xf32 \<Rightarrow> xf32 \<Rightarrow> xf32" where
  "xmul (Val a) (Val b) = xround (a * b)"
| "xmul NaN y = NaN"
| "xmul x NaN = NaN"
| "xmul (Val a) PosInf = (if a = 0 then NaN else if 0 < a then PosInf else NegInf)"
| "xmul (Val a) NegInf = (if a = 0 then NaN else if 0 < a then NegInf else PosInf)"
| "xmul PosInf (Val b) = (if b = 0 then NaN else if 0 < b then PosInf else NegInf)"
| "xmul NegInf (Val b) = (if b = 0 then NaN else if 0 < b then NegInf else PosInf)"
| "xmul PosInf PosInf = PosInf"
| "xmul PosInf NegInf = NegInf"
| "xmul NegInf PosInf = NegInf"
| "xmul NegInf NegInf = PosInf"

fun xle :: "xf32 \<Rightarrow> xf32 \<Rightarrow> bool" where
  "xle (Val a) (Val b) = (a \<le> b)"
| "xle NaN y = False"
| "xle x NaN = False"
| "xle NegInf y = True"
| "xle x PosInf = True"
| "xle x y = False"

fun xlt :: "xf32 \<Rightarrow> xf32 \<Rightarrow> bool" where
  "xlt (Val a) (Val b) = (a < b)"
| "xlt NaN y = False"
| "xlt x NaN = False"
| "xlt NegInf NegInf = False"
| "xlt NegInf y = True"
| "xlt PosInf y = False"
| "xlt x PosInf = True"
| "xlt x y = False"

instantiation xf32 :: "{zero,plus,times,ord}"
begin

definition zero_xf32 :: xf32 where
  "zero_xf32 = Val 0"

definition plus_xf32 :: "xf32 \<Rightarrow> xf32 \<Rightarrow> xf32" where
  "plus_xf32 = xadd"

definition times_xf32 :: "xf32 \<Rightarrow> xf32 \<Rightarrow> xf32" where
  "times_xf32 = xmul"

definition less_eq_xf32 :: "xf32 \<Rightarrow> xf32 \<Rightarrow> bool" where
  "less_eq_xf32 = xle"

definition less_xf32 :: "xf32 \<Rightarrow> xf32 \<Rightarrow> bool" where
  "less_xf32 = xlt"

instance ..

end

text \<open>
  A TNet in which every weight of the first layer of \<open>tnet_f\<close> is \<open>2\<close> and every other
  parameter is \<open>0\<close>; one glass slice of one pixel that holds the finite number
  \<open>2 ^ 127\<close> in its first channel; a zero conditioning map; and the input that
  \<open>tnet_f\<close> gets from them, the \<open>8\<close> channels of \<open>rx\<close> followed by the \<open>17\<close> of the
  slice.
\<close>

definition sd_nan :: "xf32 state_dict" where
  "sd_nan name idx = (if name = ''tnet.tnet_f.layer1.0.weight'' then Val 2 else Val 0)"

definition tnet_nan :: "xf32 TNet" where
  "tnet_nan = TNet_init sd_nan ''tnet'' (8 + 17) 32"

definition g_big :: "xf32 tensor5" where
  "g_big =
     \<lparr>gdim0 = 1, gdim1 = 1, gdim2 = 17, gdim3 = 1, gdim4 = 1,
      at5 = (\<lambda>b k c i j. if c = 0 then Val (2 ^ 127) else Val 0)\<rparr>"

definition rx_big :: "xf32 tensor4" where
  "rx_big = zeros4 1 8 1 1"

definition x_big :: "xf32 tensor4" where
  "x_big =
     \<lparr>dim0 = 1, dim1 = 25, dim2 = 1, dim3 = 1,
      at4 = (\<lambda>b c i j. if c = 8 then Val (2 ^ 127) else Val 0)\<rparr>"

section \<open>Concrete parameters and inputs\<close>

text \<open>
  The state dict with every parameter \<open>0\<close>, and a glass tensor of shape
  \<open>(1, 0, 17, h, w)\<close>: no glass slice at all.
\<close>

definition sd0 :: "real state_dict" where
  "sd0 name idx = 0"

definition g_empty :: "nat \<Rightarrow> nat \<Rightarrow> real tensor5" where
  "g_empty h w =
     \<lparr>gdim0 = 1, gdim1 = 0, gdim2 = 17, gdim3 = h, gdim4 = w, at5 = (\<lambda>b k c i j. 0)\<rparr>"

text \<open>The glass tensor of shape \<open>(b, n, c, h, w)\<close> with every element \<open>0\<close>.\<close>

definition g_zero :: "nat \<Rightarrow> nat \<Rightarrow> nat \<Rightarrow> nat \<Rightarrow> nat \<Rightarrow> real tensor5" where
  "g_zero b n c h w =
     \<lparr>gdim0 = b, gdim1 = n, gdim2 = c, gdim3 = h, gdim4 = w, at5 = (\<lambda>b k c i j. 0)\<rparr>"

text \<open>
  The state dict with every parameter \<open>1\<close>; the three-way decoder of CNet for
  \<open>n_oi = 5\<close> with all parameters \<open>0\<close>; and the \<open>OutConv(32, 8)\<close> of the UNet with all
  parameters \<open>1\<close>.
\<close>

definition sd1 :: "real state_dict" where
  "sd1 name idx = 1"

definition tw0 :: "real ThreeWayUNet" where
  "tw0 = ThreeWayUNet_init sd0 ''r_unet'' 24 5 True"

definition outc1 :: "real OutConv" where
  "outc1 = OutConv_init sd1 ''outc'' 32 8"

text \<open>
  A state dict whose only nonzero parameters are the biases of the last projection of a
  UNet named \<open>unet\<close> and of an RNet named \<open>rnet_uv\<close>: both are \<open>-1\<close>.
\<close>

definition sd_neg :: "real state_dict" where
  "sd_neg name idx =
     (if name = ''unet.outc.conv.bias'' \<or> name = ''rnet_uv.layer3.0.bias'' then - 1 else 0)"

text \<open>
  A state dict whose only nonzero parameter is the bias of the last convolution of the
  backbone \<open>tnet_b\<close> of a TNet named \<open>tnet\<close>: it is \<open>-1\<close>, so that convolution
  returns \<open>-1\<close> everywhere and the ReLU after it has something to clamp.
\<close>

definition sd_clamp :: "real state_dict" where
  "sd_clamp name idx = (if name = ''tnet.tnet_b.layer4.0.bias'' then - 1 else 0)"

text \<open>
  Over the reals: the TNet whose two backbones pass one channel through (the parameters
  of \<open>sd_pass\<close>), and three glass slices of one pixel whose first channels hold the
  distinct numbers \<open>1\<close>, \<open>2\<close> and \<open>4\<close>.
\<close>

definition sd_pass_exact :: "real state_dict" where
  "sd_pass_exact name idx =
     (if idx = (if name = ''tnet.tnet_f.layer1.0.weight'' then [0, 8, 1, 1]
                else if name = ''tnet.tnet_f.layer4.0.weight''
                        \<or> name = ''tnet.tnet_b.layer4.0.weight'' then [0, 0, 0, 0]
                else [0, 0, 1, 1])
      then 1 else 0)"

definition tnet_exact :: "real TNet" where
  "tnet_exact = TNet_init sd_pass_exact ''tnet'' (8 + 17) 32"

definition glass_exact :: "real list" where
  "glass_exact = [1, 2, 4]"

definition g_exact :: "real tensor5" where
  "g_exact =
     \<lparr>gdim0 = 1, gdim1 = 3, gdim2 = 17, gdim3 = 1, gdim4 = 1,
      at5 = (\<lambda>b k c i j. if c = 0 \<and> k < 3 then glass_exact ! k else 0)\<rparr>"

definition rx_exact :: "real tensor4" where
  "rx_exact = zeros4 1 8 1 1"

section \<open>Shapes and basic facts\<close>


lemma shape4_simps [simp]:
  "shape4 \<lparr>dim0 = a, dim1 = b, dim2 = c, dim3 = d, at4 = f\<rparr> = (a, b, c, d)"
  by (simp add: shape4_def)

lemma shape4_eq: "shape4 x = (B, C, H, W) \<longleftrightarrow> dim0 x = B \<and> dim1 x = C \<and> dim2 x = H \<and> dim3 x = W"
  by (auto simp: shape4_def)

lemma dims_map4 [simp]:
  "dim0 (map4 f x) = dim0 x" "dim1 (map4 f x) = dim1 x"
  "dim2 (map4 f x) = dim2 x" "dim3 (map4 f x) = dim3 x"
  by (simp_all add: map4_def)

lemma shape4_map4 [simp]: "shape4 (map4 f x) = shape4 x"
  by (simp add: shape4_def)

lemma dims_ReLU [simp]:
  "dim0 (ReLU x) = dim0 x" "dim1 (ReLU x) = dim1 x"
  "dim2 (ReLU x) = dim2 x" "dim3 (ReLU x) = dim3 x"
  by (simp_all add: ReLU_def)

lemma shape4_ReLU [simp]: "shape4 (ReLU x) = shape4 x"
  by (simp add: ReLU_def)

lemma at4_ReLU [simp]: "at4 (ReLU x) b c i j = relu (at4 x b c i j)"
  by (simp add: ReLU_def map4_def)

lemma shape4_zeros4 [simp]: "shape4 (zeros4 a b c d) = (a, b, c, d)"
  by (simp add: zeros4_def)

lemma Conv2d_forward_shape:
  assumes "shape4 x = (B, cin, H, W)" "0 < cin" "0 < cout" "k \<le> H + 2 * p" "k \<le> W + 2 * p"
  shows "\<exists>y. Conv2d_forward (Conv2d_init sd name cin cout k p hb) x = Some y
           \<and> shape4 y = (B, cout, H + 2 * p + 1 - k, W + 2 * p + 1 - k)"
  using assms by (simp add: Conv2d_forward_def Conv2d_init_def shape4_eq)

lemma Conv2d_forward_SomeD:
  assumes "Conv2d_forward (Conv2d_init sd name cin cout k p hb) x = Some y"
  shows "dim1 x = cin \<and> 0 < cout \<and> k \<le> dim2 x + 2 * p \<and> k \<le> dim3 x + 2 * p
         \<and> shape4 y = (dim0 x, (if cin = 0 then 0 else cout),
                       dim2 x + 2 * p + 1 - k, dim3 x + 2 * p + 1 - k)"
  using assms by (auto simp: Conv2d_forward_def Conv2d_init_def shape4_eq split: if_splits)

lemma TNetBackBone_forward_shape:
  assumes "shape4 x = (B, cin, H, W)" "0 < cin" "0 < cout" "0 < H" "0 < W"
  shows "\<exists>y. TNetBackBone_forward (TNetBackBone_init sd name cin cout) x = Some y
           \<and> shape4 y = (B, cout, H, W)"
proof -
  from assms obtain x1 where 1: "Conv2d_forward (Conv2d_init sd (sub name ''layer1.0'') cin 64 3 1 True) x = Some x1"
    and s1: "shape4 x1 = (B, 64, H, W)"
    using Conv2d_forward_shape[of x B cin H W 64 3 1 sd "sub name ''layer1.0''" True] by auto
  from assms s1 obtain x2 where 2: "Conv2d_forward (Conv2d_init sd (sub name ''layer2.0'') 64 128 3 1 True) (ReLU x1) = Some x2"
    and s2: "shape4 x2 = (B, 128, H, W)"
    using Conv2d_forward_shape[of "ReLU x1" B 64 H W 128 3 1 sd "sub name ''layer2.0''" True] by auto
  from assms s2 obtain x3 where 3: "Conv2d_forward (Conv2d_init sd (sub name ''layer3.0'') 128 64 3 1 True) (ReLU x2) = Some x3"
    and s3: "shape4 x3 = (B, 64, H, W)"
    using Conv2d_forward_shape[of "ReLU x2" B 128 H W 64 3 1 sd "sub name ''layer3.0''" True] by auto
  from assms s3 obtain x4 where 4: "Conv2d_forward (Conv2d_init sd (sub name ''layer4.0'') 64 cout 1 0 True) (ReLU x3) = Some x4"
    and s4: "shape4 x4 = (B, cout, H, W)"
    using Conv2d_forward_shape[of "ReLU x3" B 64 H W cout 1 0 sd "sub name ''layer4.0''" True] by auto
  show ?thesis
    unfolding TNetBackBone_forward_def TNetBackBone_init_def
    using 1 2 3 4 s4 by simp
qed

lemma TNetBackBone_forward_SomeD:
  assumes "TNetBackBone_forward (TNetBackBone_init sd name cin cout) x = Some y"
  shows "shape4 y = (dim0 x, cout, dim2 x, dim3 x)"
  using assms
  by (auto simp: TNetBackBone_forward_def TNetBackBone_init_def shape4_eq
      dest!: Conv2d_forward_SomeD split: Option.bind_splits)

lemma relu_cases: "relu v = 0 \<or> \<not> relu v \<le> 0"
  by (simp add: relu_def)

lemma relu_nonneg: "0 \<le> relu (v::'a::{zero,linorder})"
  by (simp add: relu_def not_le less_imp_le)

lemma TNetBackBone_forward_ReLU:
  assumes "TNetBackBone_forward m x = Some y"
  shows "\<exists>x3 y4. Conv2d_forward (bb_layer4 m) (ReLU x3) = Some y4 \<and> y = ReLU y4"
  using assms by (auto simp: TNetBackBone_forward_def split: Option.bind_splits)

lemma TNetBackBone_relu:
  assumes "TNetBackBone_forward m x = Some y"
  shows "at4 y b c i j = 0 \<or> \<not> at4 y b c i j \<le> 0"
proof -
  from TNetBackBone_forward_ReLU[OF assms] obtain y4 where "y = ReLU y4" by blast
  then show ?thesis using relu_cases[of "at4 y4 b c i j"] by simp
qed

lemma TNetBackBone_nonneg:
  fixes m :: "'a::{zero,plus,times,linorder} TNetBackBone"
  assumes "TNetBackBone_forward m x = Some y"
  shows "0 \<le> at4 y b c i j"
proof -
  from TNetBackBone_forward_ReLU[OF assms] obtain y4 where "y = ReLU y4" by blast
  then show ?thesis by (simp add: relu_nonneg)
qed

lemma TNet_forward_tnet_b:
  assumes "TNet_forward m g rx = Some z"
  shows "\<exists>r. TNetBackBone_forward (tnet_b m) r = Some z"
  using assms by (auto simp: TNet_forward_def Let_def split: Option.bind_splits)

lemma TNet_forward_empty:
  assumes "gdim1 g = 0"
  shows "TNet_forward m g rx = TNetBackBone_forward (tnet_b m) (zeros4 (gdim0 g) (hidden m) (gdim3 g) (gdim4 g))"
  using assms by (simp add: TNet_forward_def)












section \<open>The accumulation loop of TNet\<close>







section \<open>Shapes of the results\<close>

text \<open>
  For every layer and module: on an input of a fitting shape the forward pass returns,
  and the result has the expected shape. The lemmas named \<open>SomeD\<close> go the other way:
  what a returned result says about the input.
\<close>

lemma dims_LeakyReLU [simp]:
  "dim0 (LeakyReLU x) = dim0 x" "dim1 (LeakyReLU x) = dim1 x"
  "dim2 (LeakyReLU x) = dim2 x" "dim3 (LeakyReLU x) = dim3 x"
  by (simp_all add: LeakyReLU_def)

lemma shape4_LeakyReLU [simp]: "shape4 (LeakyReLU x) = shape4 x"
  by (simp add: shape4_def)

lemma Conv2d_forward_same_shape:
  assumes "shape4 x = (B, cin, H, W)" "0 < cin" "0 < cout" "0 < H" "0 < W"
    "(k, p) = (3, 1) \<or> (k, p) = (5, 2) \<or> (k, p) = (1, 0)"
  shows "\<exists>y. Conv2d_forward (Conv2d_init sd name cin cout k p hb) x = Some y
           \<and> shape4 y = (B, cout, H, W)"
  using assms Conv2d_forward_shape[of x B cin H W cout k p sd name hb] by auto

lemma MaxPool2d_shape:
  assumes "shape4 x = (B, C, H, W)" "0 < C" "2 \<le> H" "2 \<le> W"
  shows "\<exists>y. MaxPool2d x = Some y \<and> shape4 y = (B, C, H div 2, W div 2)"
proof -
  from assms have "1 \<le> H div 2" "1 \<le> W div 2" by simp_all
  with assms show ?thesis by (simp add: MaxPool2d_def shape4_eq)
qed

lemma DoubleConv_forward_shape:
  assumes "shape4 x = (B, cin, H, W)" "0 < cin" "0 < cout" "0 < H" "0 < W"
  shows "\<exists>y. DoubleConv_forward (DoubleConv_init sd name cin cout mid) x = Some y
           \<and> shape4 y = (B, cout, H, W)"
proof -
  define mc where "mc = (case mid of None \<Rightarrow> cout | Some mc \<Rightarrow> if mc = 0 then cout else mc)"
  have mc: "0 < mc" using assms(3) by (auto simp: mc_def split: option.splits)
  from assms mc obtain x1 where 1: "Conv2d_forward (Conv2d_init sd (sub name ''double_conv.0'') cin mc 3 1 False) x = Some x1"
    and s1: "shape4 x1 = (B, mc, H, W)"
    using Conv2d_forward_same_shape[of x B cin H W mc 3 1 sd "sub name ''double_conv.0''" False] by auto
  from assms mc s1 obtain x2 where 2: "Conv2d_forward (Conv2d_init sd (sub name ''double_conv.2'') mc cout 3 1 False) (ReLU x1) = Some x2"
    and s2: "shape4 x2 = (B, cout, H, W)"
    using Conv2d_forward_same_shape[of "ReLU x1" B mc H W cout 3 1 sd "sub name ''double_conv.2''" False] by auto
  show ?thesis
    unfolding DoubleConv_forward_def DoubleConv_init_def Let_def mc_def[symmetric]
    using 1 2 s2 by simp
qed

lemma Down_forward_shape:
  assumes "shape4 x = (B, cin, H, W)" "0 < cin" "0 < cout" "2 \<le> H" "2 \<le> W"
  shows "\<exists>y. Down_forward (Down_init sd name cin cout) x = Some y
           \<and> shape4 y = (B, cout, H div 2, W div 2)"
proof -
  from assms obtain x1 where 1: "MaxPool2d x = Some x1" and s1: "shape4 x1 = (B, cin, H div 2, W div 2)"
    using MaxPool2d_shape[of x B cin H W] by auto
  from assms have "0 < H div 2" "0 < W div 2" by simp_all
  with assms s1 obtain x2 where
    2: "DoubleConv_forward (DoubleConv_init sd (sub name ''maxpool_conv.1'') cin cout None) x1 = Some x2"
    and s2: "shape4 x2 = (B, cout, H div 2, W div 2)"
    using DoubleConv_forward_shape[of x1 B cin "H div 2" "W div 2" cout sd "sub name ''maxpool_conv.1''" None]
    by auto
  show ?thesis
    unfolding Down_forward_def Down_init_def using 1 2 s2 by simp
qed

lemma Upsample_shape:
  assumes "shape4 x = (B, C, H, W)" "0 < C" "0 < H" "0 < W"
  shows "\<exists>y. Upsample x = Some y \<and> shape4 y = (B, C, 2 * H, 2 * W)"
  using assms by (simp add: Upsample_def shape4_eq)

lemma Up_pad_shape:
  "\<exists>y. Up_pad x1 x2 = Some y \<and> shape4 y = (dim0 x1, dim1 x1, dim2 x2, dim3 x2)"
  by (simp add: Up_pad_def Up_pad_list_def pad4_def Let_def shape4_eq)

lemma cat1_shape:
  assumes "shape4 a = (B, ca, H, W)" "shape4 b = (B, cb, H, W)"
  shows "\<exists>y. cat1 a b = Some y \<and> shape4 y = (B, ca + cb, H, W)"
  using assms by (simp add: cat1_def shape4_eq)

lemma Up_forward_shape:
  assumes "shape4 x1 = (B, c1, H1, W1)" "shape4 x2 = (B, c2, H2, W2)" "c2 + c1 = cin"
    "0 < c1" "0 < H1" "0 < W1" "0 < H2" "0 < W2" "0 < cout"
  shows "\<exists>y. Up_forward (Up_init sd name cin cout True) x1 x2 = Some y
           \<and> shape4 y = (B, cout, H2, W2)"
proof -
  from assms obtain u where 1: "Upsample x1 = Some u" and s1: "shape4 u = (B, c1, 2 * H1, 2 * W1)"
    using Upsample_shape[of x1 B c1 H1 W1] by auto
  obtain p where 2: "Up_pad u x2 = Some p" and s2: "shape4 p = (dim0 u, dim1 u, dim2 x2, dim3 x2)"
    using Up_pad_shape[of u x2] by auto
  from s1 s2 assms have s2': "shape4 p = (B, c1, H2, W2)" by (simp add: shape4_eq)
  from assms s2' obtain c where 3: "cat1 x2 p = Some c" and s3: "shape4 c = (B, c2 + c1, H2, W2)"
    using cat1_shape[of x2 B c2 H2 W2 p c1] by auto
  from assms s3 obtain y where
    4: "DoubleConv_forward (DoubleConv_init sd (sub name ''conv'') cin cout (Some (cin div 2))) c = Some y"
    and s4: "shape4 y = (B, cout, H2, W2)"
    using DoubleConv_forward_shape[of c B cin H2 W2 cout sd "sub name ''conv''" "Some (cin div 2)"]
    by auto
  show ?thesis
    unfolding Up_forward_def Up_init_def up_forward_def using 1 2 3 4 s4 by simp
qed

lemma OutConv_forward_shape:
  assumes "shape4 x = (B, cin, H, W)" "0 < cin" "0 < cout" "0 < H" "0 < W"
  shows "\<exists>y. OutConv_forward (OutConv_init sd name cin cout) x = Some y
           \<and> shape4 y = (B, cout, H, W)"
  unfolding OutConv_forward_def OutConv_init_def
  using assms Conv2d_forward_same_shape[of x B cin H W cout 1 0 sd "sub name ''conv''" True]
  by simp

lemma RNet_forward_shape:
  assumes "shape4 x = (B, cin, H, W)" "0 < cin" "0 < cout" "0 < H" "0 < W"
  shows "\<exists>y. RNet_forward (RNet_init sd name cin cout) x = Some y
           \<and> shape4 y = (B, cout, H, W)"
proof -
  from assms obtain x1 where 1: "Conv2d_forward (Conv2d_init sd (sub name ''layer0.0'') cin 32 5 2 True) x = Some x1"
    and s1: "shape4 x1 = (B, 32, H, W)"
    using Conv2d_forward_same_shape[of x B cin H W 32 5 2 sd "sub name ''layer0.0''" True] by auto
  from assms s1 obtain x2 where 2: "Conv2d_forward (Conv2d_init sd (sub name ''layer1.0'') 32 64 3 1 True) (LeakyReLU x1) = Some x2"
    and s2: "shape4 x2 = (B, 64, H, W)"
    using Conv2d_forward_same_shape[of "LeakyReLU x1" B 32 H W 64 3 1 sd "sub name ''layer1.0''" True] by auto
  from assms s2 obtain x3 where 3: "Conv2d_forward (Conv2d_init sd (sub name ''layer2.0'') 64 32 3 1 True) (LeakyReLU x2) = Some x3"
    and s3: "shape4 x3 = (B, 32, H, W)"
    using Conv2d_forward_same_shape[of "LeakyReLU x2" B 64 H W 32 3 1 sd "sub name ''layer2.0''" True] by auto
  from assms s3 obtain x4 where 4: "Conv2d_forward (Conv2d_init sd (sub name ''layer3.0'') 32 cout 1 0 True) (LeakyReLU x3) = Some x4"
    and s4: "shape4 x4 = (B, cout, H, W)"
    using Conv2d_forward_same_shape[of "LeakyReLU x3" B 32 H W cout 1 0 sd "sub name ''layer3.0''" True] by auto
  show ?thesis
    unfolding RNet_forward_def RNet_init_def
    using 1 2 3 4 s4 by simp
qed

lemma encoder_sizes:
  fixes H :: nat
  assumes "16 \<le> H"
  shows "0 < H" "2 \<le> H" "2 \<le> H div 2" "2 \<le> H div 2 div 2" "2 \<le> H div 2 div 2 div 2"
    "0 < H div 2" "0 < H div 2 div 2" "0 < H div 2 div 2 div 2" "0 < H div 2 div 2 div 2 div 2"
  using assms by simp_all

lemma encoder_shape:
  assumes "shape4 x = (B, n_channels, H, W)" and nch: "0 < n_channels"
    and H: "16 \<le> H" and W: "16 \<le> W"
  shows "\<exists>x1 x2 x3 x4 x5.
      shape4 x1 = (B, 32, H, W)
    \<and> shape4 x2 = (B, 64, H div 2, W div 2)
    \<and> shape4 x3 = (B, 128, H div 2 div 2, W div 2 div 2)
    \<and> shape4 x4 = (B, 256, H div 2 div 2 div 2, W div 2 div 2 div 2)
    \<and> shape4 x5 = (B, 256, H div 2 div 2 div 2 div 2, W div 2 div 2 div 2 div 2)
    \<and> DoubleConv_forward (DoubleConv_init sd n0 n_channels 32 None) x = Some x1
    \<and> Down_forward (Down_init sd n1 32 64) x1 = Some x2
    \<and> Down_forward (Down_init sd n2 64 128) x2 = Some x3
    \<and> Down_forward (Down_init sd n3 128 256) x3 = Some x4
    \<and> Down_forward (Down_init sd n4 256 256) x4 = Some x5"
proof -
  note hs = encoder_sizes[OF H] and ws = encoder_sizes[OF W]
  have "\<exists>y. DoubleConv_forward (DoubleConv_init sd n0 n_channels 32 None) x = Some y
          \<and> shape4 y = (B, 32, H, W)"
    by (rule DoubleConv_forward_shape[OF assms(1) nch _ hs(1) ws(1)]) simp
  then obtain x1 where 1: "DoubleConv_forward (DoubleConv_init sd n0 n_channels 32 None) x = Some x1"
    and s1: "shape4 x1 = (B, 32, H, W)" by blast
  have "\<exists>y. Down_forward (Down_init sd n1 32 64) x1 = Some y
          \<and> shape4 y = (B, 64, H div 2, W div 2)"
    by (rule Down_forward_shape[OF s1 _ _ hs(2) ws(2)]) simp_all
  then obtain x2 where 2: "Down_forward (Down_init sd n1 32 64) x1 = Some x2"
    and s2: "shape4 x2 = (B, 64, H div 2, W div 2)" by blast
  have "\<exists>y. Down_forward (Down_init sd n2 64 128) x2 = Some y
          \<and> shape4 y = (B, 128, H div 2 div 2, W div 2 div 2)"
    by (rule Down_forward_shape[OF s2 _ _ hs(3) ws(3)]) simp_all
  then obtain x3 where 3: "Down_forward (Down_init sd n2 64 128) x2 = Some x3"
    and s3: "shape4 x3 = (B, 128, H div 2 div 2, W div 2 div 2)" by blast
  have "\<exists>y. Down_forward (Down_init sd n3 128 256) x3 = Some y
          \<and> shape4 y = (B, 256, H div 2 div 2 div 2, W div 2 div 2 div 2)"
    by (rule Down_forward_shape[OF s3 _ _ hs(4) ws(4)]) simp_all
  then obtain x4 where 4: "Down_forward (Down_init sd n3 128 256) x3 = Some x4"
    and s4: "shape4 x4 = (B, 256, H div 2 div 2 div 2, W div 2 div 2 div 2)" by blast
  have "\<exists>y. Down_forward (Down_init sd n4 256 256) x4 = Some y
          \<and> shape4 y = (B, 256, H div 2 div 2 div 2 div 2, W div 2 div 2 div 2 div 2)"
    by (rule Down_forward_shape[OF s4 _ _ hs(5) ws(5)]) simp_all
  then obtain x5 where 5: "Down_forward (Down_init sd n4 256 256) x4 = Some x5"
    and s5: "shape4 x5 = (B, 256, H div 2 div 2 div 2 div 2, W div 2 div 2 div 2 div 2)" by blast
  from 1 2 3 4 5 s1 s2 s3 s4 s5 show ?thesis by blast
qed

lemma decoder_shape:
  assumes s1: "shape4 x1 = (B, 32, H, W)"
    and s2: "shape4 x2 = (B, 64, H div 2, W div 2)"
    and s3: "shape4 x3 = (B, 128, H div 2 div 2, W div 2 div 2)"
    and s4: "shape4 x4 = (B, 256, H div 2 div 2 div 2, W div 2 div 2 div 2)"
    and s5: "shape4 x5 = (B, 256, H div 2 div 2 div 2 div 2, W div 2 div 2 div 2 div 2)"
    and nc: "0 < nc" and H: "16 \<le> H" and W: "16 \<le> W"
  shows "\<exists>y. shape4 y = (B, nc, H, W) \<and>
           (\<forall>k. (Up_forward (Up_init sd n0 512 128 True) x5 x4 \<bind> (\<lambda>out.
                  Up_forward (Up_init sd n1 256 64 True) out x3 \<bind> (\<lambda>out.
                  Up_forward (Up_init sd n2 128 32 True) out x2 \<bind> (\<lambda>out.
                  Up_forward (Up_init sd n3 64 32 True) out x1 \<bind> (\<lambda>out.
                  OutConv_forward (OutConv_init sd n4 32 nc) out \<bind> k)))))
                 = k y)"
proof -
  note hs = encoder_sizes[OF H] and ws = encoder_sizes[OF W]
  have "\<exists>y. Up_forward (Up_init sd n0 512 128 True) x5 x4 = Some y
          \<and> shape4 y = (B, 128, H div 2 div 2 div 2, W div 2 div 2 div 2)"
    by (rule Up_forward_shape[OF s5 s4 _ _ hs(9) ws(9) hs(8) ws(8)]) simp_all
  then obtain u1 where 6: "Up_forward (Up_init sd n0 512 128 True) x5 x4 = Some u1"
    and t1: "shape4 u1 = (B, 128, H div 2 div 2 div 2, W div 2 div 2 div 2)" by blast
  have "\<exists>y. Up_forward (Up_init sd n1 256 64 True) u1 x3 = Some y
          \<and> shape4 y = (B, 64, H div 2 div 2, W div 2 div 2)"
    by (rule Up_forward_shape[OF t1 s3 _ _ hs(8) ws(8) hs(7) ws(7)]) simp_all
  then obtain u2 where 7: "Up_forward (Up_init sd n1 256 64 True) u1 x3 = Some u2"
    and t2: "shape4 u2 = (B, 64, H div 2 div 2, W div 2 div 2)" by blast
  have "\<exists>y. Up_forward (Up_init sd n2 128 32 True) u2 x2 = Some y
          \<and> shape4 y = (B, 32, H div 2, W div 2)"
    by (rule Up_forward_shape[OF t2 s2 _ _ hs(7) ws(7) hs(6) ws(6)]) simp_all
  then obtain u3 where 8: "Up_forward (Up_init sd n2 128 32 True) u2 x2 = Some u3"
    and t3: "shape4 u3 = (B, 32, H div 2, W div 2)" by blast
  have "\<exists>y. Up_forward (Up_init sd n3 64 32 True) u3 x1 = Some y
          \<and> shape4 y = (B, 32, H, W)"
    by (rule Up_forward_shape[OF t3 s1 _ _ hs(6) ws(6) hs(1) ws(1)]) simp_all
  then obtain u4 where 9: "Up_forward (Up_init sd n3 64 32 True) u3 x1 = Some u4"
    and t4: "shape4 u4 = (B, 32, H, W)" by blast
  have "\<exists>y. OutConv_forward (OutConv_init sd n4 32 nc) u4 = Some y
          \<and> shape4 y = (B, nc, H, W)"
    by (rule OutConv_forward_shape[OF t4 _ nc hs(1) ws(1)]) simp
  then obtain y where 10: "OutConv_forward (OutConv_init sd n4 32 nc) u4 = Some y"
    and t5: "shape4 y = (B, nc, H, W)" by blast
  show ?thesis
    by (rule exI[of _ y]) (simp add: 6 7 8 9 10 t5)
qed

lemma UNet_forward_shape:
  assumes x: "shape4 x = (B, n_channels, H, W)" and nch: "0 < n_channels"
    and nc: "0 < n_classes"
    and H: "16 \<le> H" and W: "16 \<le> W"
  shows "\<exists>y. UNet_forward (UNet_init sd name n_channels n_classes True) x = Some y
           \<and> shape4 y = (B, n_classes, H, W)"
proof -
  obtain x1 x2 x3 x4 x5 where
    s1: "shape4 x1 = (B, 32, H, W)"
    and s2: "shape4 x2 = (B, 64, H div 2, W div 2)"
    and s3: "shape4 x3 = (B, 128, H div 2 div 2, W div 2 div 2)"
    and s4: "shape4 x4 = (B, 256, H div 2 div 2 div 2, W div 2 div 2 div 2)"
    and s5: "shape4 x5 = (B, 256, H div 2 div 2 div 2 div 2, W div 2 div 2 div 2 div 2)"
    and e: "DoubleConv_forward (DoubleConv_init sd (sub name ''inc'') n_channels 32 None) x = Some x1"
      "Down_forward (Down_init sd (sub name ''down1'') 32 64) x1 = Some x2"
      "Down_forward (Down_init sd (sub name ''down2'') 64 128) x2 = Some x3"
      "Down_forward (Down_init sd (sub name ''down3'') 128 256) x3 = Some x4"
      "Down_forward (Down_init sd (sub name ''down4'') 256 256) x4 = Some x5"
    using encoder_shape[OF x nch H W, of sd "sub name ''inc''" "sub name ''down1''"
        "sub name ''down2''" "sub name ''down3''" "sub name ''down4''"] by blast
  obtain y where y: "shape4 y = (B, n_classes, H, W)" and
    k: "\<And>k :: 'a tensor4 \<Rightarrow> 'a tensor4 option.
         (Up_forward (Up_init sd (sub name ''up1'') 512 128 True) x5 x4 \<bind> (\<lambda>out.
          Up_forward (Up_init sd (sub name ''up2'') 256 64 True) out x3 \<bind> (\<lambda>out.
          Up_forward (Up_init sd (sub name ''up3'') 128 32 True) out x2 \<bind> (\<lambda>out.
          Up_forward (Up_init sd (sub name ''up4'') 64 32 True) out x1 \<bind> (\<lambda>out.
          OutConv_forward (OutConv_init sd (sub name ''outc'') 32 n_classes) out \<bind> k)))))
         = k y"
    using decoder_shape[OF s1 s2 s3 s4 s5 nc H W, of sd "sub name ''up1''" "sub name ''up2''"
        "sub name ''up3''" "sub name ''up4''" "sub name ''outc''"] by auto
  have init: "UNet_init sd name n_channels n_classes True =
      \<lparr>inc = DoubleConv_init sd (sub name ''inc'') n_channels 32 None,
       down1 = Down_init sd (sub name ''down1'') 32 64,
       down2 = Down_init sd (sub name ''down2'') 64 128,
       down3 = Down_init sd (sub name ''down3'') 128 256,
       down4 = Down_init sd (sub name ''down4'') 256 256,
       up1 = Up_init sd (sub name ''up1'') 512 128 True,
       up2 = Up_init sd (sub name ''up2'') 256 64 True,
       up3 = Up_init sd (sub name ''up3'') 128 32 True,
       up4 = Up_init sd (sub name ''up4'') 64 32 True,
       outc = OutConv_init sd (sub name ''outc'') 32 n_classes\<rparr>"
    by (simp add: UNet_init_def)
  have "UNet_forward (UNet_init sd name n_channels n_classes True) x = Some y"
    unfolding UNet_forward_def init using k[of Some] by (simp add: e)
  with y show ?thesis by blast
qed

lemma ThreeWayUNet_init_True:
  "ThreeWayUNet_init sd name n_channels n_classes True =
     \<lparr>tw_inc = DoubleConv_init sd (sub name ''inc'') n_channels 32 None,
      tw_down1 = Down_init sd (sub name ''down1'') 32 64,
      tw_down2 = Down_init sd (sub name ''down2'') 64 128,
      tw_down3 = Down_init sd (sub name ''down3'') 128 256,
      tw_down4 = Down_init sd (sub name ''down4'') 256 256,
      up_group_1_0 = Up_init sd (sub name ''up_group_1_0'') 512 128 True,
      up_group_1_1 = Up_init sd (sub name ''up_group_1_1'') 256 64 True,
      up_group_1_2 = Up_init sd (sub name ''up_group_1_2'') 128 32 True,
      up_group_1_3 = Up_init sd (sub name ''up_group_1_3'') 64 32 True,
      up_group_1_4 = OutConv_init sd (sub name ''up_group_1_4'') 32 3,
      up_group_2_0 = Up_init sd (sub name ''up_group_2_0'') 512 128 True,
      up_group_2_1 = Up_init sd (sub name ''up_group_2_1'') 256 64 True,
      up_group_2_2 = Up_init sd (sub name ''up_group_2_2'') 128 32 True,
      up_group_2_3 = Up_init sd (sub name ''up_group_2_3'') 64 32 True,
      up_group_2_4 = OutConv_init sd (sub name ''up_group_2_4'') 32 n_classes,
      up_group_3_0 = Up_init sd (sub name ''up_group_3_0'') 512 128 True,
      up_group_3_1 = Up_init sd (sub name ''up_group_3_1'') 256 64 True,
      up_group_3_2 = Up_init sd (sub name ''up_group_3_2'') 128 32 True,
      up_group_3_3 = Up_init sd (sub name ''up_group_3_3'') 64 32 True,
      up_group_3_4 = OutConv_init sd (sub name ''up_group_3_4'') 32 2\<rparr>"
  by (simp add: ThreeWayUNet_init_def)

lemma ThreeWayUNet_mixed_shape:
  assumes x: "shape4 x = (B, n_channels, H, W)" and nch: "0 < n_channels"
    and nc: "0 < n_classes"
    and H: "16 \<le> H" and W: "16 \<le> W"
  shows "\<exists>out1 out2 out3.
           ThreeWayUNet_forward
             \<lparr>tw_inc = DoubleConv_init sd (sub name ''inc'') n_channels 32 None,
              tw_down1 = Down_init sd (sub name ''down1'') 32 64,
              tw_down2 = Down_init sd (sub name ''down2'') 64 128,
              tw_down3 = Down_init sd (sub name ''down3'') 128 256,
              tw_down4 = Down_init sd (sub name ''down4'') 256 256,
              up_group_1_0 = Up_init sda (sub name ''up_group_1_0'') 512 128 True,
              up_group_1_1 = Up_init sda (sub name ''up_group_1_1'') 256 64 True,
              up_group_1_2 = Up_init sda (sub name ''up_group_1_2'') 128 32 True,
              up_group_1_3 = Up_init sda (sub name ''up_group_1_3'') 64 32 True,
              up_group_1_4 = OutConv_init sda (sub name ''up_group_1_4'') 32 3,
              up_group_2_0 = Up_init sdb (sub name ''up_group_2_0'') 512 128 True,
              up_group_2_1 = Up_init sdb (sub name ''up_group_2_1'') 256 64 True,
              up_group_2_2 = Up_init sdb (sub name ''up_group_2_2'') 128 32 True,
              up_group_2_3 = Up_init sdb (sub name ''up_group_2_3'') 64 32 True,
              up_group_2_4 = OutConv_init sdb (sub name ''up_group_2_4'') 32 n_classes,
              up_group_3_0 = Up_init sdc (sub name ''up_group_3_0'') 512 128 True,
              up_group_3_1 = Up_init sdc (sub name ''up_group_3_1'') 256 64 True,
              up_group_3_2 = Up_init sdc (sub name ''up_group_3_2'') 128 32 True,
              up_group_3_3 = Up_init sdc (sub name ''up_group_3_3'') 64 32 True,
              up_group_3_4 = OutConv_init sdc (sub name ''up_group_3_4'') 32 2\<rparr> x
             = Some (out1, out2, out3)
         \<and> shape4 out1 = (B, 3, H, W) \<and> shape4 out2 = (B, n_classes, H, W)
         \<and> shape4 out3 = (B, 2, H, W)"
proof -
  obtain x1 x2 x3 x4 x5 where
    s1: "shape4 x1 = (B, 32, H, W)"
    and s2: "shape4 x2 = (B, 64, H div 2, W div 2)"
    and s3: "shape4 x3 = (B, 128, H div 2 div 2, W div 2 div 2)"
    and s4: "shape4 x4 = (B, 256, H div 2 div 2 div 2, W div 2 div 2 div 2)"
    and s5: "shape4 x5 = (B, 256, H div 2 div 2 div 2 div 2, W div 2 div 2 div 2 div 2)"
    and e: "DoubleConv_forward (DoubleConv_init sd (sub name ''inc'') n_channels 32 None) x = Some x1"
      "Down_forward (Down_init sd (sub name ''down1'') 32 64) x1 = Some x2"
      "Down_forward (Down_init sd (sub name ''down2'') 64 128) x2 = Some x3"
      "Down_forward (Down_init sd (sub name ''down3'') 128 256) x3 = Some x4"
      "Down_forward (Down_init sd (sub name ''down4'') 256 256) x4 = Some x5"
    using encoder_shape[OF x nch H W, of sd "sub name ''inc''" "sub name ''down1''"
        "sub name ''down2''" "sub name ''down3''" "sub name ''down4''"] by blast
  obtain out1 where o1: "shape4 out1 = (B, 3, H, W)" and
    k1: "\<And>k :: 'a tensor4 \<Rightarrow> ('a tensor4 \<times> 'a tensor4 \<times> 'a tensor4) option.
         (Up_forward (Up_init sda (sub name ''up_group_1_0'') 512 128 True) x5 x4 \<bind> (\<lambda>out.
          Up_forward (Up_init sda (sub name ''up_group_1_1'') 256 64 True) out x3 \<bind> (\<lambda>out.
          Up_forward (Up_init sda (sub name ''up_group_1_2'') 128 32 True) out x2 \<bind> (\<lambda>out.
          Up_forward (Up_init sda (sub name ''up_group_1_3'') 64 32 True) out x1 \<bind> (\<lambda>out.
          OutConv_forward (OutConv_init sda (sub name ''up_group_1_4'') 32 3) out \<bind> k)))))
         = k out1"
    using decoder_shape[OF s1 s2 s3 s4 s5 _ H W, of 3 sda "sub name ''up_group_1_0''"
        "sub name ''up_group_1_1''" "sub name ''up_group_1_2''" "sub name ''up_group_1_3''"
        "sub name ''up_group_1_4''"] by auto
  obtain out2 where o2: "shape4 out2 = (B, n_classes, H, W)" and
    k2: "\<And>k :: 'a tensor4 \<Rightarrow> ('a tensor4 \<times> 'a tensor4 \<times> 'a tensor4) option.
         (Up_forward (Up_init sdb (sub name ''up_group_2_0'') 512 128 True) x5 x4 \<bind> (\<lambda>out.
          Up_forward (Up_init sdb (sub name ''up_group_2_1'') 256 64 True) out x3 \<bind> (\<lambda>out.
          Up_forward (Up_init sdb (sub name ''up_group_2_2'') 128 32 True) out x2 \<bind> (\<lambda>out.
          Up_forward (Up_init sdb (sub name ''up_group_2_3'') 64 32 True) out x1 \<bind> (\<lambda>out.
          OutConv_forward (OutConv_init sdb (sub name ''up_group_2_4'') 32 n_classes) out \<bind> k)))))
         = k out2"
    using decoder_shape[OF s1 s2 s3 s4 s5 nc H W, of sdb "sub name ''up_group_2_0''"
        "sub name ''up_group_2_1''" "sub name ''up_group_2_2''" "sub name ''up_group_2_3''"
        "sub name ''up_group_2_4''"] by auto
  obtain out3 where o3: "shape4 out3 = (B, 2, H, W)" and
    k3: "\<And>k :: 'a tensor4 \<Rightarrow> ('a tensor4 \<times> 'a tensor4 \<times> 'a tensor4) option.
         (Up_forward (Up_init sdc (sub name ''up_group_3_0'') 512 128 True) x5 x4 \<bind> (\<lambda>out.
          Up_forward (Up_init sdc (sub name ''up_group_3_1'') 256 64 True) out x3 \<bind> (\<lambda>out.
          Up_forward (Up_init sdc (sub name ''up_group_3_2'') 128 32 True) out x2 \<bind> (\<lambda>out.
          Up_forward (Up_init sdc (sub name ''up_group_3_3'') 64 32 True) out x1 \<bind> (\<lambda>out.
          OutConv_forward (OutConv_init sdc (sub name ''up_group_3_4'') 32 2) out \<bind> k)))))
         = k out3"
    using decoder_shape[OF s1 s2 s3 s4 s5 _ H W, of 2 sdc "sub name ''up_group_3_0''"
        "sub name ''up_group_3_1''" "sub name ''up_group_3_2''" "sub name ''up_group_3_3''"
        "sub name ''up_group_3_4''"] by auto
  show ?thesis
    unfolding ThreeWayUNet_forward_def
    by (simp add: e k1 k2 k3 o1 o2 o3)
qed

lemma ThreeWayUNet_forward_shape:
  assumes x: "shape4 x = (B, n_channels, H, W)" and nch: "0 < n_channels"
    and nc: "0 < n_classes"
    and H: "16 \<le> H" and W: "16 \<le> W"
  shows "\<exists>out1 out2 out3.
           ThreeWayUNet_forward (ThreeWayUNet_init sd name n_channels n_classes True) x
             = Some (out1, out2, out3)
         \<and> shape4 out1 = (B, 3, H, W) \<and> shape4 out2 = (B, n_classes, H, W)
         \<and> shape4 out3 = (B, 2, H, W)"
  unfolding ThreeWayUNet_init_True by (rule ThreeWayUNet_mixed_shape[OF assms])

lemma add4_same_shape:
  assumes "shape4 x = (B, C, H, W)" "shape4 y = (B, C, H, W)"
  shows "\<exists>r. add4 x y = Some r \<and> shape4 r = (B, C, H, W)"
  using assms by (simp add: add4_def shape4_eq broadcastable_def broadcast_dim_def)

lemma TNet_contrib_shape:
  assumes "gdim0 g = B" "gdim3 g = H" "gdim4 g = W" "i < gdim1 g"
    "shape4 rx = (B, crx, H, W)" "crx + gdim2 g = cin" "0 < hid" "0 < H" "0 < W" "0 < cin"
  shows "\<exists>y. TNet_contrib (TNet_init sd name cin hid) g rx i = Some y
           \<and> shape4 y = (B, hid, H, W)"
proof -
  define gi where "gi = \<lparr>dim0 = gdim0 g, dim1 = gdim2 g, dim2 = gdim3 g, dim3 = gdim4 g,
                 at4 = (\<lambda>b c h w. at5 g b i c h w)\<rparr>"
  have 1: "select1 g i = Some gi" using assms(4) by (simp add: select1_def gi_def)
  have sg: "shape4 gi = (B, gdim2 g, H, W)" using assms by (simp add: gi_def)
  obtain c where 2: "cat1 rx gi = Some c" and sc: "shape4 c = (B, crx + gdim2 g, H, W)"
    using cat1_shape[OF assms(5) sg] by blast
  have "\<exists>y. TNetBackBone_forward (TNetBackBone_init sd (sub name ''tnet_f'') cin hid) c = Some y
          \<and> shape4 y = (B, hid, H, W)"
    by (rule TNetBackBone_forward_shape) (use sc assms in simp_all)
  then show ?thesis
    by (simp add: TNet_contrib_def TNet_init_def 1 2)
qed

lemma TNet_loop_shape:
  assumes "gdim0 g = B" "gdim3 g = H" "gdim4 g = W" "\<forall>i\<in>set idxs. i < gdim1 g"
    "shape4 rx = (B, crx, H, W)" "crx + gdim2 g = cin" "0 < hid" "0 < H" "0 < W"
    "shape4 acc = (B, hid, H, W)" "0 < cin"
  shows "\<exists>r. TNet_loop (TNet_init sd name cin hid) g rx idxs acc = Some r
           \<and> shape4 r = (B, hid, H, W)"
  using assms(4,10)
proof (induction idxs arbitrary: acc)
  case Nil
  then show ?case by simp
next
  case (Cons i idxs)
  then have i: "i < gdim1 g" by simp
  obtain y where y: "TNet_contrib (TNet_init sd name cin hid) g rx i = Some y"
    and sy: "shape4 y = (B, hid, H, W)"
    using TNet_contrib_shape[OF assms(1-3) i assms(5-9) assms(11), of sd name] by blast
  obtain r where r: "add4 acc y = Some r" and sr: "shape4 r = (B, hid, H, W)"
    using add4_same_shape[OF Cons.prems(2) sy] by blast
  from Cons.IH[OF _ sr] Cons.prems(1) show ?case
    by (simp add: TNet_step_def y r)
qed

lemma TNet_forward_shape:
  assumes "gdim0 g = B" "gdim3 g = H" "gdim4 g = W"
    "gdim1 g = 0 \<or> (shape4 rx = (B, crx, H, W) \<and> crx + gdim2 g = cin \<and> 0 < cin)"
    "0 < hid" "0 < H" "0 < W"
  shows "\<exists>y. TNet_forward (TNet_init sd name cin hid) g rx = Some y
           \<and> shape4 y = (B, 16, H, W)"
proof -
  have "\<exists>r. TNet_loop (TNet_init sd name cin hid) g rx [0..<gdim1 g] (zeros4 B hid H W) = Some r
           \<and> shape4 r = (B, hid, H, W)"
  proof (cases "gdim1 g = 0")
    case True
    then show ?thesis by simp
  next
    case False
    with assms(4) have rx: "shape4 rx = (B, crx, H, W)" "crx + gdim2 g = cin" "0 < cin"
      by simp_all
    show ?thesis
      by (rule TNet_loop_shape[OF assms(1-3) _ rx(1,2) assms(5-7) _ rx(3)]) simp_all
  qed
  then obtain r where r: "TNet_loop (TNet_init sd name cin hid) g rx [0..<gdim1 g] (zeros4 B hid H W) = Some r"
    and sr: "shape4 r = (B, hid, H, W)" by blast
  have "\<exists>y. TNetBackBone_forward (TNetBackBone_init sd (sub name ''tnet_b'') hid 16) r = Some y
          \<and> shape4 y = (B, 16, H, W)"
    by (rule TNetBackBone_forward_shape[OF sr assms(5) _ assms(6,7)]) simp
  then show ?thesis
    using r assms(1-3) by (simp add: TNet_forward_def TNet_init_def)
qed

lemma fc_layer_forward_shape:
  assumes "shape4 x = (B, H, W, fin)"
  shows "\<exists>y. fc_layer_forward (fc_layer_init sd name fin fout) x = Some y
           \<and> shape4 y = (B, H, W, fout)"
  using assms
  by (simp add: fc_layer_forward_def fc_layer_init_def Linear_forward_def Linear_init_def shape4_eq)

lemma CNet_rtx_shape:
  assumes x: "shape4 x = (B, 21, H, W)"
    and g: "gdim0 g = B" "gdim3 g = H" "gdim4 g = W" "gdim1 g = 0 \<or> gdim2 g = 17"
    and H: "16 \<le> H" and W: "16 \<le> W"
  shows "\<exists>rtx. CNet_rtx (CNet_init sd name n_oi) x g = Some rtx \<and> shape4 rtx = (B, 24, H, W)"
proof -
  have sp: "shape4 (moveaxis_1_3 (slice1 x 4 7)) = (B, H, W, 3)"
    using x by (simp add: moveaxis_1_3_def slice1_def shape4_eq)
  obtain pe where 1: "fc_layer_forward (fc_layer_init sd (sub name ''inner_pos'') 3 16)
                        (moveaxis_1_3 (slice1 x 4 7)) = Some pe"
    and spe: "shape4 pe = (B, H, W, 16)"
    using fc_layer_forward_shape[OF sp, of sd "sub name ''inner_pos''" 16] by blast
  have spe': "shape4 (moveaxis_3_1 pe) = (B, 16, H, W)"
    using spe by (simp add: moveaxis_3_1_def shape4_eq)
  obtain x' where 2: "cat1 x (moveaxis_3_1 pe) = Some x'" and sx': "shape4 x' = (B, 21 + 16, H, W)"
    using cat1_shape[OF x spe'] by blast
  have sx'': "shape4 x' = (B, 37, H, W)" using sx' by simp
  have "\<exists>y. UNet_forward (UNet_init sd (sub name ''unet'') 37 8 True) x' = Some y
          \<and> shape4 y = (B, 8, H, W)"
    by (rule UNet_forward_shape[OF sx'' _ _ H W]) simp_all
  then obtain rx where 3: "UNet_forward (UNet_init sd (sub name ''unet'') 37 8 True) x' = Some rx"
    and srx: "shape4 rx = (B, 8, H, W)" by blast
  have "\<exists>y. TNet_forward (TNet_init sd (sub name ''tnet'') (8 + 17) 32) g rx = Some y
          \<and> shape4 y = (B, 16, H, W)"
    by (rule TNet_forward_shape[OF g(1-3), where crx = 8]) (use g(4) srx H W in auto)
  then obtain tx where 4: "TNet_forward (TNet_init sd (sub name ''tnet'') (8 + 17) 32) g rx = Some tx"
    and stx: "shape4 tx = (B, 16, H, W)" by blast
  obtain rtx where 5: "cat1 rx tx = Some rtx" and srtx: "shape4 rtx = (B, 8 + 16, H, W)"
    using cat1_shape[OF srx stx] by blast
  show ?thesis
    unfolding CNet_rtx_def CNet_init_def Let_def
    using 1 2 3 4 5 srtx by simp
qed

lemma CNet_forward_shape:
  assumes x: "shape4 x = (B, 21, H, W)"
    and g: "gdim0 g = B" "gdim3 g = H" "gdim4 g = W" "gdim1 g = 0 \<or> gdim2 g = 17"
    and H: "16 \<le> H" and W: "16 \<le> W" and n: "0 < n_oi"
  shows "\<exists>normal oi uv. CNet_forward (CNet_init sd name n_oi) x g = Some (normal, oi, uv)
           \<and> shape4 normal = (B, 3, H, W) \<and> shape4 oi = (B, n_oi, H, W)
           \<and> shape4 uv = (B, 2, H, W)"
proof -
  note hs = encoder_sizes[OF H] and ws = encoder_sizes[OF W]
  obtain rtx where 1: "CNet_rtx (CNet_init sd name n_oi) x g = Some rtx"
    and s1: "shape4 rtx = (B, 24, H, W)"
    using CNet_rtx_shape[OF x g H W] by blast
  obtain out1 out2 out3 where
    2: "ThreeWayUNet_forward (ThreeWayUNet_init sd (sub name ''r_unet'') 24 n_oi True) rtx
          = Some (out1, out2, out3)"
    and s2: "shape4 out1 = (B, 3, H, W)" "shape4 out2 = (B, n_oi, H, W)" "shape4 out3 = (B, 2, H, W)"
    using ThreeWayUNet_forward_shape[OF s1 _ n H W, of sd "sub name ''r_unet''"] by auto
  have "\<exists>y. RNet_forward (RNet_init sd (sub name ''rnet_uv'') 2 2) out3 = Some y
          \<and> shape4 y = (B, 2, H, W)"
    by (rule RNet_forward_shape[OF s2(3) _ _ hs(1) ws(1)]) simp_all
  then obtain uv where 3: "RNet_forward (RNet_init sd (sub name ''rnet_uv'') 2 2) out3 = Some uv"
    and s3: "shape4 uv = (B, 2, H, W)" by blast
  have "\<exists>y. RNet_forward (RNet_init sd (sub name ''rnet_normal'') 3 3) out1 = Some y
          \<and> shape4 y = (B, 3, H, W)"
    by (rule RNet_forward_shape[OF s2(1) _ _ hs(1) ws(1)]) simp_all
  then obtain normal where 4: "RNet_forward (RNet_init sd (sub name ''rnet_normal'') 3 3) out1 = Some normal"
    and s4: "shape4 normal = (B, 3, H, W)" by blast
  have r: "r_unet (CNet_init sd name n_oi) = ThreeWayUNet_init sd (sub name ''r_unet'') 24 n_oi True"
    "rnet_uv (CNet_init sd name n_oi) = RNet_init sd (sub name ''rnet_uv'') 2 2"
    "rnet_normal (CNet_init sd name n_oi) = RNet_init sd (sub name ''rnet_normal'') 3 3"
    by (simp_all add: CNet_init_def)
  have "CNet_forward (CNet_init sd name n_oi) x g = Some (normal, out2, uv)"
    unfolding CNet_forward_def r by (simp add: 1 2 3 4)
  with s2 s3 s4 show ?thesis by blast
qed

lemma DoubleConv_forward_SomeD:
  assumes "DoubleConv_forward (DoubleConv_init sd name cin cout mid) x = Some y"
  shows "dim2 y = dim2 x \<and> dim3 y = dim3 x"
  using assms
  by (auto simp: DoubleConv_forward_def DoubleConv_init_def Let_def shape4_eq
      dest!: Conv2d_forward_SomeD split: Option.bind_splits)

lemma Down_forward_SomeD:
  assumes "Down_forward (Down_init sd name cin cout) x = Some y"
  shows "2 \<le> dim2 x \<and> 2 \<le> dim3 x \<and> dim2 y = dim2 x div 2 \<and> dim3 y = dim3 x div 2"
proof -
  from assms obtain p where p: "MaxPool2d x = Some p"
    and y: "DoubleConv_forward (DoubleConv_init sd (sub name ''maxpool_conv.1'') cin cout None) p = Some y"
    by (auto simp: Down_forward_def Down_init_def split: Option.bind_splits)
  from p have "1 \<le> dim2 x div 2" "1 \<le> dim3 x div 2" "dim2 p = dim2 x div 2" "dim3 p = dim3 x div 2"
    by (auto simp: MaxPool2d_def split: if_splits)
  moreover from this have "2 \<le> dim2 x" "2 \<le> dim3 x" by linarith+
  ultimately show ?thesis using DoubleConv_forward_SomeD[OF y] by simp
qed

lemma UNet_forward_SomeD:
  assumes "UNet_forward (UNet_init sd name cin ncls bl) x = Some y"
  shows "16 \<le> dim2 x \<and> 16 \<le> dim3 x"
proof -
  from assms obtain x1 x2 x3 x4 x5 where
    1: "DoubleConv_forward (DoubleConv_init sd (sub name ''inc'') cin 32 None) x = Some x1"
    and 2: "Down_forward (Down_init sd (sub name ''down1'') 32 64) x1 = Some x2"
    and 3: "Down_forward (Down_init sd (sub name ''down2'') 64 128) x2 = Some x3"
    and 4: "Down_forward (Down_init sd (sub name ''down3'') 128 256) x3 = Some x4"
    and 5: "Down_forward (Down_init sd (sub name ''down4'') 256 (512 div (if bl then 2 else 1))) x4 = Some x5"
    by (auto simp: UNet_forward_def UNet_init_def Let_def split: Option.bind_splits)
  note d = DoubleConv_forward_SomeD[OF 1] Down_forward_SomeD[OF 2] Down_forward_SomeD[OF 3]
    Down_forward_SomeD[OF 4] Down_forward_SomeD[OF 5]
  from d have "2 \<le> dim2 x div 2 div 2 div 2" "2 \<le> dim3 x div 2 div 2 div 2" by simp_all
  then show ?thesis by linarith
qed

lemma cat1_SomeD:
  assumes "cat1 a b = Some y"
  shows "dim2 y = dim2 a \<and> dim3 y = dim3 a"
  using assms by (auto simp: cat1_def split: if_splits)

lemma CNet_forward_SomeD:
  assumes "CNet_forward (CNet_init sd name n_oi) x g = Some r"
  shows "16 \<le> dim2 x \<and> 16 \<le> dim3 x"
proof -
  from assms obtain rtx where "CNet_rtx (CNet_init sd name n_oi) x g = Some rtx"
    by (auto simp: CNet_forward_def split: Option.bind_splits)
  then obtain pe x' rx where
    c: "cat1 x (moveaxis_3_1 pe) = Some x'"
    and u: "UNet_forward (UNet_init sd (sub name ''unet'') 37 8 True) x' = Some rx"
    by (auto simp: CNet_rtx_def CNet_init_def Let_def split: Option.bind_splits)
  from cat1_SomeD[OF c] UNet_forward_SomeD[OF u] show ?thesis by simp
qed

lemma CrystalNet_forward_SomeD:
  assumes "CrystalNet_forward (CrystalNet_init sd n_oi) x g = Some r"
  shows "16 \<le> dim2 x \<and> 16 \<le> dim3 x"
proof -
  from assms obtain r' where "CNet_forward (CNet_init sd ''cnet'' n_oi) x g = Some r'"
    by (auto simp: CrystalNet_forward_def CrystalNet_init_def split: Option.bind_splits)
  then show ?thesis by (rule CNet_forward_SomeD)
qed

section \<open>Values of the 1 x 1 projection\<close>

lemma sum_upto_sum: "sum_upto n f = (\<Sum>i<n. (f i :: 'a::comm_monoid_add))"
  by (induction n) (simp_all add: add.commute)

lemma OutConv_at:
  fixes sd :: "'a::comm_ring_1 state_dict"
  assumes "i < dim2 x" "j < dim3 x"
  shows "Conv2d_at (Conv2d_init sd name cin cout 1 0 True) x n oc i j
       = (\<Sum>c<cin. sd (sub name ''weight'') [oc, c, 0, 0] * at4 x n c i j) + sd (sub name ''bias'') [oc]"
  using assms by (simp add: Conv2d_at_def Conv2d_init_def pad_read_def sum_upto_sum)

lemma outc1_zeros:
  "OutConv_forward outc1 (zeros4 1 32 1 1) =
     Some \<lparr>dim0 = 1, dim1 = 8, dim2 = 1, dim3 = 1,
           at4 = Conv2d_at (Conv2d_init sd1 (sub ''outc'' ''conv'') 32 8 1 0 True) (zeros4 1 32 1 1)\<rparr>"
  by (simp add: outc1_def OutConv_forward_def OutConv_init_def Conv2d_forward_def Conv2d_init_def
      zeros4_def)

lemma outc1_zeros_at:
  "Conv2d_at (Conv2d_init sd1 (sub ''outc'' ''conv'') 32 8 1 0 True) (zeros4 1 32 1 1) 0 0 0 0 = 1"
proof -
  have "Conv2d_at (Conv2d_init sd1 (sub ''outc'' ''conv'') 32 8 1 0 True) (zeros4 1 32 1 1) 0 0 0 0
      = (\<Sum>c<32. sd1 (sub (sub ''outc'' ''conv'') ''weight'') [0, c, 0, 0] * at4 (zeros4 1 32 1 1) 0 c 0 0)
        + sd1 (sub (sub ''outc'' ''conv'') ''bias'') [0]"
    by (rule OutConv_at) (simp_all add: zeros4_def)
  then show ?thesis by (simp add: zeros4_def sd1_def)
qed

lemma Conv2d_1x1_forward_SomeD:
  assumes "Conv2d_forward (Conv2d_init sd name cin cout 1 0 True) x = Some y"
  shows "dim2 y = dim2 x \<and> dim3 y = dim3 x \<and> 0 < dim2 x \<and> 0 < dim3 x
       \<and> at4 y = Conv2d_at (Conv2d_init sd name cin cout 1 0 True) x"
  using assms by (auto simp: Conv2d_forward_def Conv2d_init_def split: if_splits)

lemma RNet_forward_last:
  assumes "RNet_forward (RNet_init sd name cin cout) x = Some y"
  shows "\<exists>u. 0 < dim2 u \<and> 0 < dim3 u
           \<and> at4 y = Conv2d_at (Conv2d_init sd (sub name ''layer3.0'') 32 cout 1 0 True) u"
proof -
  from assms obtain x3 where
    "Conv2d_forward (Conv2d_init sd (sub name ''layer3.0'') 32 cout 1 0 True) (LeakyReLU x3) = Some y"
    by (auto simp: RNet_forward_def RNet_init_def split: Option.bind_splits)
  from Conv2d_1x1_forward_SomeD[OF this] show ?thesis by blast
qed

lemma UNet_forward_last:
  assumes "UNet_forward (UNet_init sd name cin ncls bl) x = Some y"
  shows "\<exists>u. 0 < dim2 u \<and> 0 < dim3 u
           \<and> at4 y = Conv2d_at (Conv2d_init sd (sub (sub name ''outc'') ''conv'') 32 ncls 1 0 True) u"
proof -
  from assms obtain u where
    "Conv2d_forward (Conv2d_init sd (sub (sub name ''outc'') ''conv'') 32 ncls 1 0 True) u = Some y"
    by (auto simp: UNet_forward_def UNet_init_def Let_def OutConv_forward_def OutConv_init_def
        split: Option.bind_splits)
  from Conv2d_1x1_forward_SomeD[OF this] show ?thesis by blast
qed

lemma sd_neg_at:
  assumes "0 < dim2 u" "0 < dim3 u"
  shows "Conv2d_at (Conv2d_init sd_neg ''rnet_uv.layer3.0'' 32 cout 1 0 True) u 0 0 0 0 = - 1"
    "Conv2d_at (Conv2d_init sd_neg ''unet.outc.conv'' 32 cout 1 0 True) u 0 0 0 0 = - 1"
proof -
  have "Conv2d_at (Conv2d_init sd_neg ''rnet_uv.layer3.0'' 32 cout 1 0 True) u 0 0 0 0
      = (\<Sum>c<32. sd_neg (sub ''rnet_uv.layer3.0'' ''weight'') [0, c, 0, 0] * at4 u 0 c 0 0)
        + sd_neg (sub ''rnet_uv.layer3.0'' ''bias'') [0]"
    by (rule OutConv_at) (use assms in simp_all)
  then show "Conv2d_at (Conv2d_init sd_neg ''rnet_uv.layer3.0'' 32 cout 1 0 True) u 0 0 0 0 = - 1"
    by (simp add: sd_neg_def sub_def)
  have "Conv2d_at (Conv2d_init sd_neg ''unet.outc.conv'' 32 cout 1 0 True) u 0 0 0 0
      = (\<Sum>c<32. sd_neg (sub ''unet.outc.conv'' ''weight'') [0, c, 0, 0] * at4 u 0 c 0 0)
        + sd_neg (sub ''unet.outc.conv'' ''bias'') [0]"
    by (rule OutConv_at) (use assms in simp_all)
  then show "Conv2d_at (Conv2d_init sd_neg ''unet.outc.conv'' 32 cout 1 0 True) u 0 0 0 0 = - 1"
    by (simp add: sd_neg_def sub_def)
qed

lemma RNet_negative_output:
  "\<exists>y. RNet_forward (RNet_init sd_neg ''rnet_uv'' 2 2) (zeros4 1 2 4 4) = Some y \<and> at4 y 0 0 0 0 = - 1"
proof -
  obtain y where y: "RNet_forward (RNet_init sd_neg ''rnet_uv'' 2 2) (zeros4 1 2 4 4) = Some y"
    using RNet_forward_shape[of "zeros4 1 2 4 4 :: real tensor4" 1 2 4 4 2 sd_neg "''rnet_uv''"] by auto
  from RNet_forward_last[OF y] obtain u where u: "0 < dim2 u" "0 < dim3 u"
    "at4 y = Conv2d_at (Conv2d_init sd_neg (sub ''rnet_uv'' ''layer3.0'') 32 2 1 0 True) u" by blast
  have "sub ''rnet_uv'' ''layer3.0'' = ''rnet_uv.layer3.0''" by (simp add: sub_def)
  with u sd_neg_at(1)[OF u(1,2), of 2] have "at4 y 0 0 0 0 = - 1" by simp
  with y show ?thesis by blast
qed

lemma UNet_negative_output:
  "\<exists>y. UNet_forward (UNet_init sd_neg ''unet'' 37 8 True) (zeros4 1 37 16 16) = Some y
       \<and> at4 y 0 0 0 0 = - 1"
proof -
  obtain y where y: "UNet_forward (UNet_init sd_neg ''unet'' 37 8 True) (zeros4 1 37 16 16) = Some y"
    using UNet_forward_shape[of "zeros4 1 37 16 16 :: real tensor4" 1 37 16 16 8 sd_neg "''unet''"] by auto
  from UNet_forward_last[OF y] obtain u where u: "0 < dim2 u" "0 < dim3 u"
    "at4 y = Conv2d_at (Conv2d_init sd_neg (sub (sub ''unet'' ''outc'') ''conv'') 32 8 1 0 True) u" by blast
  have "sub (sub ''unet'' ''outc'') ''conv'' = ''unet.outc.conv''" by (simp add: sub_def)
  with u sd_neg_at(2)[OF u(1,2), of 8] have "at4 y 0 0 0 0 = - 1" by simp
  with y show ?thesis by blast
qed

section \<open>The decoder groups of ThreeWayUNet, one at a time\<close>

lemma ThreeWayUNet_other_groups:
  fixes m :: "'a::linordered_field ThreeWayUNet"
  shows
   "(ThreeWayUNet_forward m x = Some (o1, o2, o3) \<and>
     ThreeWayUNet_forward (m\<lparr>up_group_1_0 := a0, up_group_1_1 := a1, up_group_1_2 := a2,
        up_group_1_3 := a3, up_group_1_4 := a4\<rparr>) x = Some (p1, p2, p3)
     \<longrightarrow> p2 = o2 \<and> p3 = o3)
  \<and> (ThreeWayUNet_forward m x = Some (o1, o2, o3) \<and>
     ThreeWayUNet_forward (m\<lparr>up_group_2_0 := a0, up_group_2_1 := a1, up_group_2_2 := a2,
        up_group_2_3 := a3, up_group_2_4 := a4\<rparr>) x = Some (q1, q2, q3)
     \<longrightarrow> q1 = o1 \<and> q3 = o3)
  \<and> (ThreeWayUNet_forward m x = Some (o1, o2, o3) \<and>
     ThreeWayUNet_forward (m\<lparr>up_group_3_0 := a0, up_group_3_1 := a1, up_group_3_2 := a2,
        up_group_3_3 := a3, up_group_3_4 := a4\<rparr>) x = Some (r1, r2, r3)
     \<longrightarrow> r1 = o1 \<and> r2 = o2)"
  by (auto simp: ThreeWayUNet_forward_def split: Option.bind_splits)

lemma ThreeWayUNet_reparametrised:
  assumes x: "shape4 x = (B, n_channels, H, W)" and nch: "0 < n_channels"
    and nc: "0 < n_classes"
    and H: "16 \<le> H" and W: "16 \<le> W"
  shows "\<exists>o1 o2 o3 p1 q2 r3.
       ThreeWayUNet_forward (ThreeWayUNet_init sd name n_channels n_classes True) x
         = Some (o1, o2, o3)
     \<and> ThreeWayUNet_forward ((ThreeWayUNet_init sd name n_channels n_classes True)\<lparr>
          up_group_1_0 := Up_init sd' (sub name ''up_group_1_0'') 512 128 True,
          up_group_1_1 := Up_init sd' (sub name ''up_group_1_1'') 256 64 True,
          up_group_1_2 := Up_init sd' (sub name ''up_group_1_2'') 128 32 True,
          up_group_1_3 := Up_init sd' (sub name ''up_group_1_3'') 64 32 True,
          up_group_1_4 := OutConv_init sd' (sub name ''up_group_1_4'') 32 3\<rparr>) x
         = Some (p1, o2, o3)
     \<and> ThreeWayUNet_forward ((ThreeWayUNet_init sd name n_channels n_classes True)\<lparr>
          up_group_2_0 := Up_init sd' (sub name ''up_group_2_0'') 512 128 True,
          up_group_2_1 := Up_init sd' (sub name ''up_group_2_1'') 256 64 True,
          up_group_2_2 := Up_init sd' (sub name ''up_group_2_2'') 128 32 True,
          up_group_2_3 := Up_init sd' (sub name ''up_group_2_3'') 64 32 True,
          up_group_2_4 := OutConv_init sd' (sub name ''up_group_2_4'') 32 n_classes\<rparr>) x
         = Some (o1, q2, o3)
     \<and> ThreeWayUNet_forward ((ThreeWayUNet_init sd name n_channels n_classes True)\<lparr>
          up_group_3_0 := Up_init sd' (sub name ''up_group_3_0'') 512 128 True,
          up_group_3_1 := Up_init sd' (sub name ''up_group_3_1'') 256 64 True,
          up_group_3_2 := Up_init sd' (sub name ''up_group_3_2'') 128 32 True,
          up_group_3_3 := Up_init sd' (sub name ''up_group_3_3'') 64 32 True,
          up_group_3_4 := OutConv_init sd' (sub name ''up_group_3_4'') 32 2\<rparr>) x
         = Some (o1, o2, r3)"
proof -
  let ?m = "ThreeWayUNet_init sd name n_channels n_classes True"
  let ?m1 = "?m\<lparr>
          up_group_1_0 := Up_init sd' (sub name ''up_group_1_0'') 512 128 True,
          up_group_1_1 := Up_init sd' (sub name ''up_group_1_1'') 256 64 True,
          up_group_1_2 := Up_init sd' (sub name ''up_group_1_2'') 128 32 True,
          up_group_1_3 := Up_init sd' (sub name ''up_group_1_3'') 64 32 True,
          up_group_1_4 := OutConv_init sd' (sub name ''up_group_1_4'') 32 3\<rparr>"
  let ?m2 = "?m\<lparr>
          up_group_2_0 := Up_init sd' (sub name ''up_group_2_0'') 512 128 True,
          up_group_2_1 := Up_init sd' (sub name ''up_group_2_1'') 256 64 True,
          up_group_2_2 := Up_init sd' (sub name ''up_group_2_2'') 128 32 True,
          up_group_2_3 := Up_init sd' (sub name ''up_group_2_3'') 64 32 True,
          up_group_2_4 := OutConv_init sd' (sub name ''up_group_2_4'') 32 n_classes\<rparr>"
  let ?m3 = "?m\<lparr>
          up_group_3_0 := Up_init sd' (sub name ''up_group_3_0'') 512 128 True,
          up_group_3_1 := Up_init sd' (sub name ''up_group_3_1'') 256 64 True,
          up_group_3_2 := Up_init sd' (sub name ''up_group_3_2'') 128 32 True,
          up_group_3_3 := Up_init sd' (sub name ''up_group_3_3'') 64 32 True,
          up_group_3_4 := OutConv_init sd' (sub name ''up_group_3_4'') 32 2\<rparr>"
  obtain o1 o2 o3 where o: "ThreeWayUNet_forward ?m x = Some (o1, o2, o3)"
    using ThreeWayUNet_forward_shape[OF x nch nc H W, of sd name] by blast
  obtain p1 p2 p3 where p: "ThreeWayUNet_forward ?m1 x = Some (p1, p2, p3)"
    using ThreeWayUNet_mixed_shape[OF x nch nc H W, of sd name sd' sd sd]
    unfolding ThreeWayUNet_init_True by auto
  obtain q1 q2 q3 where q: "ThreeWayUNet_forward ?m2 x = Some (q1, q2, q3)"
    using ThreeWayUNet_mixed_shape[OF x nch nc H W, of sd name sd sd' sd]
    unfolding ThreeWayUNet_init_True by auto
  obtain r1 r2 r3 where r: "ThreeWayUNet_forward ?m3 x = Some (r1, r2, r3)"
    using ThreeWayUNet_mixed_shape[OF x nch nc H W, of sd name sd sd sd']
    unfolding ThreeWayUNet_init_True by auto
  from ThreeWayUNet_other_groups[where m = ?m and x = x
      and ?o1.0 = o1 and ?o2.0 = o2 and ?o3.0 = o3
      and ?a0.0 = "Up_init sd' (sub name ''up_group_1_0'') 512 128 True"
      and ?a1.0 = "Up_init sd' (sub name ''up_group_1_1'') 256 64 True"
      and ?a2.0 = "Up_init sd' (sub name ''up_group_1_2'') 128 32 True"
      and ?a3.0 = "Up_init sd' (sub name ''up_group_1_3'') 64 32 True"
      and ?a4.0 = "OutConv_init sd' (sub name ''up_group_1_4'') 32 3"
      and ?p1.0 = p1 and ?p2.0 = p2 and ?p3.0 = p3] o p
  have 1: "p2 = o2 \<and> p3 = o3" by blast
  from ThreeWayUNet_other_groups[where m = ?m and x = x
      and ?o1.0 = o1 and ?o2.0 = o2 and ?o3.0 = o3
      and ?a0.0 = "Up_init sd' (sub name ''up_group_2_0'') 512 128 True"
      and ?a1.0 = "Up_init sd' (sub name ''up_group_2_1'') 256 64 True"
      and ?a2.0 = "Up_init sd' (sub name ''up_group_2_2'') 128 32 True"
      and ?a3.0 = "Up_init sd' (sub name ''up_group_2_3'') 64 32 True"
      and ?a4.0 = "OutConv_init sd' (sub name ''up_group_2_4'') 32 n_classes"
      and ?q1.0 = q1 and ?q2.0 = q2 and ?q3.0 = q3] o q
  have 2: "q1 = o1 \<and> q3 = o3" by blast
  from ThreeWayUNet_other_groups[where m = ?m and x = x
      and ?o1.0 = o1 and ?o2.0 = o2 and ?o3.0 = o3
      and ?a0.0 = "Up_init sd' (sub name ''up_group_3_0'') 512 128 True"
      and ?a1.0 = "Up_init sd' (sub name ''up_group_3_1'') 256 64 True"
      and ?a2.0 = "Up_init sd' (sub name ''up_group_3_2'') 128 32 True"
      and ?a3.0 = "Up_init sd' (sub name ''up_group_3_3'') 64 32 True"
      and ?a4.0 = "OutConv_init sd' (sub name ''up_group_3_4'') 32 2"
      and ?r1.0 = r1 and ?r2.0 = r2 and ?r3.0 = r3] o r
  have 3: "r1 = o1 \<and> r2 = o2" by blast
  from o p q r 1 2 3 show ?thesis by blast
qed

section \<open>Rounded arithmetic: the pass-through TNet\<close>

lemma f32_zero_mult [simp]: "0 * (x::f32) = 0"
  by (cases x) (simp add: times_f32_def zero_f32_def round24_def ulp_exp.simps)

lemma round24_0 [simp]: "round24 0 = 0"
  by (simp add: round24_def ulp_exp.simps)

lemma f32_zero_add_zero [simp]: "(0::f32) + 0 = 0"
  by (simp add: plus_f32_def zero_f32_def)





lemma f32_relu_0 [simp]: "relu (0::f32) = 0"
  by (simp add: relu_def)



lemma rep_vals [simp]: "representable (F32 16777216)" "representable (F32 16777218)"
  "representable (F32 1)" "representable (F32 2)" "representable 0"
  by (simp_all add: representable_def round24_def ulp_exp.simps zero_f32_def)











section \<open>Overflow and NaN in a backbone\<close>

lemma xround_0 [simp]: "xround 0 = Val 0"
  by (simp add: xround_def round24_def ulp_exp.simps)

lemma round24_big: "round24 (2 * 2 ^ 127) = 2 ^ 128"
  by (simp add: round24_def ulp_exp.simps)

lemma xround_big: "xround (2 * 2 ^ 127) = PosInf"
  unfolding xround_def round24_big by simp

lemma xf_NaN_add [simp]: "NaN + x = NaN" "x + NaN = (NaN::xf32)"
  by (cases x; simp add: plus_xf32_def)+

lemma xf_NaN_mult [simp]: "NaN * x = NaN" "x * NaN = (NaN::xf32)"
  by (cases x; simp add: times_xf32_def)+

lemma xf_zero_PosInf [simp]: "Val 0 * PosInf = NaN" "0 * PosInf = NaN"
  by (simp_all add: times_xf32_def zero_xf32_def)

lemma xf_add_0 [simp]: "(0::xf32) + 0 = 0" "0 + PosInf = PosInf" "PosInf + 0 = PosInf"
  by (simp_all add: plus_xf32_def zero_xf32_def)

lemma xf_mult_0 [simp]: "Val a * 0 = 0"
  by (simp add: times_xf32_def zero_xf32_def)

lemma xf_relu [simp]: "relu NaN = NaN" "relu PosInf = PosInf"
  by (simp_all add: relu_def less_eq_xf32_def zero_xf32_def)

lemma xf_not_le_NaN [simp]: "\<not> (0::xf32) \<le> NaN" "\<not> NaN \<le> (0::xf32)" "\<not> NaN < (0::xf32)"
  by (simp_all add: less_eq_xf32_def less_xf32_def zero_xf32_def)

lemma xf_relu_cases:
  fixes e :: xf32
  assumes "e = 0 \<or> \<not> e \<le> 0"
  shows "(0 \<le> e \<or> e = NaN) \<and> \<not> e < 0"
  using assms by (cases e) (auto simp: less_eq_xf32_def less_xf32_def zero_xf32_def)

lemma sum_upto_xf_zero: "(\<And>i. i < n \<Longrightarrow> f i = (0::xf32)) \<Longrightarrow> sum_upto n f = 0"
  by (induction n) simp_all

lemma sum_upto_xf_PosInf:
  assumes "k < n" "f k = PosInf" "\<And>i. i < n \<Longrightarrow> i \<noteq> k \<Longrightarrow> f i = (0::xf32)"
  shows "sum_upto n f = PosInf"
  using assms
proof (induction n)
  case 0
  then show ?case by simp
next
  case (Suc n)
  show ?case
  proof (cases "k = n")
    case True
    then have "sum_upto n f = 0" using Suc.prems(3) by (intro sum_upto_xf_zero) simp
    then show ?thesis using True Suc.prems by simp
  next
    case False
    then have "sum_upto n f = PosInf" using Suc by simp
    moreover have "f n = 0" using False Suc.prems by simp
    ultimately show ?thesis by simp
  qed
qed

lemma sum_upto_NaN:
  assumes "k < n" "f k = (NaN::xf32)"
  shows "sum_upto n f = NaN"
  using assms
proof (induction n)
  case 0
  then show ?case by simp
next
  case (Suc n)
  show ?case
  proof (cases "k = n")
    case True
    then show ?thesis using Suc.prems by simp
  next
    case False
    then have "sum_upto n f = NaN" using Suc by simp
    then show ?thesis by simp
  qed
qed

lemma conv_nan_at:
  fixes sd :: "xf32 state_dict"
  assumes s: "0 < cin" and p: "p < k" and i: "i < dim2 x" and j: "j < dim3 x"
    and v: "sd (sub name ''weight'') [0, 0, p, p] * at4 x n 0 i j = NaN"
  shows "Conv2d_at (Conv2d_init sd name cin cout k p True) x n 0 i j = NaN"
proof -
  let ?t = "\<lambda>c di dj. sd (sub name ''weight'') [0, c, di, dj] * pad_read x p n c (i + di) (j + dj)"
  have rd: "pad_read x p n 0 (i + p) (j + p) = at4 x n 0 i j"
    using i j by (simp add: pad_read_def)
  have inner: "sum_upto k (\<lambda>dj. ?t 0 p dj) = NaN"
    by (rule sum_upto_NaN[OF p]) (simp add: rd v)
  have mid: "sum_upto k (\<lambda>di. sum_upto k (\<lambda>dj. ?t 0 di dj)) = NaN"
    by (rule sum_upto_NaN[OF p]) (rule inner)
  have outer: "sum_upto cin (\<lambda>c. sum_upto k (\<lambda>di. sum_upto k (\<lambda>dj. ?t c di dj))) = NaN"
    by (rule sum_upto_NaN[OF s]) (rule mid)
  show ?thesis
    unfolding Conv2d_at_def Let_def
    by (simp add: Conv2d_init_def outer)
qed

lemma conv_nan_layer:
  fixes sd :: "xf32 state_dict"
  assumes x: "shape4 x = (B, cin, H, W)" and cin: "0 < cin" and cout: "0 < cout"
    and kp: "(k, p) = (3, 1) \<or> (k, p) = (1, 0)"
    and i: "i < H" and j: "j < W"
    and v: "sd (sub name ''weight'') [0, 0, p, p] * at4 x n 0 i j = NaN"
  shows "\<exists>y. Conv2d_forward (Conv2d_init sd name cin cout k p True) x = Some y
           \<and> shape4 (ReLU y) = (B, cout, H, W) \<and> at4 (ReLU y) n 0 i j = NaN"
proof -
  from x have d: "dim0 x = B" "dim1 x = cin" "dim2 x = H" "dim3 x = W" by (simp_all add: shape4_eq)
  have p: "p < k" using kp by auto
  have a: "Conv2d_at (Conv2d_init sd name cin cout k p True) x n 0 i j = NaN"
    by (rule conv_nan_at[where sd = sd and name = name and p = p, OF cin p]) (use i j d v in simp_all)
  have "Conv2d_forward (Conv2d_init sd name cin cout k p True) x
      = Some \<lparr>dim0 = B, dim1 = cout, dim2 = H, dim3 = W,
              at4 = Conv2d_at (Conv2d_init sd name cin cout k p True) x\<rparr>"
    using kp cin cout i j d by (auto simp: Conv2d_forward_def Conv2d_init_def)
  then show ?thesis
    using a by simp
qed

text \<open>NaN in, NaN out, whatever the parameters.\<close>

lemma TNetBackBone_tail_NaN:
  fixes sd :: "xf32 state_dict"
  assumes s1: "shape4 x1 = (B, 64, H, W)" and cout: "0 < cout" and i: "i < H" and j: "j < W"
    and v: "sd (sub (sub name ''layer2.0'') ''weight'') [0, 0, 1, 1] * at4 x1 n 0 i j = NaN"
  shows "\<exists>y. (Conv2d_forward (Conv2d_init sd (sub name ''layer2.0'') 64 128 3 1 True) x1 \<bind> (\<lambda>x.
              Conv2d_forward (Conv2d_init sd (sub name ''layer3.0'') 128 64 3 1 True) (ReLU x) \<bind> (\<lambda>x.
              Conv2d_forward (Conv2d_init sd (sub name ''layer4.0'') 64 cout 1 0 True) (ReLU x) \<bind> (\<lambda>x.
              Some (ReLU x))))) = Some y
           \<and> shape4 y = (B, cout, H, W) \<and> at4 y n 0 i j = NaN"
proof -
  have "\<exists>y. Conv2d_forward (Conv2d_init sd (sub name ''layer2.0'') 64 128 3 1 True) x1 = Some y
          \<and> shape4 (ReLU y) = (B, 128, H, W) \<and> at4 (ReLU y) n 0 i j = NaN"
    by (rule conv_nan_layer[where sd = sd and name = "sub name ''layer2.0''" and p = 1 and k = 3,
          OF s1 _ _ _ i j]) (use v in simp_all)
  then obtain y2 where 2: "Conv2d_forward (Conv2d_init sd (sub name ''layer2.0'') 64 128 3 1 True) x1 = Some y2"
    and s2: "shape4 (ReLU y2) = (B, 128, H, W)" and v2: "at4 (ReLU y2) n 0 i j = NaN"
    by blast
  have "\<exists>y. Conv2d_forward (Conv2d_init sd (sub name ''layer3.0'') 128 64 3 1 True) (ReLU y2) = Some y
          \<and> shape4 (ReLU y) = (B, 64, H, W) \<and> at4 (ReLU y) n 0 i j = NaN"
    by (rule conv_nan_layer[where sd = sd and name = "sub name ''layer3.0''" and p = 1 and k = 3,
          OF s2 _ _ _ i j]) (use v2 in simp_all)
  then obtain y3 where 3: "Conv2d_forward (Conv2d_init sd (sub name ''layer3.0'') 128 64 3 1 True) (ReLU y2) = Some y3"
    and s3: "shape4 (ReLU y3) = (B, 64, H, W)" and v3: "at4 (ReLU y3) n 0 i j = NaN"
    by blast
  have "\<exists>y. Conv2d_forward (Conv2d_init sd (sub name ''layer4.0'') 64 cout 1 0 True) (ReLU y3) = Some y
          \<and> shape4 (ReLU y) = (B, cout, H, W) \<and> at4 (ReLU y) n 0 i j = NaN"
    by (rule conv_nan_layer[where sd = sd and name = "sub name ''layer4.0''" and p = 0 and k = 1,
          OF s3 _ cout _ i j]) (use v3 in simp_all)
  then obtain y4 where 4: "Conv2d_forward (Conv2d_init sd (sub name ''layer4.0'') 64 cout 1 0 True) (ReLU y3) = Some y4"
    and s4: "shape4 (ReLU y4) = (B, cout, H, W)" and v4: "at4 (ReLU y4) n 0 i j = NaN"
    by blast
  show ?thesis using 2 3 4 s4 v4 by simp
qed

lemma TNetBackBone_NaN:
  fixes sd :: "xf32 state_dict"
  assumes x: "shape4 x = (B, cin, H, W)" and cin: "0 < cin" and cout: "0 < cout"
    and i: "i < H" and j: "j < W" and v: "at4 x n 0 i j = NaN"
  shows "\<exists>y. TNetBackBone_forward (TNetBackBone_init sd name cin cout) x = Some y
           \<and> shape4 y = (B, cout, H, W) \<and> at4 y n 0 i j = NaN"
proof -
  have "\<exists>y. Conv2d_forward (Conv2d_init sd (sub name ''layer1.0'') cin 64 3 1 True) x = Some y
          \<and> shape4 (ReLU y) = (B, 64, H, W) \<and> at4 (ReLU y) n 0 i j = NaN"
    by (rule conv_nan_layer[where sd = sd and name = "sub name ''layer1.0''" and p = 1 and k = 3,
          OF x cin _ _ i j]) (use v in simp_all)
  then obtain y1 where 1: "Conv2d_forward (Conv2d_init sd (sub name ''layer1.0'') cin 64 3 1 True) x = Some y1"
    and s1: "shape4 (ReLU y1) = (B, 64, H, W)" and v1: "at4 (ReLU y1) n 0 i j = NaN"
    by blast
  have "sd (sub (sub name ''layer2.0'') ''weight'') [0, 0, 1, 1] * at4 (ReLU y1) n 0 i j = NaN"
    unfolding v1 by simp
  from TNetBackBone_tail_NaN[where sd = sd and name = name, OF s1 cout i j this] obtain y where
    "(Conv2d_forward (Conv2d_init sd (sub name ''layer2.0'') 64 128 3 1 True) (ReLU y1) \<bind> (\<lambda>x.
              Conv2d_forward (Conv2d_init sd (sub name ''layer3.0'') 128 64 3 1 True) (ReLU x) \<bind> (\<lambda>x.
              Conv2d_forward (Conv2d_init sd (sub name ''layer4.0'') 64 cout 1 0 True) (ReLU x) \<bind> (\<lambda>x.
              Some (ReLU x))))) = Some y" "shape4 y = (B, cout, H, W)" "at4 y n 0 i j = NaN"
    by auto
  then show ?thesis
    unfolding TNetBackBone_forward_def TNetBackBone_init_def using 1 by simp
qed

lemma conv_big_at:
  assumes d: "dim2 x = 1" "dim3 x = 1"
    and v: "\<And>c. c < 25 \<Longrightarrow> at4 x 0 c 0 0 = (if c = 8 then Val (2 ^ 127) else 0)"
  shows "Conv2d_at (Conv2d_init sd_nan ''tnet.tnet_f.layer1.0'' 25 cout 3 1 True) x 0 0 0 0 = PosInf"
proof -
  let ?t = "\<lambda>c di dj. sd_nan (sub ''tnet.tnet_f.layer1.0'' ''weight'') [0, c, di, dj]
                * pad_read x 1 0 c (0 + di) (0 + dj)"
  have w: "sd_nan (sub ''tnet.tnet_f.layer1.0'' ''weight'') idx = Val 2" for idx
    by (simp add: sd_nan_def sub_def)
  have b: "sd_nan (sub ''tnet.tnet_f.layer1.0'' ''bias'') idx = 0" for idx
    by (simp add: sd_nan_def sub_def zero_xf32_def)
  have big: "?t 8 1 1 = PosInf"
    by (simp add: w pad_read_def d v times_xf32_def xround_def round24_def ulp_exp.simps)
  have off: "?t c di dj = 0" if "c < 25" "di < 3" "dj < 3" "\<not> (c = 8 \<and> di = 1 \<and> dj = 1)" for c di dj
    using that by (auto simp: w pad_read_def d v)
  have inner: "sum_upto 3 (\<lambda>dj. ?t 8 1 dj) = PosInf"
    by (rule sum_upto_xf_PosInf[where k = 1]) (use big off in simp_all)
  have mid: "sum_upto 3 (\<lambda>di. sum_upto 3 (\<lambda>dj. ?t 8 di dj)) = PosInf"
  proof (rule sum_upto_xf_PosInf[where k = 1])
    show "sum_upto 3 (\<lambda>dj. ?t 8 1 dj) = PosInf" by (rule inner)
    show "sum_upto 3 (\<lambda>dj. ?t 8 di dj) = 0" if "di < 3" "di \<noteq> 1" for di
      by (rule sum_upto_xf_zero) (use that off in simp)
  qed simp
  have outer: "sum_upto 25 (\<lambda>c. sum_upto 3 (\<lambda>di. sum_upto 3 (\<lambda>dj. ?t c di dj))) = PosInf"
  proof (rule sum_upto_xf_PosInf[where k = 8])
    show "sum_upto 3 (\<lambda>di. sum_upto 3 (\<lambda>dj. ?t 8 di dj)) = PosInf" by (rule mid)
    show "sum_upto 3 (\<lambda>di. sum_upto 3 (\<lambda>dj. ?t c di dj)) = 0" if "c < 25" "c \<noteq> 8" for c
      by (rule sum_upto_xf_zero, rule sum_upto_xf_zero) (use that off in simp)
  qed simp
  show ?thesis
    unfolding Conv2d_at_def Let_def
    using outer by (simp add: Conv2d_init_def b)
qed

lemma tnet_f_nan:
  assumes x: "shape4 x = (1, 25, 1, 1)"
    and v: "\<And>c. c < 25 \<Longrightarrow> at4 x 0 c 0 0 = (if c = 8 then Val (2 ^ 127) else 0)"
  shows "\<exists>y. TNetBackBone_forward (TNetBackBone_init sd_nan ''tnet.tnet_f'' 25 32) x = Some y
           \<and> shape4 y = (1, 32, 1, 1) \<and> at4 y 0 0 0 0 = NaN"
proof -
  from x have d: "dim0 x = 1" "dim1 x = 25" "dim2 x = 1" "dim3 x = 1" by (simp_all add: shape4_eq)
  have n: "sub ''tnet.tnet_f'' ''layer1.0'' = ''tnet.tnet_f.layer1.0''" by (simp add: sub_def)
  define y1 where "y1 = \<lparr>dim0 = 1, dim1 = 64, dim2 = 1, dim3 = 1,
       at4 = Conv2d_at (Conv2d_init sd_nan ''tnet.tnet_f.layer1.0'' 25 64 3 1 True) x\<rparr>"
  have 1: "Conv2d_forward (Conv2d_init sd_nan (sub ''tnet.tnet_f'' ''layer1.0'') 25 64 3 1 True) x = Some y1"
    unfolding n by (simp add: Conv2d_forward_def Conv2d_init_def d y1_def)
  have s1: "shape4 (ReLU y1) = (1, 64, 1, 1)" by (simp add: y1_def)
  have "Conv2d_at (Conv2d_init sd_nan ''tnet.tnet_f.layer1.0'' 25 64 3 1 True) x 0 0 0 0 = PosInf"
    using d(3,4) v by (rule conv_big_at)
  then have "at4 y1 0 0 0 0 = PosInf" by (simp add: y1_def)
  then have v1: "at4 (ReLU y1) 0 0 0 0 = PosInf" by simp
  have w2: "sd_nan (sub (sub ''tnet.tnet_f'' ''layer2.0'') ''weight'') [0, 0, 1, 1] * at4 (ReLU y1) 0 0 0 0 = NaN"
    unfolding v1 by (simp add: sd_nan_def sub_def)
  from TNetBackBone_tail_NaN[where sd = sd_nan and name = "''tnet.tnet_f''", OF s1 _ _ _ w2, of 32]
  obtain y where
    "(Conv2d_forward (Conv2d_init sd_nan (sub ''tnet.tnet_f'' ''layer2.0'') 64 128 3 1 True) (ReLU y1) \<bind> (\<lambda>x.
              Conv2d_forward (Conv2d_init sd_nan (sub ''tnet.tnet_f'' ''layer3.0'') 128 64 3 1 True) (ReLU x) \<bind> (\<lambda>x.
              Conv2d_forward (Conv2d_init sd_nan (sub ''tnet.tnet_f'' ''layer4.0'') 64 32 1 0 True) (ReLU x) \<bind> (\<lambda>x.
              Some (ReLU x))))) = Some y" "shape4 y = (1, 32, 1, 1)" "at4 y 0 0 0 0 = NaN"
    by auto
  then show ?thesis
    unfolding TNetBackBone_forward_def TNetBackBone_init_def using 1 by simp
qed

lemma x_big_nan:
  "\<exists>y. TNetBackBone_forward (tnet_f tnet_nan) x_big = Some y \<and> at4 y 0 0 0 0 = NaN"
proof -
  have "\<exists>y. TNetBackBone_forward (TNetBackBone_init sd_nan ''tnet.tnet_f'' 25 32) x_big = Some y
           \<and> shape4 y = (1, 32, 1, 1) \<and> at4 y 0 0 0 0 = NaN"
    by (rule tnet_f_nan) (simp_all add: x_big_def zero_xf32_def)
  then show ?thesis by (auto simp: tnet_nan_def TNet_init_def sub_def)
qed

lemma tnet_nan_forward:
  "\<exists>z. TNet_forward tnet_nan g_big rx_big = Some z \<and> at4 z 0 0 0 0 = NaN"
proof -
  define gi where "gi = \<lparr>dim0 = 1, dim1 = 17, dim2 = 1, dim3 = 1,
     at4 = (\<lambda>b c h w. at5 g_big b 0 c h w)\<rparr>"
  have 1: "select1 g_big 0 = Some gi"
    by (simp add: select1_def g_big_def gi_def)
  define c where "c = \<lparr>dim0 = dim0 rx_big, dim1 = dim1 rx_big + dim1 gi, dim2 = dim2 rx_big,
     dim3 = dim3 rx_big,
     at4 = (\<lambda>n ch i j. if ch < dim1 rx_big then at4 rx_big n ch i j
                       else at4 gi n (ch - dim1 rx_big) i j)\<rparr>"
  have dr: "dim0 rx_big = 1" "dim1 rx_big = 8" "dim2 rx_big = 1" "dim3 rx_big = 1"
    by (simp_all add: rx_big_def zeros4_def)
  have dgi: "dim0 gi = 1" "dim1 gi = 17" "dim2 gi = 1" "dim3 gi = 1"
    by (simp_all add: gi_def)
  have 2: "cat1 rx_big gi = Some c"
    by (simp add: cat1_def c_def dr dgi)
  have sc: "shape4 c = (1, 25, 1, 1)" by (simp add: c_def rx_big_def zeros4_def gi_def)
  have vc: "at4 c 0 ch 0 0 = (if ch = 8 then Val (2 ^ 127) else 0)" if "ch < 25" for ch
    using that by (auto simp: c_def gi_def g_big_def rx_big_def zeros4_def zero_xf32_def)
  obtain y where y: "TNetBackBone_forward (TNetBackBone_init sd_nan ''tnet.tnet_f'' 25 32) c = Some y"
    and sy: "shape4 y = (1, 32, 1, 1)" and vy: "at4 y 0 0 0 0 = NaN"
    using tnet_f_nan[OF sc vc] by blast
  have f: "tnet_f tnet_nan = TNetBackBone_init sd_nan ''tnet.tnet_f'' 25 32"
    and b: "tnet_b tnet_nan = TNetBackBone_init sd_nan ''tnet.tnet_b'' 32 16"
    and h: "hidden tnet_nan = 32"
    by (simp_all add: tnet_nan_def TNet_init_def sub_def)
  have ct: "TNet_contrib tnet_nan g_big rx_big 0 = Some y"
    by (simp add: TNet_contrib_def 1 2 f y)
  define r where "r = \<lparr>dim0 = 1, dim1 = 32, dim2 = 1, dim3 = 1,
       at4 = (\<lambda>b c i j. (0::xf32) + at4 y (bidx (dim0 y) b) (bidx (dim1 y) c) (bidx (dim2 y) i) (bidx (dim3 y) j))\<rparr>"
  have r: "add4 (zeros4 1 32 1 1) y = Some r"
    using sy by (simp add: add4_def shape4_eq broadcastable_def broadcast_dim_def r_def zeros4_def)
  have sr: "shape4 r = (1, 32, 1, 1)" by (simp add: r_def)
  have vr: "at4 r 0 0 0 0 = NaN" by (simp add: r_def bidx_def vy)
  obtain z where z: "TNetBackBone_forward (TNetBackBone_init sd_nan ''tnet.tnet_b'' 32 16) r = Some z"
    and vz: "at4 z 0 0 0 0 = NaN"
    using TNetBackBone_NaN[OF sr _ _ _ _ vr, of 16 sd_nan "''tnet.tnet_b''"] by auto
  have gd: "gdim0 g_big = 1" "gdim1 g_big = 1" "gdim3 g_big = 1" "gdim4 g_big = 1"
    by (simp_all add: g_big_def)
  have u: "[0..<1] = [0::nat]" by simp
  have l: "TNet_loop tnet_nan g_big rx_big [0] (zeros4 1 32 1 1) = Some r"
    unfolding TNet_loop.simps TNet_step_def ct using r by simp
  have "TNet_forward tnet_nan g_big rx_big = Some z"
    unfolding TNet_forward_def Let_def gd h u l b using z by simp
  with vz show ?thesis by blast
qed

lemma sd_clamp_last:
  assumes "Conv2d_forward (Conv2d_init sd_clamp ''tnet.tnet_b.layer4.0'' 64 16 1 0 True) u = Some y4"
  shows "at4 y4 0 0 0 0 = - 1"
proof -
  from Conv2d_1x1_forward_SomeD[OF assms] have u: "0 < dim2 u" "0 < dim3 u"
    and a: "at4 y4 = Conv2d_at (Conv2d_init sd_clamp ''tnet.tnet_b.layer4.0'' 64 16 1 0 True) u"
    by simp_all
  have "Conv2d_at (Conv2d_init sd_clamp ''tnet.tnet_b.layer4.0'' 64 16 1 0 True) u 0 0 0 0
      = (\<Sum>c<64. sd_clamp (sub ''tnet.tnet_b.layer4.0'' ''weight'') [0, c, 0, 0] * at4 u 0 c 0 0)
        + sd_clamp (sub ''tnet.tnet_b.layer4.0'' ''bias'') [0]"
    by (rule OutConv_at) (use u in simp_all)
  then show ?thesis unfolding a by (simp add: sd_clamp_def sub_def)
qed

section \<open>Exact arithmetic: the pass-through TNet\<close>

lemma sum_upto_zero: "(\<And>i. i < n \<Longrightarrow> f i = (0::'a::monoid_add)) \<Longrightarrow> sum_upto n f = 0"
  by (induction n) simp_all

lemma sum_upto_single:
  assumes "k < n" "f k = v" "\<And>i. i < n \<Longrightarrow> i \<noteq> k \<Longrightarrow> f i = (0::'a::monoid_add)"
  shows "sum_upto n f = v"
  using assms
proof (induction n)
  case 0
  then show ?case by simp
next
  case (Suc n)
  show ?case
  proof (cases "k = n")
    case True
    then have "sum_upto n f = 0" using Suc.prems(3) by (intro sum_upto_zero) simp
    then show ?thesis using True Suc.prems by simp
  next
    case False
    then have "sum_upto n f = v" using Suc by simp
    moreover have "f n = 0" using False Suc.prems by simp
    ultimately show ?thesis by simp
  qed
qed

lemma conv_exact_at:
  fixes sd :: "real state_dict"
  assumes w: "\<And>oc ch di dj. sd (sub name ''weight'') [oc, ch, di, dj]
                = (if oc = 0 \<and> ch = s \<and> di = p \<and> dj = p then 1 else 0)"
    and b: "\<And>oc. sd (sub name ''bias'') [oc] = 0"
    and s: "s < cin" and p: "p < k" and i: "i < dim2 x" and j: "j < dim3 x"
  shows "Conv2d_at (Conv2d_init sd name cin cout k p True) x n 0 i j = at4 x n s i j"
proof -
  let ?v = "at4 x n s i j"
  let ?t = "\<lambda>c di dj. sd (sub name ''weight'') [0, c, di, dj] * pad_read x p n c (i + di) (j + dj)"
  have rd: "pad_read x p n s (i + p) (j + p) = ?v"
    using i j by (simp add: pad_read_def)
  have inner: "sum_upto k (\<lambda>dj. ?t s p dj) = ?v"
  proof (rule sum_upto_single[OF p])
    show "?t s p p = ?v" by (simp add: w rd)
    show "?t s p dj = 0" if "dj \<noteq> p" for dj using that by (simp add: w)
  qed
  have mid: "sum_upto k (\<lambda>di. sum_upto k (\<lambda>dj. ?t s di dj)) = ?v"
  proof (rule sum_upto_single[OF p])
    show "sum_upto k (\<lambda>dj. ?t s p dj) = ?v" by (rule inner)
    show "sum_upto k (\<lambda>dj. ?t s di dj) = 0" if "di \<noteq> p" for di
      using that by (intro sum_upto_zero) (simp add: w)
  qed
  have outer: "sum_upto cin (\<lambda>c. sum_upto k (\<lambda>di. sum_upto k (\<lambda>dj. ?t c di dj))) = ?v"
  proof (rule sum_upto_single[OF s])
    show "sum_upto k (\<lambda>di. sum_upto k (\<lambda>dj. ?t s di dj)) = ?v" by (rule mid)
    show "sum_upto k (\<lambda>di. sum_upto k (\<lambda>dj. ?t c di dj)) = 0" if "c \<noteq> s" for c
      using that by (intro sum_upto_zero) (simp add: w)
  qed
  show ?thesis
    unfolding Conv2d_at_def Let_def
    by (simp add: Conv2d_init_def outer b)
qed

lemma conv_exact_layer:
  fixes sd :: "real state_dict"
  assumes w: "\<And>oc ch di dj. sd (sub name ''weight'') [oc, ch, di, dj]
                = (if oc = 0 \<and> ch = s \<and> di = p \<and> dj = p then 1 else 0)"
    and b: "\<And>oc. sd (sub name ''bias'') [oc] = 0"
    and x: "shape4 x = (B, cin, H, W)" and cout: "0 < cout"
    and kp: "(k, p) = (3, 1) \<or> (k, p) = (1, 0)"
    and s: "s < cin" and i: "i < H" and j: "j < W"
    and v: "at4 x n s i j = v" "0 \<le> v"
  shows "\<exists>y. Conv2d_forward (Conv2d_init sd name cin cout k p True) x = Some y
           \<and> shape4 (ReLU y) = (B, cout, H, W) \<and> at4 (ReLU y) n 0 i j = v"
proof -
  from x have d: "dim0 x = B" "dim1 x = cin" "dim2 x = H" "dim3 x = W" by (simp_all add: shape4_eq)
  have p: "p < k" using kp by auto
  have a: "Conv2d_at (Conv2d_init sd name cin cout k p True) x n 0 i j = v"
    using conv_exact_at[OF w b s p, where x = x and i = i and j = j and n = n and cout = cout]
      i j v d by simp
  have "Conv2d_forward (Conv2d_init sd name cin cout k p True) x
      = Some \<lparr>dim0 = B, dim1 = cout, dim2 = H, dim3 = W,
              at4 = Conv2d_at (Conv2d_init sd name cin cout k p True) x\<rparr>"
    using kp cout s i j d by (auto simp: Conv2d_forward_def Conv2d_init_def)
  then show ?thesis
    using a v by (auto simp: relu_def)
qed

lemma TNetBackBone_exact:
  fixes sd :: "real state_dict"
  assumes w1: "\<And>oc ch di dj. sd (sub (sub name ''layer1.0'') ''weight'') [oc, ch, di, dj]
                = (if oc = 0 \<and> ch = s \<and> di = 1 \<and> dj = 1 then 1 else 0)"
    and w2: "\<And>oc ch di dj. sd (sub (sub name ''layer2.0'') ''weight'') [oc, ch, di, dj]
                = (if oc = 0 \<and> ch = 0 \<and> di = 1 \<and> dj = 1 then 1 else 0)"
    and w3: "\<And>oc ch di dj. sd (sub (sub name ''layer3.0'') ''weight'') [oc, ch, di, dj]
                = (if oc = 0 \<and> ch = 0 \<and> di = 1 \<and> dj = 1 then 1 else 0)"
    and w4: "\<And>oc ch di dj. sd (sub (sub name ''layer4.0'') ''weight'') [oc, ch, di, dj]
                = (if oc = 0 \<and> ch = 0 \<and> di = 0 \<and> dj = 0 then 1 else 0)"
    and b: "\<And>oc. sd (sub (sub name ''layer1.0'') ''bias'') [oc] = 0"
      "\<And>oc. sd (sub (sub name ''layer2.0'') ''bias'') [oc] = 0"
      "\<And>oc. sd (sub (sub name ''layer3.0'') ''bias'') [oc] = 0"
      "\<And>oc. sd (sub (sub name ''layer4.0'') ''bias'') [oc] = 0"
    and x: "shape4 x = (B, cin, H, W)" and cout: "0 < cout"
    and s: "s < cin" and i: "i < H" and j: "j < W"
    and v: "at4 x n s i j = v" "0 \<le> v"
  shows "\<exists>y. TNetBackBone_forward (TNetBackBone_init sd name cin cout) x = Some y
           \<and> shape4 y = (B, cout, H, W) \<and> at4 y n 0 i j = v"
proof -
  obtain y1 where 1: "Conv2d_forward (Conv2d_init sd (sub name ''layer1.0'') cin 64 3 1 True) x = Some y1"
    and s1: "shape4 (ReLU y1) = (B, 64, H, W)" and v1: "at4 (ReLU y1) n 0 i j = v"
    using conv_exact_layer[OF w1 b(1) x _ _ s i j v, of 64 3] by auto
  obtain y2 where 2: "Conv2d_forward (Conv2d_init sd (sub name ''layer2.0'') 64 128 3 1 True) (ReLU y1) = Some y2"
    and s2: "shape4 (ReLU y2) = (B, 128, H, W)" and v2: "at4 (ReLU y2) n 0 i j = v"
    using conv_exact_layer[OF w2 b(2) s1 _ _ _ i j v1 v(2), of 128 3] by auto
  obtain y3 where 3: "Conv2d_forward (Conv2d_init sd (sub name ''layer3.0'') 128 64 3 1 True) (ReLU y2) = Some y3"
    and s3: "shape4 (ReLU y3) = (B, 64, H, W)" and v3: "at4 (ReLU y3) n 0 i j = v"
    using conv_exact_layer[OF w3 b(3) s2 _ _ _ i j v2 v(2), of 64 3] by auto
  obtain y4 where 4: "Conv2d_forward (Conv2d_init sd (sub name ''layer4.0'') 64 cout 1 0 True) (ReLU y3) = Some y4"
    and s4: "shape4 (ReLU y4) = (B, cout, H, W)" and v4: "at4 (ReLU y4) n 0 i j = v"
    using conv_exact_layer[OF w4 b(4) s3 cout _ _ i j v3 v(2), of 1] by auto
  show ?thesis
    unfolding TNetBackBone_forward_def TNetBackBone_init_def
    using 1 2 3 4 s4 v4 by simp
qed

lemma sd_pass_exact_f:
  "sd_pass_exact (sub (sub (sub ''tnet'' ''tnet_f'') ''layer1.0'') ''weight'') [oc, ch, di, dj]
     = (if oc = 0 \<and> ch = 8 \<and> di = 1 \<and> dj = 1 then 1 else 0)"
  "sd_pass_exact (sub (sub (sub ''tnet'' ''tnet_f'') ''layer2.0'') ''weight'') [oc, ch, di, dj]
     = (if oc = 0 \<and> ch = 0 \<and> di = 1 \<and> dj = 1 then 1 else 0)"
  "sd_pass_exact (sub (sub (sub ''tnet'' ''tnet_f'') ''layer3.0'') ''weight'') [oc, ch, di, dj]
     = (if oc = 0 \<and> ch = 0 \<and> di = 1 \<and> dj = 1 then 1 else 0)"
  "sd_pass_exact (sub (sub (sub ''tnet'' ''tnet_f'') ''layer4.0'') ''weight'') [oc, ch, di, dj]
     = (if oc = 0 \<and> ch = 0 \<and> di = 0 \<and> dj = 0 then 1 else 0)"
  "sd_pass_exact (sub (sub (sub ''tnet'' ''tnet_b'') ''layer1.0'') ''weight'') [oc, ch, di, dj]
     = (if oc = 0 \<and> ch = 0 \<and> di = 1 \<and> dj = 1 then 1 else 0)"
  "sd_pass_exact (sub (sub (sub ''tnet'' ''tnet_b'') ''layer2.0'') ''weight'') [oc, ch, di, dj]
     = (if oc = 0 \<and> ch = 0 \<and> di = 1 \<and> dj = 1 then 1 else 0)"
  "sd_pass_exact (sub (sub (sub ''tnet'' ''tnet_b'') ''layer3.0'') ''weight'') [oc, ch, di, dj]
     = (if oc = 0 \<and> ch = 0 \<and> di = 1 \<and> dj = 1 then 1 else 0)"
  "sd_pass_exact (sub (sub (sub ''tnet'' ''tnet_b'') ''layer4.0'') ''weight'') [oc, ch, di, dj]
     = (if oc = 0 \<and> ch = 0 \<and> di = 0 \<and> dj = 0 then 1 else 0)"
  by (simp_all add: sd_pass_exact_def sub_def)

lemma sd_pass_exact_bias: "sd_pass_exact name [oc] = 0"
  by (simp add: sd_pass_exact_def)

lemma glass_exact_ok:
  assumes "k < 3"
  shows "0 \<le> glass_exact ! k"
proof -
  from assms consider "k = 0" | "k = 1" | "k = 2" by linarith
  then show ?thesis
    by cases (simp_all add: glass_exact_def)
qed

lemma tnet_exact_contrib:
  assumes k: "k < 3"
  shows "\<exists>y. TNet_contrib tnet_exact g_exact rx_exact k = Some y
           \<and> shape4 y = (1, 32, 1, 1) \<and> at4 y 0 0 0 0 = glass_exact ! k"
proof -
  define gi where "gi = \<lparr>dim0 = 1, dim1 = 17, dim2 = 1, dim3 = 1,
     at4 = (\<lambda>b c h w. at5 g_exact b k c h w)\<rparr>"
  have 1: "select1 g_exact k = Some gi"
    using k by (simp add: select1_def g_exact_def gi_def)
  define c where "c = \<lparr>dim0 = dim0 rx_exact, dim1 = dim1 rx_exact + dim1 gi, dim2 = dim2 rx_exact,
     dim3 = dim3 rx_exact,
     at4 = (\<lambda>n ch i j. if ch < dim1 rx_exact then at4 rx_exact n ch i j
                       else at4 gi n (ch - dim1 rx_exact) i j)\<rparr>"
  have dr: "dim0 rx_exact = 1" "dim1 rx_exact = 8" "dim2 rx_exact = 1" "dim3 rx_exact = 1"
    by (simp_all add: rx_exact_def zeros4_def)
  have dgi: "dim0 gi = 1" "dim1 gi = 17" "dim2 gi = 1" "dim3 gi = 1"
    by (simp_all add: gi_def)
  have 2: "cat1 rx_exact gi = Some c"
    by (simp add: cat1_def c_def dr dgi)
  have sc: "shape4 c = (1, 25, 1, 1)" by (simp add: c_def rx_exact_def zeros4_def gi_def)
  have vc: "at4 c 0 8 0 0 = glass_exact ! k"
    using k by (simp add: c_def gi_def g_exact_def rx_exact_def zeros4_def)
  have "\<exists>y. TNetBackBone_forward (TNetBackBone_init sd_pass_exact (sub ''tnet'' ''tnet_f'') 25 32) c = Some y
           \<and> shape4 y = (1, 32, 1, 1) \<and> at4 y 0 0 0 0 = glass_exact ! k"
    by (rule TNetBackBone_exact[OF sd_pass_exact_f(1-4) sd_pass_exact_bias sd_pass_exact_bias
          sd_pass_exact_bias sd_pass_exact_bias sc _ _ _ _ vc])
       (use glass_exact_ok[OF k] in simp_all)
  then show ?thesis
    by (simp add: TNet_contrib_def tnet_exact_def TNet_init_def 1 2)
qed

lemma tnet_exact_loop:
  assumes "\<forall>k\<in>set idxs. k < 3" "shape4 acc = (1, 32, 1, 1)"
  shows "\<exists>r. TNet_loop tnet_exact g_exact rx_exact idxs acc = Some r
           \<and> shape4 r = (1, 32, 1, 1)
           \<and> at4 r 0 0 0 0 = foldl (+) (at4 acc 0 0 0 0) (map ((!) glass_exact) idxs)"
  using assms
proof (induction idxs arbitrary: acc)
  case Nil
  then show ?case by simp
next
  case (Cons k idxs)
  then have k: "k < 3" by simp
  obtain y where y: "TNet_contrib tnet_exact g_exact rx_exact k = Some y"
    and sy: "shape4 y = (1, 32, 1, 1)" and vy: "at4 y 0 0 0 0 = glass_exact ! k"
    using tnet_exact_contrib[OF k] by blast
  define r where "r = \<lparr>dim0 = 1, dim1 = 32, dim2 = 1, dim3 = 1,
       at4 = (\<lambda>b c i j.
                   at4 acc (bidx (dim0 acc) b) (bidx (dim1 acc) c) (bidx (dim2 acc) i) (bidx (dim3 acc) j)
                 + at4 y (bidx (dim0 y) b) (bidx (dim1 y) c) (bidx (dim2 y) i) (bidx (dim3 y) j))\<rparr>"
  have r: "add4 acc y = Some r"
    using Cons.prems(2) sy
    by (simp add: add4_def shape4_eq broadcastable_def broadcast_dim_def r_def)
  have sr: "shape4 r = (1, 32, 1, 1)" by (simp add: r_def)
  have vr: "at4 r 0 0 0 0 = at4 acc 0 0 0 0 + glass_exact ! k"
    by (simp add: r_def bidx_def vy)
  from Cons.IH[OF _ sr] Cons.prems(1) obtain r' where
    "TNet_loop tnet_exact g_exact rx_exact idxs r = Some r'" "shape4 r' = (1, 32, 1, 1)"
    "at4 r' 0 0 0 0 = foldl (+) (at4 r 0 0 0 0) (map ((!) glass_exact) idxs)"
    by auto
  then show ?case
    by (simp add: TNet_step_def y r vr)
qed

lemma tnet_exact_forward:
  "\<exists>y. TNet_forward tnet_exact g_exact rx_exact = Some y \<and> at4 y 0 0 0 0 = 7"
proof -
  have z: "shape4 (zeros4 1 32 1 1 :: real tensor4) = (1, 32, 1, 1)"
    "at4 (zeros4 1 32 1 1 :: real tensor4) 0 0 0 0 = 0" by (simp_all add: zeros4_def)
  obtain r where r: "TNet_loop tnet_exact g_exact rx_exact [0, 1, 2] (zeros4 1 32 1 1) = Some r"
    and sr: "shape4 r = (1, 32, 1, 1)"
    and vr: "at4 r 0 0 0 0 = foldl (+) 0 (map ((!) glass_exact) [0, 1, 2])"
    using tnet_exact_loop[of "[0, 1, 2]" "zeros4 1 32 1 1"] z by auto
  have vr': "at4 r 0 0 0 0 = 7"
    unfolding vr by (simp add: glass_exact_def)
  have "\<exists>y. TNetBackBone_forward (TNetBackBone_init sd_pass_exact (sub ''tnet'' ''tnet_b'') 32 16) r = Some y
           \<and> shape4 y = (1, 16, 1, 1) \<and> at4 y 0 0 0 0 = 7"
    by (rule TNetBackBone_exact[OF sd_pass_exact_f(5-8) sd_pass_exact_bias sd_pass_exact_bias
          sd_pass_exact_bias sd_pass_exact_bias sr _ _ _ _ vr']) simp_all
  then obtain y where y: "TNetBackBone_forward (TNetBackBone_init sd_pass_exact (sub ''tnet'' ''tnet_b'') 32 16) r = Some y"
    and vy: "at4 y 0 0 0 0 = 7" by blast
  have b: "tnet_b tnet_exact = TNetBackBone_init sd_pass_exact (sub ''tnet'' ''tnet_b'') 32 16"
    and hid: "hidden tnet_exact = 32"
    by (simp_all add: tnet_exact_def TNet_init_def)
  have gd: "gdim0 g_exact = 1" "gdim1 g_exact = 3" "gdim3 g_exact = 1" "gdim4 g_exact = 1"
    by (simp_all add: g_exact_def)
  have u: "[0..<3] = [0, 1, 2::nat]" by (simp add: upt_rec)
  have "TNet_forward tnet_exact g_exact rx_exact = Some y"
    unfolding TNet_forward_def Let_def gd hid u r b using y by simp
  with vy show ?thesis by blast
qed

section \<open>The claims about TNet with an empty glass axis\<close>

text \<open>
  Claim C4. When the glass axis is empty (\<open>G = 0\<close>) the loop body never runs: the loop
  returns the accumulator it was given, and \<open>TNet.forward(g, rx)\<close> is \<open>tnet_b\<close> applied
  to the all-zero accumulator of shape \<open>(B, hidden, H, W)\<close>. When moreover \<open>H\<close> and
  \<open>W\<close> are at least \<open>1\<close> (and the TNet has at least one hidden channel) no error is
  raised and the result has shape \<open>(B, 16, H, W)\<close>.
\<close>

theorem TNet_forward_no_glass:
  fixes sd :: "'a::{zero,plus,times,ord} state_dict"
  assumes "gdim1 g = 0"
  shows "TNet_loop (TNet_init sd name cin hid) g rx [0..<gdim1 g] acc = Some acc
       \<and> TNet_forward (TNet_init sd name cin hid) g rx
           = TNetBackBone_forward (tnet_b (TNet_init sd name cin hid))
               (zeros4 (gdim0 g) hid (gdim3 g) (gdim4 g))
       \<and> (0 < gdim3 g \<and> 0 < gdim4 g \<and> 0 < hid \<longrightarrow>
            (\<exists>y. TNet_forward (TNet_init sd name cin hid) g rx = Some y
                 \<and> shape4 y = (gdim0 g, 16, gdim3 g, gdim4 g)))"
proof -
  have eq: "TNet_forward (TNet_init sd name cin hid) g rx
           = TNetBackBone_forward (tnet_b (TNet_init sd name cin hid))
               (zeros4 (gdim0 g) hid (gdim3 g) (gdim4 g))"
    using assms by (simp add: TNet_forward_empty) (simp add: TNet_init_def)
  have "\<exists>y. TNet_forward (TNet_init sd name cin hid) g rx = Some y
                 \<and> shape4 y = (gdim0 g, 16, gdim3 g, gdim4 g)"
    if "0 < gdim3 g" "0 < gdim4 g" "0 < hid"
    using that TNetBackBone_forward_shape[of "zeros4 (gdim0 g) hid (gdim3 g) (gdim4 g)"
        "gdim0 g" hid "gdim3 g" "gdim4 g" 16 sd "sub name ''tnet_b''"]
    unfolding eq by (simp add: TNet_init_def)
  with eq assms show ?thesis by simp
qed

text \<open>The theorem at \<open>g\<close> of shape \<open>(1, 0, 17, 4, 4)\<close> and the TNet of CNet.\<close>

theorem TNet_forward_no_glass_witness:
  "gdim1 (g_empty 4 4) = 0
   \<and> TNet_forward (TNet_init sd0 ''tnet'' 25 32) (g_empty 4 4) (zeros4 1 8 4 4)
       = TNetBackBone_forward (tnet_b (TNet_init sd0 ''tnet'' 25 32)) (zeros4 1 32 4 4)
   \<and> (\<exists>y. TNet_forward (TNet_init sd0 ''tnet'' 25 32) (g_empty 4 4) (zeros4 1 8 4 4) = Some y
          \<and> shape4 y = (1, 16, 4, 4))"
proof -
  have g: "gdim1 (g_empty 4 4) = 0" "gdim0 (g_empty 4 4) = 1" "gdim3 (g_empty 4 4) = 4"
    "gdim4 (g_empty 4 4) = 4"
    by (simp_all add: g_empty_def)
  note T = TNet_forward_no_glass[OF g(1), of sd0 "''tnet''" 25 32 "zeros4 1 8 4 4", unfolded g]
  have "(0::nat) < 4 \<and> (0::nat) < 4 \<and> (0::nat) < 32" by simp
  with T g(1) show ?thesis by blast
qed

text \<open>
  Without the bound on \<open>H\<close> and \<open>W\<close> the claim fails: for \<open>g\<close> of shape
  \<open>(1, 0, 17, 0, 0)\<close> the first convolution of \<open>tnet_b\<close> gets a padded input of
  \<open>2 \<times> 2\<close>, smaller than its \<open>3 \<times> 3\<close> kernel, and raises.
\<close>

theorem TNet_forward_no_glass_counterexample:
  "gdim1 (g_empty 0 0) = 0
   \<and> TNet_forward (TNet_init sd0 ''tnet'' 25 32) (g_empty 0 0) (zeros4 1 8 0 0) = None"
  by (simp add: TNet_forward_empty g_empty_def TNet_init_def TNetBackBone_init_def
        TNetBackBone_forward_def Conv2d_forward_def Conv2d_init_def zeros4_def)

text \<open>
  Claim C10. When the glass axis is empty, \<open>TNet.forward\<close> does not read \<open>rx\<close>: two
  conditioning maps of any shapes give the same outcome; a result has the height and
  width of \<open>g\<close>; and when \<open>H\<close> and \<open>W\<close> of \<open>g\<close> are at least \<open>1\<close> no error is
  raised, whatever the shape of \<open>rx\<close>.
\<close>

theorem TNet_forward_no_glass_ignores_rx:
  fixes sd :: "'a::{zero,plus,times,ord} state_dict"
  assumes "gdim1 g = 0"
  shows "TNet_forward (TNet_init sd name cin hid) g rx1 = TNet_forward (TNet_init sd name cin hid) g rx2
       \<and> (\<forall>y. TNet_forward (TNet_init sd name cin hid) g rx1 = Some y
              \<longrightarrow> dim2 y = gdim3 g \<and> dim3 y = gdim4 g)
       \<and> (0 < gdim3 g \<and> 0 < gdim4 g \<and> 0 < hid \<longrightarrow>
            (\<exists>y. TNet_forward (TNet_init sd name cin hid) g rx1 = Some y))"
proof -
  have eq: "TNet_forward (TNet_init sd name cin hid) g rx
           = TNetBackBone_forward (TNetBackBone_init sd (sub name ''tnet_b'') hid 16)
               (zeros4 (gdim0 g) hid (gdim3 g) (gdim4 g))" for rx
    using assms by (simp add: TNet_forward_empty) (simp add: TNet_init_def)
  have "dim2 y = gdim3 g \<and> dim3 y = gdim4 g"
    if "TNet_forward (TNet_init sd name cin hid) g rx1 = Some y" for y
    using that TNetBackBone_forward_SomeD[of sd "sub name ''tnet_b''" hid 16
        "zeros4 (gdim0 g) hid (gdim3 g) (gdim4 g)" y]
    unfolding eq by (simp add: shape4_eq zeros4_def)
  moreover have "\<exists>y. TNet_forward (TNet_init sd name cin hid) g rx1 = Some y"
    if "0 < gdim3 g" "0 < gdim4 g" "0 < hid"
    using that TNetBackBone_forward_shape[of "zeros4 (gdim0 g) hid (gdim3 g) (gdim4 g)"
        "gdim0 g" hid "gdim3 g" "gdim4 g" 16 sd "sub name ''tnet_b''"]
    unfolding eq by auto
  ultimately show ?thesis using eq by auto
qed

text \<open>
  The theorem at \<open>g\<close> of shape \<open>(1, 0, 17, 4, 6)\<close>, with an \<open>rx\<close> of shape
  \<open>(2, 3, 7, 5)\<close> that matches \<open>g\<close> in no axis.
\<close>

theorem TNet_forward_no_glass_ignores_rx_witness:
  "gdim1 (g_empty 4 6) = 0
   \<and> TNet_forward (TNet_init sd0 ''tnet'' 25 32) (g_empty 4 6) (zeros4 2 3 7 5)
     = TNet_forward (TNet_init sd0 ''tnet'' 25 32) (g_empty 4 6) (zeros4 1 8 4 6)
   \<and> (\<exists>y. TNet_forward (TNet_init sd0 ''tnet'' 25 32) (g_empty 4 6) (zeros4 2 3 7 5) = Some y
          \<and> dim2 y = 4 \<and> dim3 y = 6)"
proof -
  have g: "gdim1 (g_empty 4 6) = 0" "gdim0 (g_empty 4 6) = 1" "gdim3 (g_empty 4 6) = 4"
    "gdim4 (g_empty 4 6) = 6"
    by (simp_all add: g_empty_def)
  note T = TNet_forward_no_glass_ignores_rx[OF g(1), of sd0 "''tnet''" 25 32
      "zeros4 2 3 7 5" "zeros4 1 8 4 6", unfolded g]
  have "(0::nat) < 4 \<and> (0::nat) < 6 \<and> (0::nat) < 32" by simp
  with T g(1) show ?thesis by metis
qed

text \<open>
  For \<open>g\<close> of shape \<open>(1, 0, 17, 4, 0)\<close> an error is raised, so the claim needs the
  bound on \<open>H\<close> and \<open>W\<close>.
\<close>

theorem TNet_forward_no_glass_ignores_rx_counterexample:
  "gdim1 (g_empty 4 0) = 0
   \<and> TNet_forward (TNet_init sd0 ''tnet'' 25 32) (g_empty 4 0) (zeros4 2 3 7 5) = None"
  by (simp add: TNet_forward_empty g_empty_def TNet_init_def TNetBackBone_init_def
        TNetBackBone_forward_def Conv2d_forward_def Conv2d_init_def zeros4_def)

section \<open>The outputs of TNetBackBone are never negative\<close>

text \<open>
  Claim C9. \<open>TNetBackBone\<close> ends with a ReLU, and the output of \<open>TNet\<close> is the
  output of its backbone \<open>tnet_b\<close>. So every element \<open>e\<close> of a returned output is
  \<open>0\<close> or is not \<open>\<le> 0\<close>, whatever the element type. Where the elements are numbers
  (a linear order) this says \<open>0 \<le> e\<close>. In floating-point arithmetic it says that
  \<open>e\<close> is \<open>\<ge> 0\<close> or NaN, and never negative: the ReLU keeps a NaN. The last layer of
  an \<open>RNet\<close> and of a \<open>UNet\<close> is a convolution with no activation after it, and their
  outputs can be negative: with the bias of that layer at \<open>-1\<close> and all other
  parameters \<open>0\<close>, the output is \<open>-1\<close>.
\<close>

theorem TNetBackBone_output_not_negative:
  fixes bb :: "'a::{zero,plus,times,ord} TNetBackBone" and m :: "'a TNet"
    and bl :: "'b::{zero,plus,times,linorder} TNetBackBone" and ml :: "'b TNet"
    and bf :: "xf32 TNetBackBone" and mf :: "xf32 TNet"
  shows "(TNetBackBone_forward bb x = Some y \<longrightarrow> at4 y b c i j = 0 \<or> \<not> at4 y b c i j \<le> 0)
       \<and> (TNet_forward m g rx = Some z \<longrightarrow> at4 z b c i j = 0 \<or> \<not> at4 z b c i j \<le> 0)
       \<and> (TNetBackBone_forward bl xl = Some yl \<longrightarrow> 0 \<le> at4 yl b c i j)
       \<and> (TNet_forward ml gl rxl = Some zl \<longrightarrow> 0 \<le> at4 zl b c i j)
       \<and> (TNetBackBone_forward bf xf = Some yf \<longrightarrow>
            (0 \<le> at4 yf b c i j \<or> at4 yf b c i j = NaN) \<and> \<not> at4 yf b c i j < 0)
       \<and> (TNet_forward mf gf rxf = Some zf \<longrightarrow>
            (0 \<le> at4 zf b c i j \<or> at4 zf b c i j = NaN) \<and> \<not> at4 zf b c i j < 0)
       \<and> (\<exists>y. RNet_forward (RNet_init sd_neg ''rnet_uv'' 2 2) (zeros4 1 2 4 4) = Some y
              \<and> at4 y 0 0 0 0 < 0)
       \<and> (\<exists>y. UNet_forward (UNet_init sd_neg ''unet'' 37 8 True) (zeros4 1 37 16 16) = Some y
              \<and> at4 y 0 0 0 0 < 0)"
proof -
  have 1: "at4 y b c i j = 0 \<or> \<not> at4 y b c i j \<le> 0" if "TNetBackBone_forward bb x = Some y"
    using that by (rule TNetBackBone_relu)
  have 2: "at4 z b c i j = 0 \<or> \<not> at4 z b c i j \<le> 0" if "TNet_forward m g rx = Some z"
    using TNet_forward_tnet_b[OF that] TNetBackBone_relu by blast
  have 3: "0 \<le> at4 yl b c i j" if "TNetBackBone_forward bl xl = Some yl"
    using that by (rule TNetBackBone_nonneg)
  have 4: "0 \<le> at4 zl b c i j" if "TNet_forward ml gl rxl = Some zl"
    using TNet_forward_tnet_b[OF that] TNetBackBone_nonneg by blast
  have 5: "(0 \<le> at4 yf b c i j \<or> at4 yf b c i j = NaN) \<and> \<not> at4 yf b c i j < 0"
    if "TNetBackBone_forward bf xf = Some yf"
    by (rule xf_relu_cases) (rule TNetBackBone_relu[OF that])
  have 6: "(0 \<le> at4 zf b c i j \<or> at4 zf b c i j = NaN) \<and> \<not> at4 zf b c i j < 0"
    if "TNet_forward mf gf rxf = Some zf"
  proof -
    from TNet_forward_tnet_b[OF that] obtain r where "TNetBackBone_forward (tnet_b mf) r = Some zf"
      by blast
    then show ?thesis by (intro xf_relu_cases TNetBackBone_relu)
  qed
  have 7: "\<exists>y. RNet_forward (RNet_init sd_neg ''rnet_uv'' 2 2) (zeros4 1 2 4 4) = Some y
              \<and> at4 y 0 0 0 0 < 0"
    using RNet_negative_output by auto
  have 8: "\<exists>y. UNet_forward (UNet_init sd_neg ''unet'' 37 8 True) (zeros4 1 37 16 16) = Some y
              \<and> at4 y 0 0 0 0 < 0"
    using UNet_negative_output by auto
  from 1 2 3 4 5 6 7 8 show ?thesis by blast
qed

text \<open>
  The theorem at three places. Over the reals, at the backbone \<open>tnet_b\<close> whose last
  convolution returns \<open>-1\<close>: the ReLU clamps it to \<open>0\<close>, and with an empty glass axis
  this is the output of the TNet. Over the reals, at the pass-through TNet on the three
  slices \<open>1\<close>, \<open>2\<close>, \<open>4\<close>, whose output is \<open>7\<close>. And over \<open>xf32\<close>, at the TNet whose
  output is NaN.
\<close>

theorem TNetBackBone_output_not_negative_witness:
  "\<exists>x3 y4 y y7 zf.
       TNetBackBone_forward (TNetBackBone_init sd_clamp ''tnet.tnet_b'' 32 16) (zeros4 1 32 4 4) = Some y
     \<and> Conv2d_forward (bb_layer4 (TNetBackBone_init sd_clamp ''tnet.tnet_b'' 32 16)) (ReLU x3) = Some y4
     \<and> y = ReLU y4 \<and> at4 y4 0 0 0 0 = - 1 \<and> at4 y 0 0 0 0 = 0 \<and> 0 \<le> at4 y 0 0 0 0
     \<and> TNet_forward (TNet_init sd_clamp ''tnet'' 25 32) (g_empty 4 4) (zeros4 1 8 4 4) = Some y
     \<and> TNet_forward tnet_exact g_exact rx_exact = Some y7
     \<and> at4 y7 0 0 0 0 = 7 \<and> 0 \<le> at4 y7 0 0 0 0
     \<and> TNet_forward tnet_nan g_big rx_big = Some zf \<and> at4 zf 0 0 0 0 = NaN
     \<and> (0 \<le> at4 zf 0 0 0 0 \<or> at4 zf 0 0 0 0 = NaN) \<and> \<not> at4 zf 0 0 0 0 < 0"
proof -
  let ?bb = "TNetBackBone_init sd_clamp ''tnet.tnet_b'' 32 16"
  obtain y where y: "TNetBackBone_forward ?bb (zeros4 1 32 4 4) = Some y"
    using TNetBackBone_forward_shape[of "zeros4 1 32 4 4" 1 32 4 4 16 sd_clamp "''tnet.tnet_b''"]
    by auto
  from TNetBackBone_forward_ReLU[OF y] obtain x3 y4 where
    4: "Conv2d_forward (bb_layer4 ?bb) (ReLU x3) = Some y4" and r: "y = ReLU y4" by blast
  have "at4 y4 0 0 0 0 = - 1"
    by (rule sd_clamp_last[of "ReLU x3"]) (use 4 in \<open>simp add: TNetBackBone_init_def sub_def\<close>)
  then have v: "at4 y4 0 0 0 0 = - 1" "at4 y 0 0 0 0 = 0" by (simp_all add: r relu_def)
  have t: "TNet_forward (TNet_init sd_clamp ''tnet'' 25 32) (g_empty 4 4) (zeros4 1 8 4 4) = Some y"
    using y by (simp add: TNet_forward_empty g_empty_def TNet_init_def sub_def)
  obtain y7 where y7: "TNet_forward tnet_exact g_exact rx_exact = Some y7" "at4 y7 0 0 0 0 = 7"
    using tnet_exact_forward by blast
  obtain zf where zf: "TNet_forward tnet_nan g_big rx_big = Some zf" "at4 zf 0 0 0 0 = NaN"
    using tnet_nan_forward by blast
  note T = TNetBackBone_output_not_negative[where bl = ?bb and xl = "zeros4 1 32 4 4" and yl = y
      and b = 0 and c = 0 and i = 0 and j = 0
      and ml = tnet_exact and gl = g_exact and rxl = rx_exact and zl = y7
      and mf = tnet_nan and gf = g_big and rxf = rx_big and zf = zf]
  from T y have "0 \<le> at4 y 0 0 0 0" by blast
  moreover from T y7(1) have "0 \<le> at4 y7 0 0 0 0" by blast
  moreover from T zf(1) have "(0 \<le> at4 zf 0 0 0 0 \<or> at4 zf 0 0 0 0 = NaN) \<and> \<not> at4 zf 0 0 0 0 < 0"
    by blast
  ultimately show ?thesis using y 4 r v t y7 zf by blast
qed

text \<open>
  As worded, for every input, the claim fails in \<open>float32\<close>. The input holds the finite
  number \<open>2 ^ 127\<close>; the first layer of \<open>tnet_f\<close> doubles it, which overflows to
  \<open>+\<infinity>\<close>; the ReLU keeps \<open>+\<infinity>\<close>; the second layer multiplies it by the weight \<open>0\<close>,
  which gives NaN; and NaN passes through every later layer, through the sum of the
  loop, through \<open>tnet_b\<close> and through each ReLU. \<open>0 \<le> NaN\<close> is false.
\<close>

theorem TNetBackBone_output_nonneg_counterexample:
  "\<exists>y z. TNetBackBone_forward (tnet_f tnet_nan) x_big = Some y
        \<and> at4 y 0 0 0 0 = NaN \<and> \<not> 0 \<le> at4 y 0 0 0 0
        \<and> TNet_forward tnet_nan g_big rx_big = Some z
        \<and> at4 z 0 0 0 0 = NaN \<and> \<not> 0 \<le> at4 z 0 0 0 0"
proof -
  obtain y where y: "TNetBackBone_forward (tnet_f tnet_nan) x_big = Some y" "at4 y 0 0 0 0 = NaN"
    using x_big_nan by blast
  obtain z where z: "TNet_forward tnet_nan g_big rx_big = Some z" "at4 z 0 0 0 0 = NaN"
    using tnet_nan_forward by blast
  from y z show ?thesis by auto
qed

section \<open>CrystalNet\<close>

text \<open>
  Claim C8. \<open>CrystalNet.forward(x, g)\<close> is exactly what its \<open>CNet\<close> returns on
  \<open>(x, g)\<close>: the same triple, or the same error.
\<close>

theorem CrystalNet_forward_is_CNet_forward:
  "CrystalNet_forward m x g = CNet_forward (cnet m) x g"
  by (cases "CNet_forward (cnet m) x g") (auto simp: CrystalNet_forward_def)

section \<open>The shape contract of CrystalNet\<close>

text \<open>
  Claim C3. For an input \<open>x\<close> of shape \<open>(B, 21, H, W)\<close> and a glass tensor \<open>g\<close> of
  shape \<open>(B, G, Cg, H, W)\<close>, with \<open>H\<close> and \<open>W\<close> at least \<open>16\<close>, with \<open>Cg = 17\<close>
  unless the glass axis is empty, and with \<open>n_oi\<close> at least \<open>1\<close>,
  \<open>CrystalNet.forward(x, g)\<close> returns a triple \<open>(normal, oi, uv)\<close> of shapes
  \<open>(B, 3, H, W)\<close>, \<open>(B, n_oi, H, W)\<close> and \<open>(B, 2, H, W)\<close>. The forward pass is a
  function of the parameters and the inputs, so the result is determined by them.
\<close>

theorem CrystalNet_forward_shapes:
  assumes "shape4 x = (B, 21, H, W)"
    and "gdim0 g = B" "gdim3 g = H" "gdim4 g = W" "gdim1 g = 0 \<or> gdim2 g = 17"
    and "16 \<le> H" and "16 \<le> W" and "0 < n_oi"
  shows "\<exists>normal oi uv. CrystalNet_forward (CrystalNet_init sd n_oi) x g = Some (normal, oi, uv)
           \<and> shape4 normal = (B, 3, H, W) \<and> shape4 oi = (B, n_oi, H, W)
           \<and> shape4 uv = (B, 2, H, W)"
proof -
  obtain normal oi uv where "CNet_forward (CNet_init sd ''cnet'' n_oi) x g = Some (normal, oi, uv)"
    "shape4 normal = (B, 3, H, W)" "shape4 oi = (B, n_oi, H, W)" "shape4 uv = (B, 2, H, W)"
    using CNet_forward_shape[OF assms] by blast
  then show ?thesis
    by (simp add: CrystalNet_forward_def CrystalNet_init_def)
qed

text \<open>The theorem at \<open>B = 2\<close>, \<open>H = W = 16\<close>, \<open>G = 3\<close> and \<open>n_oi = 5\<close>.\<close>

theorem CrystalNet_forward_shapes_witness:
  "shape4 (zeros4 2 21 16 16 :: real tensor4) = (2, 21, 16, 16)
   \<and> (\<exists>normal oi uv.
         CrystalNet_forward (CrystalNet_init sd0 5) (zeros4 2 21 16 16) (g_zero 2 3 17 16 16)
           = Some (normal, oi, uv)
       \<and> shape4 normal = (2, 3, 16, 16) \<and> shape4 oi = (2, 5, 16, 16)
       \<and> shape4 uv = (2, 2, 16, 16))"
proof -
  have x: "shape4 (zeros4 2 21 16 16 :: real tensor4) = (2, 21, 16, 16)" by simp
  have g: "gdim0 (g_zero 2 3 17 16 16) = 2" "gdim3 (g_zero 2 3 17 16 16) = 16"
    "gdim4 (g_zero 2 3 17 16 16) = 16"
    "gdim1 (g_zero 2 3 17 16 16) = 0 \<or> gdim2 (g_zero 2 3 17 16 16) = 17"
    by (simp_all add: g_zero_def)
  show ?thesis
    using x CrystalNet_forward_shapes[OF x g, of 5 sd0] by simp
qed

text \<open>
  The bound on \<open>H\<close> and \<open>W\<close> is needed: the encoder halves the image four times, and
  on an \<open>8 \<times> 8\<close> image the fourth max-pooling would produce an empty output and
  raises.
\<close>

theorem CrystalNet_forward_shapes_counterexample:
  "shape4 (zeros4 2 21 8 8 :: real tensor4) = (2, 21, 8, 8)
   \<and> CrystalNet_forward (CrystalNet_init sd0 5) (zeros4 2 21 8 8) (g_zero 2 3 17 8 8) = None"
proof -
  have "CrystalNet_forward (CrystalNet_init sd0 5) (zeros4 2 21 8 8) (g_zero 2 3 17 8 8) \<noteq> Some r" for r
    using CrystalNet_forward_SomeD[of sd0 5 "zeros4 2 21 8 8" "g_zero 2 3 17 8 8" r]
    by (auto simp: zeros4_def)
  then have "CrystalNet_forward (CrystalNet_init sd0 5) (zeros4 2 21 8 8) (g_zero 2 3 17 8 8) = None"
    by blast
  then show ?thesis by simp
qed

section \<open>The padding of Up\<close>

text \<open>
  Claim C5. When the skip \<open>x2\<close> is at least as large as the upsampled \<open>x1\<close>, with
  \<open>dY = H2 - H1'\<close> and \<open>dX = W2 - W1'\<close>, \<open>Up.forward\<close> pads \<open>x1\<close> with \<open>dY div 2\<close> rows
  of zeros on the low side and \<open>dY - dY div 2\<close> on the high side, and with
  \<open>dX div 2\<close> and \<open>dX - dX div 2\<close> columns. The padded tensor has the height and width of
  \<open>x2\<close>, so the concatenation \<open>[x2, x1]\<close> along the channels goes through. For heights
  \<open>7\<close> and \<open>8\<close> this is \<open>dY = 1\<close> and the pair \<open>(0, 1)\<close>. (\<open>x1\<close> is the tensor after
  upsampling; \<open>x1'\<close> is any input of \<open>Up.forward\<close>.)
\<close>

theorem Up_forward_padding:
  fixes x1 x2 :: "'a::linordered_field tensor4"
  assumes "dim2 x1 \<le> dim2 x2" "dim3 x1 \<le> dim3 x2"
  defines "dY \<equiv> dim2 x2 - dim2 x1" and "dX \<equiv> dim3 x2 - dim3 x1"
  shows "Up_pad_list x1 x2 = (int (dX div 2), int (dX - dX div 2), int (dY div 2), int (dY - dY div 2))
       \<and> (\<exists>p. Up_pad x1 x2 = Some p
            \<and> shape4 p = (dim0 x1, dim1 x1, dim2 x2, dim3 x2)
            \<and> dim2 p = dY div 2 + dim2 x1 + (dY - dY div 2)
            \<and> dim3 p = dX div 2 + dim3 x1 + (dX - dX div 2)
            \<and> (\<forall>b c i j. at4 p b c i j =
                  (if dY div 2 \<le> i \<and> i < dY div 2 + dim2 x1 \<and> dX div 2 \<le> j \<and> j < dX div 2 + dim3 x1
                   then at4 x1 b c (i - dY div 2) (j - dX div 2) else 0))
            \<and> (dim0 x1 = dim0 x2 \<longrightarrow>
                  (\<exists>c. cat1 x2 p = Some c \<and> shape4 c = (dim0 x2, dim1 x2 + dim1 x1, dim2 x2, dim3 x2))))
       \<and> Up_forward m x1' x2 =
           up_forward (up m) x1' \<bind> (\<lambda>u. Up_pad u x2 \<bind> (\<lambda>p. cat1 x2 p \<bind> DoubleConv_forward (conv m)))
       \<and> (dim2 x1 = 7 \<and> dim2 x2 = 8 \<longrightarrow> dY = 1 \<and> (int (dY div 2), int (dY - dY div 2)) = (0, 1))"
proof -
  have l: "Up_pad_list x1 x2 = (int (dX div 2), int (dX - dX div 2), int (dY div 2), int (dY - dY div 2))"
    using assms(1,2) unfolding Up_pad_list_def Let_def dY_def dX_def
    by (simp add: of_nat_diff zdiv_int)
  define p where "p = \<lparr>dim0 = dim0 x1, dim1 = dim1 x1, dim2 = dim2 x2, dim3 = dim3 x2,
       at4 = (\<lambda>b c i j. if dY div 2 \<le> i \<and> i < dY div 2 + dim2 x1 \<and> dX div 2 \<le> j \<and> j < dX div 2 + dim3 x1
                   then at4 x1 b c (i - dY div 2) (j - dX div 2) else 0)\<rparr>"
  have sz: "nat (int (dim2 x1) + int (dY div 2) + int (dY - dY div 2)) = dim2 x2"
      "nat (int (dim3 x1) + int (dX div 2) + int (dX - dX div 2)) = dim3 x2"
    using assms(1,2) unfolding dY_def dX_def by linarith+
  have at: "(let si = int i - int (dY div 2); sj = int j - int (dX div 2)
             in if 0 \<le> si \<and> si < int (dim2 x1) \<and> 0 \<le> sj \<and> sj < int (dim3 x1)
                then at4 x1 b c (nat si) (nat sj) else 0)
          = (if dY div 2 \<le> i \<and> i < dY div 2 + dim2 x1 \<and> dX div 2 \<le> j \<and> j < dX div 2 + dim3 x1
                   then at4 x1 b c (i - dY div 2) (j - dX div 2) else 0)" for b c i j
  proof -
    have "nat (int i - int (dY div 2)) = i - dY div 2" "nat (int j - int (dX div 2)) = j - dX div 2"
      by linarith+
    moreover have "(0 \<le> int i - int (dY div 2) \<and> int i - int (dY div 2) < int (dim2 x1)
        \<and> 0 \<le> int j - int (dX div 2) \<and> int j - int (dX div 2) < int (dim3 x1))
        \<longleftrightarrow> (dY div 2 \<le> i \<and> i < dY div 2 + dim2 x1 \<and> dX div 2 \<le> j \<and> j < dX div 2 + dim3 x1)"
      by linarith
    ultimately show ?thesis unfolding Let_def by presburger
  qed
  have pd: "Up_pad x1 x2 = Some p"
    unfolding Up_pad_def l prod.case pad4_def Let_def[of "int (dim2 x1) + _"] Let_def[of "int (dim3 x1) + _"]
    unfolding at p_def using sz by simp
  have dims: "dim2 p = dY div 2 + dim2 x1 + (dY - dY div 2)" "dim3 p = dX div 2 + dim3 x1 + (dX - dX div 2)"
    using assms(1,2) unfolding dY_def dX_def p_def by simp_all
  have c: "\<exists>c. cat1 x2 p = Some c \<and> shape4 c = (dim0 x2, dim1 x2 + dim1 x1, dim2 x2, dim3 x2)"
    if "dim0 x1 = dim0 x2"
    using that by (simp add: cat1_def p_def)
  have f: "Up_forward m x1' x2 =
           up_forward (up m) x1' \<bind> (\<lambda>u. Up_pad u x2 \<bind> (\<lambda>p. cat1 x2 p \<bind> DoubleConv_forward (conv m)))"
    by (simp add: Up_forward_def)
  have s: "dY = 1 \<and> (int (dY div 2), int (dY - dY div 2)) = (0, 1)" if "dim2 x1 = 7 \<and> dim2 x2 = 8"
    using that unfolding dY_def by simp
  have "shape4 p = (dim0 x1, dim1 x1, dim2 x2, dim3 x2)"
    "\<forall>b c i j. at4 p b c i j =
                  (if dY div 2 \<le> i \<and> i < dY div 2 + dim2 x1 \<and> dX div 2 \<le> j \<and> j < dX div 2 + dim3 x1
                   then at4 x1 b c (i - dY div 2) (j - dX div 2) else 0)"
    by (simp_all add: p_def)
  with l pd dims c f s show ?thesis by blast
qed

text \<open>The theorem at heights and widths \<open>7\<close> and \<open>8\<close>.\<close>

theorem Up_forward_padding_witness:
  "dim2 (zeros4 1 4 7 7 :: real tensor4) \<le> dim2 (zeros4 1 4 8 8 :: real tensor4)
   \<and> dim3 (zeros4 1 4 7 7 :: real tensor4) \<le> dim3 (zeros4 1 4 8 8 :: real tensor4)
   \<and> Up_pad_list (zeros4 1 4 7 7 :: real tensor4) (zeros4 1 4 8 8 :: real tensor4) = (0, 1, 0, 1)
   \<and> (\<exists>p. Up_pad (zeros4 1 4 7 7 :: real tensor4) (zeros4 1 4 8 8) = Some p
          \<and> shape4 p = (1, 4, 8, 8))"
proof -
  have d: "dim2 (zeros4 1 4 7 7 :: real tensor4) \<le> dim2 (zeros4 1 4 8 8 :: real tensor4)"
    "dim3 (zeros4 1 4 7 7 :: real tensor4) \<le> dim3 (zeros4 1 4 8 8 :: real tensor4)"
    by (simp_all add: zeros4_def)
  have e: "dim0 (zeros4 1 4 7 7 :: real tensor4) = 1" "dim1 (zeros4 1 4 7 7 :: real tensor4) = 4"
    "dim2 (zeros4 1 4 7 7 :: real tensor4) = 7" "dim3 (zeros4 1 4 7 7 :: real tensor4) = 7"
    "dim2 (zeros4 1 4 8 8 :: real tensor4) = 8" "dim3 (zeros4 1 4 8 8 :: real tensor4) = 8"
    by (simp_all add: zeros4_def)
  note T = Up_forward_padding[OF d, unfolded e]
  from T have "Up_pad_list (zeros4 1 4 7 7 :: real tensor4) (zeros4 1 4 8 8 :: real tensor4) = (0, 1, 0, 1)"
    by simp
  moreover from T have "\<exists>p. Up_pad (zeros4 1 4 7 7 :: real tensor4) (zeros4 1 4 8 8) = Some p
          \<and> shape4 p = (1, 4, 8, 8)" by blast
  ultimately show ?thesis using d by blast
qed

section \<open>OutConv is affine\<close>

text \<open>
  Claim C2. \<open>OutConv\<close> is a \<open>1 \<times> 1\<close> convolution with a bias, so it is affine, not
  linear: for tensors \<open>t1\<close>, \<open>t2\<close> of the same shape and scalars \<open>a\<close>, \<open>b\<close>, over exact
  arithmetic, every element of \<open>OutConv(a * t1 + b * t2)\<close> is the element of
  \<open>a * OutConv(t1) + b * OutConv(t2)\<close> plus \<open>(1 - a - b)\<close> times the bias of its channel.
  The equation of linearity holds where that last term vanishes, so for \<open>a + b = 1\<close> or a
  zero bias.
\<close>

theorem OutConv_forward_affine:
  fixes sd :: "'a::comm_ring_1 state_dict"
  assumes "shape4 t1 = shape4 t2"
    and "OutConv_forward (OutConv_init sd name cin cout) t1 = Some y1"
    and "OutConv_forward (OutConv_init sd name cin cout) t2 = Some y2"
  shows "\<exists>s y. add4 (smul4 a t1) (smul4 b t2) = Some s
           \<and> OutConv_forward (OutConv_init sd name cin cout) s = Some y
           \<and> shape4 y = shape4 y1 \<and> shape4 y = shape4 y2
           \<and> (\<forall>n<dim0 y. \<forall>oc<dim1 y. \<forall>i<dim2 y. \<forall>j<dim3 y.
                 at4 y n oc i j = a * at4 y1 n oc i j + b * at4 y2 n oc i j
                                  + (1 - a - b) * sd (sub (sub name ''conv'') ''bias'') [oc])"
proof -
  let ?m = "Conv2d_init sd (sub name ''conv'') cin cout 1 0 True"
  define s where "s = \<lparr>dim0 = dim0 t1, dim1 = dim1 t1, dim2 = dim2 t1, dim3 = dim3 t1,
     at4 = (\<lambda>n c i j. a * at4 t1 (bidx (dim0 t1) n) (bidx (dim1 t1) c) (bidx (dim2 t1) i) (bidx (dim3 t1) j)
                     + b * at4 t2 (bidx (dim0 t1) n) (bidx (dim1 t1) c) (bidx (dim2 t1) i) (bidx (dim3 t1) j))\<rparr>"
  have sh: "dim0 t2 = dim0 t1" "dim1 t2 = dim1 t1" "dim2 t2 = dim2 t1" "dim3 t2 = dim3 t1"
    using assms(1) by (simp_all add: shape4_def)
  have s: "add4 (smul4 a t1) (smul4 b t2) = Some s"
    by (simp add: add4_def smul4_def map4_def sh broadcastable_def broadcast_dim_def s_def)
  have ok: "0 < cout" "dim1 t1 = cin" "1 \<le> dim2 t1" "1 \<le> dim3 t1"
    and y1: "y1 = \<lparr>dim0 = dim0 t1, dim1 = (if dim1 t1 = 0 then 0 else cout), dim2 = dim2 t1,
                  dim3 = dim3 t1, at4 = Conv2d_at ?m t1\<rparr>"
    using assms(2)
    by (auto simp: OutConv_forward_def OutConv_init_def Conv2d_forward_def Conv2d_init_def split: if_splits)
  have y2: "y2 = \<lparr>dim0 = dim0 t1, dim1 = (if dim1 t1 = 0 then 0 else cout), dim2 = dim2 t1,
                  dim3 = dim3 t1, at4 = Conv2d_at ?m t2\<rparr>"
    using assms(3)
    by (auto simp: OutConv_forward_def OutConv_init_def Conv2d_forward_def Conv2d_init_def sh split: if_splits)
  define y where "y = \<lparr>dim0 = dim0 t1, dim1 = (if dim1 t1 = 0 then 0 else cout), dim2 = dim2 t1,
                  dim3 = dim3 t1, at4 = Conv2d_at ?m s\<rparr>"
  have y: "OutConv_forward (OutConv_init sd name cin cout) s = Some y"
    using ok by (simp add: OutConv_forward_def OutConv_init_def Conv2d_forward_def Conv2d_init_def s_def y_def)
  have val: "at4 y n oc i j = a * at4 y1 n oc i j + b * at4 y2 n oc i j
                                  + (1 - a - b) * sd (sub (sub name ''conv'') ''bias'') [oc]"
    if n: "n < dim0 y" and i: "i < dim2 y" and j: "j < dim3 y" for n oc i j
  proof -
    have r: "n < dim0 t1" "i < dim2 t1" "j < dim3 t1" using n i j by (simp_all add: y_def)
    have b: "bidx (dim0 t1) n = n" "bidx (dim2 t1) i = i" "bidx (dim3 t1) j = j"
      using r by (auto simp: bidx_def)
    have bc: "bidx (dim1 t1) c = c" if "c < cin" for c
      using that ok(2) by (auto simp: bidx_def)
    have c1: "at4 y1 n oc i j = (\<Sum>c<cin. sd (sub (sub name ''conv'') ''weight'') [oc, c, 0, 0] * at4 t1 n c i j)
            + sd (sub (sub name ''conv'') ''bias'') [oc]"
      unfolding y1 tensor4.simps by (rule OutConv_at) (use r in simp_all)
    have c2: "at4 y2 n oc i j = (\<Sum>c<cin. sd (sub (sub name ''conv'') ''weight'') [oc, c, 0, 0] * at4 t2 n c i j)
            + sd (sub (sub name ''conv'') ''bias'') [oc]"
      unfolding y2 tensor4.simps by (rule OutConv_at) (use r sh in simp_all)
    have "at4 y n oc i j = (\<Sum>c<cin. sd (sub (sub name ''conv'') ''weight'') [oc, c, 0, 0] * at4 s n c i j)
            + sd (sub (sub name ''conv'') ''bias'') [oc]"
      unfolding y_def tensor4.simps by (rule OutConv_at) (use r in \<open>simp_all add: s_def\<close>)
    also have "(\<Sum>c<cin. sd (sub (sub name ''conv'') ''weight'') [oc, c, 0, 0] * at4 s n c i j)
         = (\<Sum>c<cin. a * (sd (sub (sub name ''conv'') ''weight'') [oc, c, 0, 0] * at4 t1 n c i j)
                   + b * (sd (sub (sub name ''conv'') ''weight'') [oc, c, 0, 0] * at4 t2 n c i j))"
      by (rule sum.cong) (simp_all add: s_def b bc algebra_simps)
    also have "\<dots> = a * (\<Sum>c<cin. sd (sub (sub name ''conv'') ''weight'') [oc, c, 0, 0] * at4 t1 n c i j)
                 + b * (\<Sum>c<cin. sd (sub (sub name ''conv'') ''weight'') [oc, c, 0, 0] * at4 t2 n c i j)"
      by (simp add: sum.distrib sum_distrib_left)
    finally show ?thesis
      unfolding c1 c2 by (simp add: algebra_simps)
  qed
  have "shape4 y = shape4 y1" "shape4 y = shape4 y2" by (simp_all add: y_def y1 y2)
  with s y val show ?thesis by blast
qed

text \<open>The theorem at \<open>a = 2\<close>, \<open>b = 3\<close> for the \<open>OutConv(32, 8)\<close> with all parameters \<open>1\<close>.\<close>

theorem OutConv_forward_affine_witness:
  "\<exists>s y y1.
       shape4 (zeros4 1 32 1 1 :: real tensor4) = shape4 (zeros4 1 32 1 1 :: real tensor4)
     \<and> OutConv_forward (OutConv_init sd1 ''outc'' 32 8) (zeros4 1 32 1 1) = Some y1
     \<and> add4 (smul4 2 (zeros4 1 32 1 1)) (smul4 3 (zeros4 1 32 1 1)) = Some s
     \<and> OutConv_forward (OutConv_init sd1 ''outc'' 32 8) s = Some y
     \<and> at4 y 0 0 0 0 = 2 * at4 y1 0 0 0 0 + 3 * at4 y1 0 0 0 0
                       + (1 - 2 - 3) * sd1 (sub (sub ''outc'' ''conv'') ''bias'') [0]"
proof -
  obtain y1 where y1: "OutConv_forward (OutConv_init sd1 ''outc'' 32 8) (zeros4 1 32 1 1) = Some y1"
    using outc1_zeros by (simp add: outc1_def)
  then have d: "shape4 y1 = (1, 8, 1, 1)"
    using outc1_zeros by (auto simp: outc1_def)
  from OutConv_forward_affine[OF refl y1 y1, of 2 3] obtain s y where
    s: "add4 (smul4 2 (zeros4 1 32 1 1)) (smul4 3 (zeros4 1 32 1 1)) = Some s"
    and y: "OutConv_forward (OutConv_init sd1 ''outc'' 32 8) s = Some y"
    and sy: "shape4 y = shape4 y1"
    and v: "\<forall>n<dim0 y. \<forall>oc<dim1 y. \<forall>i<dim2 y. \<forall>j<dim3 y.
                 at4 y n oc i j = 2 * at4 y1 n oc i j + 3 * at4 y1 n oc i j
                                  + (1 - 2 - 3) * sd1 (sub (sub ''outc'' ''conv'') ''bias'') [oc]"
    by blast
  from sy d have "0 < dim0 y" "0 < dim1 y" "0 < dim2 y" "0 < dim3 y" by (simp_all add: shape4_eq)
  with v have "at4 y 0 0 0 0 = 2 * at4 y1 0 0 0 0 + 3 * at4 y1 0 0 0 0
                       + (1 - 2 - 3) * sd1 (sub (sub ''outc'' ''conv'') ''bias'') [0]"
    by blast
  with s y y1 show ?thesis by blast
qed

text \<open>
  Linearity itself fails: with bias \<open>1\<close>, \<open>a = b = 1\<close> and \<open>t1 = t2 = 0\<close>, the left side
  \<open>OutConv(t1 + t2)\<close> is \<open>1\<close> and the right side \<open>OutConv(t1) + OutConv(t2)\<close> is \<open>2\<close>.
\<close>

theorem OutConv_forward_linear_counterexample:
  "\<exists>s y y1 r.
       add4 (smul4 1 (zeros4 1 32 1 1)) (smul4 1 (zeros4 1 32 1 1)) = Some s
     \<and> OutConv_forward outc1 s = Some y
     \<and> OutConv_forward outc1 (zeros4 1 32 1 1) = Some y1
     \<and> add4 (smul4 1 y1) (smul4 1 y1) = Some r
     \<and> at4 y 0 0 0 0 = 1 \<and> at4 r 0 0 0 0 = 2"
proof -
  define z :: "real tensor4" where "z = zeros4 1 32 1 1"
  define y1 where "y1 = \<lparr>dim0 = 1, dim1 = 8, dim2 = 1, dim3 = 1,
           at4 = Conv2d_at (Conv2d_init sd1 (sub ''outc'' ''conv'') 32 8 1 0 True) z\<rparr>"
  have s: "add4 (smul4 1 z) (smul4 1 z) = Some z"
    by (simp add: add4_def smul4_def map4_def zeros4_def z_def broadcastable_def broadcast_dim_def)
  have y1: "OutConv_forward outc1 z = Some y1"
    unfolding z_def y1_def by (rule outc1_zeros)
  have v: "at4 y1 0 0 0 0 = 1"
    unfolding y1_def z_def tensor4.simps by (rule outc1_zeros_at)
  obtain r where r: "add4 (smul4 1 y1) (smul4 1 y1) = Some r" and rv: "at4 r 0 0 0 0 = 2"
    using v by (simp add: add4_def smul4_def map4_def y1_def broadcastable_def broadcast_dim_def bidx_def)
  from s y1 v r rv show ?thesis unfolding z_def by blast
qed

section \<open>The decoder groups of ThreeWayUNet\<close>

text \<open>
  Claim C6. Replacing the four \<open>Up\<close> blocks and the \<open>OutConv\<close> of one decoder group
  by any others leaves the outputs of the other two groups as they were: whenever both
  runs return, on the same input, the two other outputs are equal. And when only the
  parameter values of one group change (the state dict \<open>sd'\<close> instead of \<open>sd\<close>), on an
  input of at least \<open>16 \<times> 16\<close> pixels with at least one channel both runs return, and
  the outputs of the other two groups are the same tensors.
\<close>

theorem ThreeWayUNet_groups_isolated:
  fixes m :: "'a::linordered_field ThreeWayUNet" and sd sd' :: "'a state_dict"
  shows
   "(ThreeWayUNet_forward m x = Some (o1, o2, o3) \<and>
     ThreeWayUNet_forward (m\<lparr>up_group_1_0 := a0, up_group_1_1 := a1, up_group_1_2 := a2,
        up_group_1_3 := a3, up_group_1_4 := a4\<rparr>) x = Some (p1, p2, p3)
     \<longrightarrow> p2 = o2 \<and> p3 = o3)
  \<and> (ThreeWayUNet_forward m x = Some (o1, o2, o3) \<and>
     ThreeWayUNet_forward (m\<lparr>up_group_2_0 := a0, up_group_2_1 := a1, up_group_2_2 := a2,
        up_group_2_3 := a3, up_group_2_4 := a4\<rparr>) x = Some (q1, q2, q3)
     \<longrightarrow> q1 = o1 \<and> q3 = o3)
  \<and> (ThreeWayUNet_forward m x = Some (o1, o2, o3) \<and>
     ThreeWayUNet_forward (m\<lparr>up_group_3_0 := a0, up_group_3_1 := a1, up_group_3_2 := a2,
        up_group_3_3 := a3, up_group_3_4 := a4\<rparr>) x = Some (r1, r2, r3)
     \<longrightarrow> r1 = o1 \<and> r2 = o2)
  \<and> (shape4 x' = (B, n_channels, H, W) \<and> 0 < n_channels \<and> 0 < n_classes
       \<and> 16 \<le> H \<and> 16 \<le> W \<longrightarrow>
      (\<exists>o1 o2 o3 p1 q2 r3.
       ThreeWayUNet_forward (ThreeWayUNet_init sd name n_channels n_classes True) x'
         = Some (o1, o2, o3)
     \<and> ThreeWayUNet_forward ((ThreeWayUNet_init sd name n_channels n_classes True)\<lparr>
          up_group_1_0 := Up_init sd' (sub name ''up_group_1_0'') 512 128 True,
          up_group_1_1 := Up_init sd' (sub name ''up_group_1_1'') 256 64 True,
          up_group_1_2 := Up_init sd' (sub name ''up_group_1_2'') 128 32 True,
          up_group_1_3 := Up_init sd' (sub name ''up_group_1_3'') 64 32 True,
          up_group_1_4 := OutConv_init sd' (sub name ''up_group_1_4'') 32 3\<rparr>) x'
         = Some (p1, o2, o3)
     \<and> ThreeWayUNet_forward ((ThreeWayUNet_init sd name n_channels n_classes True)\<lparr>
          up_group_2_0 := Up_init sd' (sub name ''up_group_2_0'') 512 128 True,
          up_group_2_1 := Up_init sd' (sub name ''up_group_2_1'') 256 64 True,
          up_group_2_2 := Up_init sd' (sub name ''up_group_2_2'') 128 32 True,
          up_group_2_3 := Up_init sd' (sub name ''up_group_2_3'') 64 32 True,
          up_group_2_4 := OutConv_init sd' (sub name ''up_group_2_4'') 32 n_classes\<rparr>) x'
         = Some (o1, q2, o3)
     \<and> ThreeWayUNet_forward ((ThreeWayUNet_init sd name n_channels n_classes True)\<lparr>
          up_group_3_0 := Up_init sd' (sub name ''up_group_3_0'') 512 128 True,
          up_group_3_1 := Up_init sd' (sub name ''up_group_3_1'') 256 64 True,
          up_group_3_2 := Up_init sd' (sub name ''up_group_3_2'') 128 32 True,
          up_group_3_3 := Up_init sd' (sub name ''up_group_3_3'') 64 32 True,
          up_group_3_4 := OutConv_init sd' (sub name ''up_group_3_4'') 32 2\<rparr>) x'
         = Some (o1, o2, r3)))"
proof -
  have "\<exists>o1 o2 o3 p1 q2 r3.
       ThreeWayUNet_forward (ThreeWayUNet_init sd name n_channels n_classes True) x'
         = Some (o1, o2, o3)
     \<and> ThreeWayUNet_forward ((ThreeWayUNet_init sd name n_channels n_classes True)\<lparr>
          up_group_1_0 := Up_init sd' (sub name ''up_group_1_0'') 512 128 True,
          up_group_1_1 := Up_init sd' (sub name ''up_group_1_1'') 256 64 True,
          up_group_1_2 := Up_init sd' (sub name ''up_group_1_2'') 128 32 True,
          up_group_1_3 := Up_init sd' (sub name ''up_group_1_3'') 64 32 True,
          up_group_1_4 := OutConv_init sd' (sub name ''up_group_1_4'') 32 3\<rparr>) x'
         = Some (p1, o2, o3)
     \<and> ThreeWayUNet_forward ((ThreeWayUNet_init sd name n_channels n_classes True)\<lparr>
          up_group_2_0 := Up_init sd' (sub name ''up_group_2_0'') 512 128 True,
          up_group_2_1 := Up_init sd' (sub name ''up_group_2_1'') 256 64 True,
          up_group_2_2 := Up_init sd' (sub name ''up_group_2_2'') 128 32 True,
          up_group_2_3 := Up_init sd' (sub name ''up_group_2_3'') 64 32 True,
          up_group_2_4 := OutConv_init sd' (sub name ''up_group_2_4'') 32 n_classes\<rparr>) x'
         = Some (o1, q2, o3)
     \<and> ThreeWayUNet_forward ((ThreeWayUNet_init sd name n_channels n_classes True)\<lparr>
          up_group_3_0 := Up_init sd' (sub name ''up_group_3_0'') 512 128 True,
          up_group_3_1 := Up_init sd' (sub name ''up_group_3_1'') 256 64 True,
          up_group_3_2 := Up_init sd' (sub name ''up_group_3_2'') 128 32 True,
          up_group_3_3 := Up_init sd' (sub name ''up_group_3_3'') 64 32 True,
          up_group_3_4 := OutConv_init sd' (sub name ''up_group_3_4'') 32 2\<rparr>) x'
         = Some (o1, o2, r3)"
    if "shape4 x' = (B, n_channels, H, W)" "0 < n_channels" "0 < n_classes" "16 \<le> H" "16 \<le> W"
    using that by (rule ThreeWayUNet_reparametrised)
  then show ?thesis
    using ThreeWayUNet_other_groups[where m = m and x = x and ?o1.0 = o1 and ?o2.0 = o2
        and ?o3.0 = o3 and ?a0.0 = a0 and ?a1.0 = a1 and ?a2.0 = a2 and ?a3.0 = a3 and ?a4.0 = a4
        and ?p1.0 = p1 and ?p2.0 = p2 and ?p3.0 = p3 and ?q1.0 = q1 and ?q2.0 = q2 and ?q3.0 = q3
        and ?r1.0 = r1 and ?r2.0 = r2 and ?r3.0 = r3]
    by blast
qed

text \<open>
  The theorem at the decoder of CNet with all parameters \<open>0\<close>, one group at a time
  replaced by a group with all parameters \<open>1\<close>.
\<close>

theorem ThreeWayUNet_groups_isolated_witness:
  "\<exists>o1 o2 o3 p1 p2 p3 q1 q2 q3 r1 r2 r3.
     ThreeWayUNet_forward tw0 (zeros4 1 24 16 16) = Some (o1, o2, o3)
   \<and> ThreeWayUNet_forward (tw0\<lparr>
        up_group_1_0 := Up_init sd1 ''r_unet.up_group_1_0'' 512 128 True,
        up_group_1_1 := Up_init sd1 ''r_unet.up_group_1_1'' 256 64 True,
        up_group_1_2 := Up_init sd1 ''r_unet.up_group_1_2'' 128 32 True,
        up_group_1_3 := Up_init sd1 ''r_unet.up_group_1_3'' 64 32 True,
        up_group_1_4 := OutConv_init sd1 ''r_unet.up_group_1_4'' 32 3\<rparr>) (zeros4 1 24 16 16)
       = Some (p1, p2, p3)
   \<and> p2 = o2 \<and> p3 = o3
   \<and> ThreeWayUNet_forward (tw0\<lparr>
        up_group_2_0 := Up_init sd1 ''r_unet.up_group_2_0'' 512 128 True,
        up_group_2_1 := Up_init sd1 ''r_unet.up_group_2_1'' 256 64 True,
        up_group_2_2 := Up_init sd1 ''r_unet.up_group_2_2'' 128 32 True,
        up_group_2_3 := Up_init sd1 ''r_unet.up_group_2_3'' 64 32 True,
        up_group_2_4 := OutConv_init sd1 ''r_unet.up_group_2_4'' 32 5\<rparr>) (zeros4 1 24 16 16)
       = Some (q1, q2, q3)
   \<and> q1 = o1 \<and> q3 = o3
   \<and> ThreeWayUNet_forward (tw0\<lparr>
        up_group_3_0 := Up_init sd1 ''r_unet.up_group_3_0'' 512 128 True,
        up_group_3_1 := Up_init sd1 ''r_unet.up_group_3_1'' 256 64 True,
        up_group_3_2 := Up_init sd1 ''r_unet.up_group_3_2'' 128 32 True,
        up_group_3_3 := Up_init sd1 ''r_unet.up_group_3_3'' 64 32 True,
        up_group_3_4 := OutConv_init sd1 ''r_unet.up_group_3_4'' 32 2\<rparr>) (zeros4 1 24 16 16)
       = Some (r1, r2, r3)
   \<and> r1 = o1 \<and> r2 = o2"
proof -
  have x: "shape4 (zeros4 1 24 16 16 :: real tensor4) = (1, 24, 16, 16)" by simp
  obtain o1 o2 o3 where o: "ThreeWayUNet_forward tw0 (zeros4 1 24 16 16) = Some (o1, o2, o3)"
    using ThreeWayUNet_mixed_shape[OF x, of 5 sd0 "''r_unet''" sd0 sd0 sd0]
    unfolding tw0_def ThreeWayUNet_init_True by auto
  obtain p1 p2 p3 where p: "ThreeWayUNet_forward (tw0\<lparr>
        up_group_1_0 := Up_init sd1 ''r_unet.up_group_1_0'' 512 128 True,
        up_group_1_1 := Up_init sd1 ''r_unet.up_group_1_1'' 256 64 True,
        up_group_1_2 := Up_init sd1 ''r_unet.up_group_1_2'' 128 32 True,
        up_group_1_3 := Up_init sd1 ''r_unet.up_group_1_3'' 64 32 True,
        up_group_1_4 := OutConv_init sd1 ''r_unet.up_group_1_4'' 32 3\<rparr>) (zeros4 1 24 16 16)
       = Some (p1, p2, p3)"
    using ThreeWayUNet_mixed_shape[OF x, of 5 sd0 "''r_unet''" sd1 sd0 sd0]
    unfolding tw0_def ThreeWayUNet_init_True by (auto simp: sub_def)
  obtain q1 q2 q3 where q: "ThreeWayUNet_forward (tw0\<lparr>
        up_group_2_0 := Up_init sd1 ''r_unet.up_group_2_0'' 512 128 True,
        up_group_2_1 := Up_init sd1 ''r_unet.up_group_2_1'' 256 64 True,
        up_group_2_2 := Up_init sd1 ''r_unet.up_group_2_2'' 128 32 True,
        up_group_2_3 := Up_init sd1 ''r_unet.up_group_2_3'' 64 32 True,
        up_group_2_4 := OutConv_init sd1 ''r_unet.up_group_2_4'' 32 5\<rparr>) (zeros4 1 24 16 16)
       = Some (q1, q2, q3)"
    using ThreeWayUNet_mixed_shape[OF x, of 5 sd0 "''r_unet''" sd0 sd1 sd0]
    unfolding tw0_def ThreeWayUNet_init_True by (auto simp: sub_def)
  obtain r1 r2 r3 where r: "ThreeWayUNet_forward (tw0\<lparr>
        up_group_3_0 := Up_init sd1 ''r_unet.up_group_3_0'' 512 128 True,
        up_group_3_1 := Up_init sd1 ''r_unet.up_group_3_1'' 256 64 True,
        up_group_3_2 := Up_init sd1 ''r_unet.up_group_3_2'' 128 32 True,
        up_group_3_3 := Up_init sd1 ''r_unet.up_group_3_3'' 64 32 True,
        up_group_3_4 := OutConv_init sd1 ''r_unet.up_group_3_4'' 32 2\<rparr>) (zeros4 1 24 16 16)
       = Some (r1, r2, r3)"
    using ThreeWayUNet_mixed_shape[OF x, of 5 sd0 "''r_unet''" sd0 sd0 sd1]
    unfolding tw0_def ThreeWayUNet_init_True by (auto simp: sub_def)
  from ThreeWayUNet_groups_isolated[where m = tw0 and x = "zeros4 1 24 16 16"
      and ?o1.0 = o1 and ?o2.0 = o2 and ?o3.0 = o3
      and ?a0.0 = "Up_init sd1 ''r_unet.up_group_1_0'' 512 128 True"
      and ?a1.0 = "Up_init sd1 ''r_unet.up_group_1_1'' 256 64 True"
      and ?a2.0 = "Up_init sd1 ''r_unet.up_group_1_2'' 128 32 True"
      and ?a3.0 = "Up_init sd1 ''r_unet.up_group_1_3'' 64 32 True"
      and ?a4.0 = "OutConv_init sd1 ''r_unet.up_group_1_4'' 32 3"
      and ?p1.0 = p1 and ?p2.0 = p2 and ?p3.0 = p3] o p
  have 1: "p2 = o2 \<and> p3 = o3" by blast
  from ThreeWayUNet_groups_isolated[where m = tw0 and x = "zeros4 1 24 16 16"
      and ?o1.0 = o1 and ?o2.0 = o2 and ?o3.0 = o3
      and ?a0.0 = "Up_init sd1 ''r_unet.up_group_2_0'' 512 128 True"
      and ?a1.0 = "Up_init sd1 ''r_unet.up_group_2_1'' 256 64 True"
      and ?a2.0 = "Up_init sd1 ''r_unet.up_group_2_2'' 128 32 True"
      and ?a3.0 = "Up_init sd1 ''r_unet.up_group_2_3'' 64 32 True"
      and ?a4.0 = "OutConv_init sd1 ''r_unet.up_group_2_4'' 32 5"
      and ?q1.0 = q1 and ?q2.0 = q2 and ?q3.0 = q3] o q
  have 2: "q1 = o1 \<and> q3 = o3" by blast
  from ThreeWayUNet_groups_isolated[where m = tw0 and x = "zeros4 1 24 16 16"
      and ?o1.0 = o1 and ?o2.0 = o2 and ?o3.0 = o3
      and ?a0.0 = "Up_init sd1 ''r_unet.up_group_3_0'' 512 128 True"
      and ?a1.0 = "Up_init sd1 ''r_unet.up_group_3_1'' 256 64 True"
      and ?a2.0 = "Up_init sd1 ''r_unet.up_group_3_2'' 128 32 True"
      and ?a3.0 = "Up_init sd1 ''r_unet.up_group_3_3'' 64 32 True"
      and ?a4.0 = "OutConv_init sd1 ''r_unet.up_group_3_4'' 32 2"
      and ?r1.0 = r1 and ?r2.0 = r2 and ?r3.0 = r3] o r
  have 3: "r1 = o1 \<and> r2 = o2" by blast
  from o p q r 1 2 3 show ?thesis by blast
qed

section \<open>The heads of CNet\<close>



section \<open>TNet and the order of the glass slices\<close>




end
